theory Spec2Isabelle
  imports Main "HOL-Library.Word"
begin

unbundle bit_operations_syntax

section \<open>A read-only QCOW2 decoder (qcow2.go)\<close>

text \<open>
  The Go package reads a QCOW2 image through an \<^verbatim>\<open>io.ReadSeeker\<close> and exposes the
  virtual disk as an \<^verbatim>\<open>io.Reader\<close>. The embedding keeps the structure of the source:
  \<^item> the byte source is a record of the file's bytes, the cursor and a trace of the
    calls made on it, threaded through every function;
  \<^item> Go's \<^verbatim>\<open>int\<close> and \<^verbatim>\<open>int64\<close> are \<open>int\<close>; every conversion from an unsigned
    header field goes through \<open>sint\<close>, so the wrap-around of \<^verbatim>\<open>int(uint64)\<close> on a
    64-bit platform is part of the model; \<^verbatim>\<open>uint32\<close> and \<^verbatim>\<open>uint64\<close> are words;
  \<^item> an error return is \<open>Err\<close> with the state reached, a run-time panic (index or
    slice out of range, negative \<^verbatim>\<open>make\<close>, division by zero) is \<open>Panic\<close>;
  \<^item> the deflate decoder of \<^verbatim>\<open>compress/flate\<close> is not part of the package: it is
    a parameter of the functions that use it.
\<close>

subsection \<open>Errors and results\<close>

type_synonym byte = "8 word"

text \<open>
  One constructor per error value the package can return: the two errors of
  \<^verbatim>\<open>io.ReadFull\<close>, a failed seek, any other error of the deflate reader, and one per
  \<^verbatim>\<open>errors.New\<close>/\<^verbatim>\<open>fmt.Errorf\<close> of \<^verbatim>\<open>parseHeaderAndL1\<close>, in source order.
\<close>

datatype error =
    EOF
  | ErrUnexpectedEOF
  | SeekError
  | InflateError
  | WrongMagic
  | VersionNotSupported "32 word"
  | BackingFileNotSupported
  | ClusterSizeNotSupported
  | EncryptionNotSupported
  | DirtyBitSet
  | CorruptBitSet
  | ExternalDataFileNotSupported
  | ExtendedL2NotSupported
  | UnknownIncompatibleFeatures "64 word"
  | HeaderLengthNotAligned
  | HeaderLengthTooSmall
  | HeaderLengthTooLarge
  | HeaderTooShortForCompression "32 word"
  | CompressionTypeNotSupported "32 word"
  | FailedToReadL1 error

text \<open>The error taxonomy of the specification, and the class of each error value.\<close>

datatype error_class =
    FormatError
  | UnsupportedVersionError
  | UnsupportedFeatureError
  | UnsupportedCompressionError
  | IOError
  | EndOfStream

fun errorClass :: "error \<Rightarrow> error_class" where
  "errorClass EOF = EndOfStream"
| "errorClass ErrUnexpectedEOF = IOError"
| "errorClass SeekError = IOError"
| "errorClass InflateError = IOError"
| "errorClass WrongMagic = FormatError"
| "errorClass (VersionNotSupported v) = UnsupportedVersionError"
| "errorClass BackingFileNotSupported = UnsupportedFeatureError"
| "errorClass ClusterSizeNotSupported = UnsupportedFeatureError"
| "errorClass EncryptionNotSupported = UnsupportedFeatureError"
| "errorClass DirtyBitSet = UnsupportedFeatureError"
| "errorClass CorruptBitSet = UnsupportedFeatureError"
| "errorClass ExternalDataFileNotSupported = UnsupportedFeatureError"
| "errorClass ExtendedL2NotSupported = UnsupportedFeatureError"
| "errorClass (UnknownIncompatibleFeatures b) = UnsupportedFeatureError"
| "errorClass HeaderLengthNotAligned = FormatError"
| "errorClass HeaderLengthTooSmall = FormatError"
| "errorClass HeaderLengthTooLarge = FormatError"
| "errorClass (HeaderTooShortForCompression n) = FormatError"
| "errorClass (CompressionTypeNotSupported c) = UnsupportedCompressionError"
| "errorClass (FailedToReadL1 e) = IOError"

text \<open>
  The outcome of a call: a value with the state reached, an error with the state
  reached, or a panic.
\<close>

datatype ('a, 's) result = Ok 'a 's | Err error 's | Panic

subsection \<open>The byte source\<close>

text \<open>
  The \<^verbatim>\<open>io.ReadSeeker\<close> is modelled as a file held in memory: \<open>Seek\<close> to a negative
  offset fails, a seek past the end succeeds and the next read finds no bytes.
  The trace records the calls that reach the source, in order.
\<close>

datatype io_event =
    SeekTo int
  | ReadAt nat nat
  | InflateAt nat nat

record image =
  bytes :: "byte list"
  pos :: nat
  trace :: "io_event list"

definition Seek :: "image \<Rightarrow> int \<Rightarrow> (unit, image) result" where
  "Seek img offset =
     (let img' = img\<lparr>trace := trace img @ [SeekTo offset]\<rparr> in
      if offset < 0 then Err SeekError img'
      else Ok () (img'\<lparr>pos := nat offset\<rparr>))"

text \<open>
  \<^verbatim>\<open>io.ReadFull(image, buf)\<close> with \<open>n = len(buf)\<close>. A buffer of length 0 is
  filled without calling the source. Otherwise the bytes from the cursor are
  consumed; with fewer than \<open>n\<close> of them the error is \<^verbatim>\<open>io.EOF\<close> when there was
  none and \<^verbatim>\<open>io.ErrUnexpectedEOF\<close> otherwise. The result is the error (\<open>None\<close> for
  \<^verbatim>\<open>nil\<close>), the bytes stored at the start of the buffer, and the source.
\<close>

definition ReadFull :: "image \<Rightarrow> nat \<Rightarrow> error option \<times> byte list \<times> image" where
  "ReadFull img n =
     (if n = 0 then (None, [], img)
      else
        let avail = drop (pos img) (bytes img);
            img' = img\<lparr>trace := trace img @ [ReadAt (pos img) n]\<rparr>
        in if n \<le> length avail
           then (None, take n avail, img'\<lparr>pos := pos img + n\<rparr>)
           else (Some (if avail = [] then EOF else ErrUnexpectedEOF), avail,
                 img'\<lparr>pos := pos img + length avail\<rparr>))"

text \<open>
  The deflate reader over the source from the cursor, read with \<^verbatim>\<open>io.ReadFull\<close>
  for \<open>n\<close> bytes: given the bytes from the cursor and \<open>n\<close>, the parameter gives the
  error (\<open>None\<close> when \<open>n\<close> bytes were produced), the bytes produced and the number of
  source bytes consumed.
\<close>

type_synonym inflater = "byte list \<Rightarrow> nat \<Rightarrow> error option \<times> byte list \<times> nat"

text \<open>\<^verbatim>\<open>copy(dst, src)\<close>: the first \<open>min (len dst) (len src)\<close> bytes of \<open>dst\<close> are replaced.\<close>

definition copy :: "'a list \<Rightarrow> 'a list \<Rightarrow> 'a list" where
  "copy dst src = take (length dst) (src @ drop (length src) dst)"

subsection \<open>Big-endian fields\<close>

definition beUint :: "byte list \<Rightarrow> 'a::len word" where
  "beUint bs = foldl (\<lambda>acc b. push_bit 8 acc OR ucast b) 0 bs"

text \<open>
  \<^verbatim>\<open>binary.BigEndian.Uint32(b)\<close> and \<^verbatim>\<open>Uint64(b)\<close> read the first 4 and 8 bytes of
  \<open>b\<close>. Every call of the package passes a slice that is long enough.
\<close>

definition Uint32 :: "byte list \<Rightarrow> 32 word" where
  "Uint32 b = beUint (take 4 b)"

definition Uint64 :: "byte list \<Rightarrow> 64 word" where
  "Uint64 b = beUint (take 8 b)"

text \<open>The slice expression \<^verbatim>\<open>b[lo:hi]\<close> for \<open>lo \<le> hi \<le> len b\<close>.\<close>

definition slice :: "'a list \<Rightarrow> nat \<Rightarrow> nat \<Rightarrow> 'a list" where
  "slice b lo hi = take (hi - lo) (drop lo b)"

text \<open>Go's \<^verbatim>\<open>/\<close> and \<^verbatim>\<open>%\<close> on integers truncate towards zero.\<close>

definition goDiv :: "int \<Rightarrow> int \<Rightarrow> int" where
  "goDiv a b = sgn a * sgn b * (\<bar>a\<bar> div \<bar>b\<bar>)"

definition goRem :: "int \<Rightarrow> int \<Rightarrow> int" where
  "goRem a b = sgn a * (\<bar>a\<bar> mod \<bar>b\<bar>)"

subsection \<open>Configuration and the L1 table\<close>

record qcow2Config =
  clusterSize :: int
  nClusters :: int
  l1Table :: "int list"
  l2TableSize :: int
  l2CompressedEntryHostClusterOffsetMask :: "64 word"

definition l1EntryOffsetMask :: "64 word" where
  "l1EntryOffsetMask = 0xfffffffffffe00"

text \<open>
  \<^verbatim>\<open>parseL1Table(image, offset, size)\<close>. \<open>size\<close> comes from a \<^verbatim>\<open>uint32\<close>, so it is
  never negative.
\<close>

definition parseL1Table :: "image \<Rightarrow> int \<Rightarrow> nat \<Rightarrow> (int list, image) result" where
  "parseL1Table img offset sz =
     (case Seek img offset of
        Err e img1 \<Rightarrow> Err e img1
      | Panic \<Rightarrow> Panic
      | Ok _ img1 \<Rightarrow>
          (case ReadFull img1 (sz * 8) of
             (Some e, _, img2) \<Rightarrow> Err e img2
           | (None, buf, img2) \<Rightarrow>
               Ok (map (\<lambda>i. sint (Uint64 (drop (i * 8) buf) AND l1EntryOffsetMask)) [0..<sz])
                  img2))"

definition incFeatDirtyBit :: "64 word" where "incFeatDirtyBit = push_bit 0 1"
definition incFeatCorruptBit :: "64 word" where "incFeatCorruptBit = push_bit 1 1"
definition incFeatExternalDataFileBit :: "64 word" where "incFeatExternalDataFileBit = push_bit 2 1"
definition incFeatCompressionTypeBit :: "64 word" where "incFeatCompressionTypeBit = push_bit 3 1"
definition incFeatExtendedL2EntriesBit :: "64 word" where "incFeatExtendedL2EntriesBit = push_bit 4 1"
definition incFeatUnknownBits :: "64 word" where "incFeatUnknownBits = NOT 0b11111"
definition compressionTypeZlib :: "32 word" where "compressionTypeZlib = 0"

definition magic :: "byte list" where
  "magic = [0x51, 0x46, 0x49, 0xfb]"

text \<open>
  The version-3 block of \<^verbatim>\<open>parseHeaderAndL1\<close> (the body of \<^verbatim>\<open>if ver == 3\<close>): the
  checks in source order. The additional fields are read before the compression
  checks, and the compression type is taken from \<^verbatim>\<open>v3Header[0:4]\<close>, as the source
  does.
\<close>

definition parseV3Header :: "image \<Rightarrow> (unit, image) result" where
  "parseV3Header img =
     (case ReadFull img 32 of
        (Some e, _, img1) \<Rightarrow> Err e img1
      | (None, v3Header, img1) \<Rightarrow>
          let incompatibleFeatures = Uint64 (slice v3Header 0 8) in
          if incompatibleFeatures AND incFeatDirtyBit \<noteq> 0 then Err DirtyBitSet img1
          else if incompatibleFeatures AND incFeatCorruptBit \<noteq> 0 then Err CorruptBitSet img1
          else if incompatibleFeatures AND incFeatExternalDataFileBit \<noteq> 0
            then Err ExternalDataFileNotSupported img1
          else
            let hasNonDefaultCompression =
                  (incompatibleFeatures AND incFeatCompressionTypeBit \<noteq> 0) in
            if incompatibleFeatures AND incFeatExtendedL2EntriesBit \<noteq> 0
              then Err ExtendedL2NotSupported img1
            else if incompatibleFeatures AND incFeatUnknownBits \<noteq> 0
              then Err (UnknownIncompatibleFeatures (incompatibleFeatures AND incFeatUnknownBits)) img1
            else
              let headerLength = Uint32 (slice v3Header 28 32) in
              if unat headerLength mod 8 \<noteq> 0 then Err HeaderLengthNotAligned img1
              else if headerLength < 104 then Err HeaderLengthTooSmall img1
              else if headerLength > 1000 then Err HeaderLengthTooLarge img1
              else
                (case ReadFull img1 (unat (headerLength - 104)) of
                   (Some e, _, img2) \<Rightarrow> Err e img2
                 | (None, additionalFields, img2) \<Rightarrow>
                     if hasNonDefaultCompression then
                       if headerLength < 108 then Err (HeaderTooShortForCompression headerLength) img2
                       else
                         let compressionType = Uint32 (slice v3Header 0 4) in
                         if compressionType \<noteq> compressionTypeZlib
                         then Err (CompressionTypeNotSupported compressionType) img2
                         else Ok () img2
                     else Ok () img2))"

definition parseHeaderAndL1 :: "image \<Rightarrow> (qcow2Config, image) result" where
  "parseHeaderAndL1 img =
     (case ReadFull img 72 of
        (Some e, _, img1) \<Rightarrow> Err e img1
      | (None, header, img1) \<Rightarrow>
          if slice header 0 4 \<noteq> magic then Err WrongMagic img1
          else
            let ver = Uint32 (slice header 4 8) in
            if ver \<noteq> 2 \<and> ver \<noteq> 3 then Err (VersionNotSupported ver) img1
            else
              let backingFileNameOffset = Uint64 (slice header 8 16) in
              if backingFileNameOffset \<noteq> 0 then Err BackingFileNotSupported img1
              else
                let clusterBits = Uint32 (slice header 20 24) in
                if clusterBits < 9 \<or> clusterBits > 21 then Err ClusterSizeNotSupported img1
                else
                  let cSize = (2::int) ^ unat clusterBits;
                      virtualDiskSize = Uint64 (slice header 24 32);
                      encryptionMethod = Uint32 (slice header 32 36)
                  in
                  if encryptionMethod \<noteq> 0 then Err EncryptionNotSupported img1
                  else
                    let l1TableSize = unat (Uint32 (slice header 36 40));
                        l1TableOffset = sint (Uint64 (slice header 40 48))
                    in
                    (case (if ver = 3 then parseV3Header img1 else Ok () img1) of
                       Err e img2 \<Rightarrow> Err e img2
                     | Panic \<Rightarrow> Panic
                     | Ok _ img2 \<Rightarrow>
                         (case parseL1Table img2 l1TableOffset l1TableSize of
                            Err e img3 \<Rightarrow> Err (FailedToReadL1 e) img3
                          | Panic \<Rightarrow> Panic
                          | Ok l1 img3 \<Rightarrow>
                              let l2Size = goDiv cSize 8 in
                              Ok \<lparr> clusterSize = cSize,
                                   nClusters = goDiv (sint virtualDiskSize) cSize,
                                   l1Table = l1,
                                   l2TableSize = l2Size,
                                   l2CompressedEntryHostClusterOffsetMask =
                                     push_bit (70 - unat clusterBits) 1 - 1 \<rparr>
                                 img3)))"

subsection \<open>L2 entries and the reader\<close>

record l2Entry =
  offset :: int
  compressed :: bool
  allZeroes :: bool

record qcow2Reader = qcow2Config +
  image_src :: image
  currentCluster :: int
  currentL2Table :: "l2Entry list"
  currentData :: "byte list"
  currentOffset :: int

definition l2EntryCompressedBit :: "64 word" where
  "l2EntryCompressedBit = push_bit 62 1"

definition l2EntryNoncompressedAllZeroesBit :: "64 word" where
  "l2EntryNoncompressedAllZeroesBit = push_bit 0 1"

definition l2EntryNoncompressedOffsetMask :: "64 word" where
  "l2EntryNoncompressedOffsetMask = 0xfffffffffffe00"

text \<open>The body of the decoding loop of \<^verbatim>\<open>parseL2Table\<close>: the entry stored for one 8-byte value.\<close>

definition decodeL2Entry :: "64 word \<Rightarrow> 64 word \<Rightarrow> l2Entry" where
  "decodeL2Entry m entry =
     (if entry AND l2EntryCompressedBit \<noteq> 0
      then \<lparr>offset = sint (entry AND m), compressed = True, allZeroes = False\<rparr>
      else if entry AND l2EntryNoncompressedAllZeroesBit \<noteq> 0
        then \<lparr>offset = 0, compressed = False, allZeroes = True\<rparr>
        else \<lparr>offset = sint (entry AND l2EntryNoncompressedOffsetMask),
              compressed = False, allZeroes = False\<rparr>)"

text \<open>
  A loop \<^verbatim>\<open>for i := 0; i < len(vs); i++ { xs[i0+i] = vs[i] }\<close>: the stores in index
  order; \<open>None\<close> is the index-out-of-range panic of the first store that misses \<open>xs\<close>.
\<close>

fun storeAll :: "nat \<Rightarrow> 'a list \<Rightarrow> 'a list \<Rightarrow> 'a list option" where
  "storeAll i [] xs = Some xs"
| "storeAll i (v # vs) xs =
     (if i < length xs then storeAll (Suc i) vs (xs[i := v]) else None)"

definition parseL2Table :: "qcow2Reader \<Rightarrow> int \<Rightarrow> (unit, qcow2Reader) result" where
  "parseL2Table r l2TableIdx =
     (if l2TableIdx < 0 \<or> int (length (l1Table r)) \<le> l2TableIdx then Panic
      else if l1Table r ! nat l2TableIdx = 0 then
        (case storeAll 0
                (replicate (nat (l2TableSize r))
                   \<lparr>offset = 0, compressed = False, allZeroes = True\<rparr>)
                (currentL2Table r) of
           None \<Rightarrow> Panic
         | Some tab \<Rightarrow> Ok () (r\<lparr>currentL2Table := tab\<rparr>))
      else
        (case Seek (image_src r) (l1Table r ! nat l2TableIdx) of
           Err e img1 \<Rightarrow> Err e (r\<lparr>image_src := img1\<rparr>)
         | Panic \<Rightarrow> Panic
         | Ok _ img1 \<Rightarrow>
             let l2Entries = min (l2TableSize r) (nClusters r - currentCluster r) in
             if l2Entries < 0 then Panic
             else
               (case ReadFull img1 (nat (8 * l2Entries)) of
                  (Some e, _, img2) \<Rightarrow> Err e (r\<lparr>image_src := img2\<rparr>)
                | (None, buf, img2) \<Rightarrow>
                    (case storeAll 0
                            (map (\<lambda>i. decodeL2Entry (l2CompressedEntryHostClusterOffsetMask r)
                                        (Uint64 (drop (i * 8) buf)))
                                 [0..<nat l2Entries])
                            (currentL2Table r) of
                       None \<Rightarrow> Panic
                     | Some tab \<Rightarrow> Ok () (r\<lparr>image_src := img2, currentL2Table := tab\<rparr>)))))"

text \<open>
  \<^verbatim>\<open>fillNextCluster\<close> is split in two for the proofs: \<open>materializeCluster\<close> is its
  second half, from the lookup of the entry to the end (the \<^verbatim>\<open>switch\<close> that fills
  \<^verbatim>\<open>currentData\<close>); \<open>fillNextCluster\<close> is the first half followed by it.
\<close>

definition materializeCluster :: "inflater \<Rightarrow> qcow2Reader \<Rightarrow> (unit, qcow2Reader) result" where
  "materializeCluster inflate r1 =
     (let idx = goRem (currentCluster r1) (l2TableSize r1) in
      if idx < 0 \<or> int (length (currentL2Table r1)) \<le> idx then Panic
      else
        let entry = currentL2Table r1 ! nat idx in
        if allZeroes entry then
          (case storeAll 0 (replicate (nat (clusterSize r1)) 0) (currentData r1) of
             None \<Rightarrow> Panic
           | Some d \<Rightarrow> Ok () (r1\<lparr>currentData := d, currentOffset := 0\<rparr>))
        else if compressed entry then
          (case Seek (image_src r1) (offset entry) of
             Err e img1 \<Rightarrow> Err e (r1\<lparr>image_src := img1\<rparr>)
           | Panic \<Rightarrow> Panic
           | Ok _ img1 \<Rightarrow>
               if length (currentData r1) = 0
               then Ok () (r1\<lparr>image_src := img1, currentOffset := 0\<rparr>)
               else
                 (case inflate (drop (pos img1) (bytes img1)) (length (currentData r1)) of
                    (err, out, used) \<Rightarrow>
                      let img2 = img1\<lparr>pos := pos img1 + used,
                                      trace := trace img1 @
                                        [InflateAt (pos img1) (length (currentData r1))]\<rparr>;
                          r2 = r1\<lparr>image_src := img2,
                                  currentData := copy (currentData r1) out\<rparr>
                      in (case err of
                            Some e \<Rightarrow> Err e r2
                          | None \<Rightarrow> Ok () (r2\<lparr>currentOffset := 0\<rparr>))))
        else
          (case Seek (image_src r1) (offset entry) of
             Err e img1 \<Rightarrow> Err e (r1\<lparr>image_src := img1\<rparr>)
           | Panic \<Rightarrow> Panic
           | Ok _ img1 \<Rightarrow>
               (case ReadFull img1 (length (currentData r1)) of
                  (err, got, img2) \<Rightarrow>
                    let r2 = r1\<lparr>image_src := img2,
                                currentData := copy (currentData r1) got\<rparr>
                    in (case err of
                          Some e \<Rightarrow> Err e r2
                        | None \<Rightarrow> Ok () (r2\<lparr>currentOffset := 0\<rparr>)))))"

definition fillNextCluster :: "inflater \<Rightarrow> qcow2Reader \<Rightarrow> (unit, qcow2Reader) result" where
  "fillNextCluster inflate r0 =
     (let r = r0\<lparr>currentCluster := currentCluster r0 + 1\<rparr> in
      if currentCluster r = nClusters r then Err EOF r
      else if l2TableSize r = 0 then Panic
      else
        (case (if goRem (currentCluster r) (l2TableSize r) = 0
               then parseL2Table r (goDiv (currentCluster r) (l2TableSize r))
               else Ok () r) of
           Err e r1 \<Rightarrow> Err e r1
         | Panic \<Rightarrow> Panic
         | Ok _ r1 \<Rightarrow> materializeCluster inflate r1))"

text \<open>
  \<^verbatim>\<open>Read(p)\<close> with \<open>plen = len(p)\<close>. The value is the list of the \<open>n\<close> bytes stored at
  the start of \<open>p\<close>; its length is the count the Go method returns.
\<close>

definition Read :: "inflater \<Rightarrow> qcow2Reader \<Rightarrow> nat \<Rightarrow> (byte list, qcow2Reader) result" where
  "Read inflate r plen =
     (case (if clusterSize r \<le> currentOffset r then fillNextCluster inflate r else Ok () r) of
        Err e r1 \<Rightarrow> Err e r1
      | Panic \<Rightarrow> Panic
      | Ok _ r1 \<Rightarrow>
          let n = min (clusterSize r1 - currentOffset r1) (int plen) in
          if currentOffset r1 < 0 \<or> n < 0
             \<or> int (length (currentData r1)) < currentOffset r1 + n
          then Panic
          else Ok (slice (currentData r1) (nat (currentOffset r1)) (nat (currentOffset r1 + n)))
                  (r1\<lparr>currentOffset := currentOffset r1 + n\<rparr>))"

definition NewReader :: "image \<Rightarrow> (qcow2Reader, image) result" where
  "NewReader img =
     (case parseHeaderAndL1 img of
        Err e img1 \<Rightarrow> Err e img1
      | Panic \<Rightarrow> Panic
      | Ok config img1 \<Rightarrow>
          Ok \<lparr> clusterSize = clusterSize config,
               nClusters = nClusters config,
               l1Table = l1Table config,
               l2TableSize = l2TableSize config,
               l2CompressedEntryHostClusterOffsetMask =
                 l2CompressedEntryHostClusterOffsetMask config,
               image_src = img1,
               currentCluster = - 1,
               currentL2Table =
                 replicate (nat (l2TableSize config))
                   \<lparr>offset = 0, compressed = False, allZeroes = False\<rparr>,
               currentData = replicate (nat (clusterSize config)) 0,
               currentOffset = clusterSize config \<rparr>
             img1)"

text \<open>
  A caller's read loop (\<^verbatim>\<open>io.ReadAll\<close>, \<^verbatim>\<open>io.Copy\<close>): one \<open>Read\<close> per request length in
  the list, the bytes concatenated, until a call returns an error. \<open>Stopped e out r\<close>
  gives the error that ended the loop, the bytes delivered before it and the last
  state; \<open>Unfinished\<close> means that the requests ran out before any call returned an
  error.
\<close>

datatype read_all = Stopped error "byte list" qcow2Reader | Unfinished | Crashed

fun readLoop :: "inflater \<Rightarrow> qcow2Reader \<Rightarrow> nat list \<Rightarrow> read_all" where
  "readLoop inflate r [] = Unfinished"
| "readLoop inflate r (plen # rest) =
     (case Read inflate r plen of
        Panic \<Rightarrow> Crashed
      | Err e r1 \<Rightarrow> Stopped e [] r1
      | Ok out r1 \<Rightarrow>
          (case readLoop inflate r1 rest of
             Stopped e tl_out r2 \<Rightarrow> Stopped e (out @ tl_out) r2
           | Unfinished \<Rightarrow> Unfinished
           | Crashed \<Rightarrow> Crashed))"

subsection \<open>Observing results\<close>

text \<open>The value and the state of a result, for stating facts about concrete runs.\<close>

fun resValue :: "('a, 's) result \<Rightarrow> 'a" where
  "resValue (Ok a s) = a"

fun resState :: "('a, 's) result \<Rightarrow> 's" where
  "resState (Ok a s) = s"
| "resState (Err e s) = s"

fun isOk :: "('a, 's) result \<Rightarrow> bool" where
  "isOk (Ok a s) = True"
| "isOk (Err e s) = False"
| "isOk Panic = False"

text \<open>
  The three cluster encodings of the specification, read off an entry in the order
  of the \<^verbatim>\<open>switch\<close> of \<^verbatim>\<open>fillNextCluster\<close>: \<^verbatim>\<open>allZeroes\<close> first, then \<^verbatim>\<open>compressed\<close>,
  then the default.
\<close>

datatype l2Kind = AllZero | Compressed int | Raw int

definition entryKind :: "l2Entry \<Rightarrow> l2Kind" where
  "entryKind entry =
     (if allZeroes entry then AllZero
      else if compressed entry then Compressed (offset entry)
      else Raw (offset entry))"

subsection \<open>Concrete images\<close>

text \<open>
  An instance of the decompressor for the concrete images below: a deflate stream
  that consists of one final stored block (RFC 1951, section 3.2.4: the byte \<open>0x01\<close>,
  \<open>LEN\<close> and its complement in little-endian order, then \<open>LEN\<close> literal bytes).
\<close>

definition storedInflate :: inflater where
  "storedInflate src n =
     (case src of
        h # l0 # l1 # n0 # n1 # rest \<Rightarrow>
          let len = unat l0 + 256 * unat l1 in
          if h = 1 \<and> n0 = NOT l0 \<and> n1 = NOT l1 \<and> len \<le> length rest
          then (if n \<le> len then (None, take n rest, 5 + len)
                else (Some (if len = 0 then EOF else ErrUnexpectedEOF), take len rest, 5 + len))
          else (Some InflateError, [], length src)
      | _ \<Rightarrow> (Some ErrUnexpectedEOF, [], length src))"

text \<open>
  A version-2 header with 512-byte clusters: the two low bytes of the virtual size
  and the number of L1 entries are the arguments; the L1 table is at offset 72.
\<close>

definition header2 :: "byte \<Rightarrow> byte \<Rightarrow> byte \<Rightarrow> byte list" where
  "header2 vhi vlo l1n =
     [0x51, 0x46, 0x49, 0xfb,  0, 0, 0, 2,  0, 0, 0, 0, 0, 0, 0, 0,  0, 0, 0, 0,
      0, 0, 0, 9,  0, 0, 0, 0, 0, 0, vhi, vlo,  0, 0, 0, 0,  0, 0, 0, l1n,
      0, 0, 0, 0, 0, 0, 0, 72,  0, 0, 0, 0, 0, 0, 0, 0,  0, 0, 0, 0,  0, 0, 0, 0,
      0, 0, 0, 0, 0, 0, 0, 0]"

definition rawCluster :: "byte list" where
  "rawCluster = map of_nat [0..<512]"

definition packedCluster :: "byte list" where
  "packedCluster = replicate 512 0x5a"

text \<open>
  Three clusters behind one L2 table at offset 512: a raw cluster at 1024, an
  all-zero cluster, and a compressed cluster at 1536.
\<close>

definition img3 :: image where
  "img3 = \<lparr>bytes =
            header2 6 0 1 @ [0, 0, 0, 0, 0, 0, 2, 0] @ replicate 432 0
            @ [0, 0, 0, 0, 0, 0, 4, 0] @ [0, 0, 0, 0, 0, 0, 0, 1] @ [0x40, 0, 0, 0, 0, 0, 6, 0]
            @ replicate 488 0
            @ rawCluster
            @ [1, 0, 2, 0xff, 0xfd] @ packedCluster,
          pos = 0, trace = []\<rparr>"

definition rdr3 :: qcow2Reader where
  "rdr3 = resValue (NewReader img3)"

subsection \<open>Runs of a reader\<close>

text \<open>
  What a read loop delivered and where it stopped; the outcome of every call of a
  sequence of calls that goes on after an error, as a caller that ignores the
  end-of-stream signal would; and the state after a sequence of calls that all
  returned bytes.
\<close>

fun delivered :: "read_all \<Rightarrow> (error \<times> byte list) option" where
  "delivered (Stopped e out r) = Some (e, out)"
| "delivered Unfinished = None"
| "delivered Crashed = None"

fun lastState :: "read_all \<Rightarrow> qcow2Reader option" where
  "lastState (Stopped e out r) = Some r"
| "lastState Unfinished = None"
| "lastState Crashed = None"

fun readSeq :: "inflater \<Rightarrow> qcow2Reader \<Rightarrow> nat list \<Rightarrow> (error + byte list) option list" where
  "readSeq inflate r [] = []"
| "readSeq inflate r (plen # rest) =
     (case Read inflate r plen of
        Panic \<Rightarrow> [None]
      | Err e r1 \<Rightarrow> Some (Inl e) # readSeq inflate r1 rest
      | Ok out r1 \<Rightarrow> Some (Inr out) # readSeq inflate r1 rest)"

fun stateAfter :: "inflater \<Rightarrow> qcow2Reader \<Rightarrow> nat list \<Rightarrow> qcow2Reader option" where
  "stateAfter inflate r [] = Some r"
| "stateAfter inflate r (plen # rest) =
     (case Read inflate r plen of
        Ok out r1 \<Rightarrow> stateAfter inflate r1 rest
      | Err e r1 \<Rightarrow> None
      | Panic \<Rightarrow> None)"

subsection \<open>What an image stores\<close>

text \<open>
  The meaning of the two tables, without the reader: \<open>l2EntryAt\<close> is the entry of
  cluster \<open>c\<close> (all-zero under an absent L2 table, otherwise decoded from the 8 bytes
  at \<open>l1Table[c / l2TableSize] + 8 * (c % l2TableSize)\<close>); \<open>clusterStored\<close> says that
  the L2 table of cluster \<open>c\<close> lies in the file and that the cluster decodes to
  \<open>bs\<close> (zeros, the output of the decompressor at the host offset, or the bytes at
  the host offset); \<open>encodes\<close> says that the image stores the byte sequence \<open>data\<close>,
  cluster by cluster.
\<close>

definition l2EntryAt :: "byte list \<Rightarrow> 'a qcow2Config_scheme \<Rightarrow> nat \<Rightarrow> l2Entry" where
  "l2EntryAt img cfg c =
     (let tab = l1Table cfg ! (c div nat (l2TableSize cfg)) in
      if tab = 0 then \<lparr>offset = 0, compressed = False, allZeroes = True\<rparr>
      else decodeL2Entry (l2CompressedEntryHostClusterOffsetMask cfg)
             (Uint64 (drop (nat tab + (c mod nat (l2TableSize cfg)) * 8) img)))"

definition clusterStored ::
  "inflater \<Rightarrow> byte list \<Rightarrow> 'a qcow2Config_scheme \<Rightarrow> nat \<Rightarrow> byte list \<Rightarrow> bool" where
  "clusterStored inflate img cfg c bs \<longleftrightarrow>
     (let l2 = nat (l2TableSize cfg);
          tab = l1Table cfg ! (c div l2);
          entry = l2EntryAt img cfg c;
          cs = nat (clusterSize cfg)
      in c div l2 < length (l1Table cfg) \<and> 0 \<le> tab
         \<and> (tab = 0 \<or> nat tab + 8 * min l2 (nat (nClusters cfg) - (c div l2) * l2) \<le> length img)
         \<and> (if allZeroes entry then bs = replicate cs 0
             else if compressed entry
               then 0 \<le> offset entry
                    \<and> fst (inflate (drop (nat (offset entry)) img) cs) = None
                    \<and> fst (snd (inflate (drop (nat (offset entry)) img) cs)) = bs
               else 0 \<le> offset entry \<and> nat (offset entry) + cs \<le> length img
                    \<and> take cs (drop (nat (offset entry)) img) = bs))"

definition encodes :: "inflater \<Rightarrow> byte list \<Rightarrow> 'a qcow2Config_scheme \<Rightarrow> byte list \<Rightarrow> bool" where
  "encodes inflate img cfg data \<longleftrightarrow>
     0 \<le> nClusters cfg
     \<and> length data = nat (nClusters cfg) * nat (clusterSize cfg)
     \<and> (\<forall>c \<in> set [0..<nat (nClusters cfg)].
           clusterStored inflate img cfg c
             (take (nat (clusterSize cfg)) (drop (c * nat (clusterSize cfg)) data)))"

text \<open>
  The invariant of a decode: \<open>remaining\<close> is the part of \<open>data\<close> not yet delivered;
  \<open>tableHolds\<close> says that the L2 table in memory holds the entries of the current
  cluster and of the clusters after it under the same L2 table.
\<close>

definition remaining :: "byte list \<Rightarrow> qcow2Reader \<Rightarrow> byte list" where
  "remaining data r = drop (nat (currentCluster r * clusterSize r + currentOffset r)) data"

definition tableHolds :: "qcow2Reader \<Rightarrow> bool" where
  "tableHolds r \<longleftrightarrow>
     (\<forall>c. nat (currentCluster r) \<le> c \<and> c < nat (nClusters r)
          \<and> c div nat (l2TableSize r) = nat (currentCluster r) div nat (l2TableSize r)
          \<longrightarrow> currentL2Table r ! (c mod nat (l2TableSize r))
               = l2EntryAt (bytes (image_src r)) r c)"

definition good :: "inflater \<Rightarrow> byte list \<Rightarrow> qcow2Reader \<Rightarrow> bool" where
  "good inflate data r \<longleftrightarrow>
     0 < clusterSize r \<and> 0 < l2TableSize r
     \<and> encodes inflate (bytes (image_src r)) r data
     \<and> length (currentData r) = nat (clusterSize r)
     \<and> length (currentL2Table r) = nat (l2TableSize r)
     \<and> - 1 \<le> currentCluster r
     \<and> 0 \<le> currentOffset r \<and> currentOffset r \<le> clusterSize r
     \<and> (currentCluster r = - 1 \<longrightarrow> currentOffset r = clusterSize r)
     \<and> (0 \<le> currentCluster r \<longrightarrow>
           currentCluster r < nClusters r
           \<and> currentData r = take (nat (clusterSize r))
                               (drop (nat (currentCluster r) * nat (clusterSize r)) data)
           \<and> tableHolds r)"

subsection \<open>Auxiliary notions for the statements\<close>

text \<open>What no call on a reader changes: the configuration, the bytes of the source and the sizes of the two buffers.\<close>

definition sameSetup :: "qcow2Reader \<Rightarrow> qcow2Reader \<Rightarrow> bool" where
  "sameSetup r r' \<longleftrightarrow>
     clusterSize r' = clusterSize r \<and> nClusters r' = nClusters r \<and> l1Table r' = l1Table r
     \<and> l2TableSize r' = l2TableSize r
     \<and> l2CompressedEntryHostClusterOffsetMask r' = l2CompressedEntryHostClusterOffsetMask r
     \<and> bytes (image_src r') = bytes (image_src r)
     \<and> length (currentData r') = length (currentData r)
     \<and> length (currentL2Table r') = length (currentL2Table r)"

text \<open>The intra-cluster offset from which \<open>Read\<close> copies: 0 after a transition, the current offset otherwise.\<close>

definition startOffset :: "qcow2Reader \<Rightarrow> int" where
  "startOffset r = (if clusterSize r \<le> currentOffset r then 0 else currentOffset r)"

text \<open>
  The reader whose cluster buffer \<open>Read\<close> copies from: the state that
  \<open>fillNextCluster\<close> leaves when the current cluster is used up, the state before the
  call otherwise.
\<close>

definition bufferState :: "inflater \<Rightarrow> qcow2Reader \<Rightarrow> qcow2Reader" where
  "bufferState inflate r =
     (if clusterSize r \<le> currentOffset r then resState (fillNextCluster inflate r) else r)"

text \<open>The reader of the example image after its first transition, at the start of cluster 0.\<close>

definition rdr3AtCluster0 :: qcow2Reader where
  "rdr3AtCluster0 = resState (fillNextCluster storedInflate rdr3)"

text \<open>The error of a call, if it failed with one.\<close>

fun resError :: "('a, 's) result \<Rightarrow> error option" where
  "resError (Err e s) = Some e"
| "resError (Ok a s) = None"
| "resError Panic = None"

text \<open>
  The error of the feature checks of \<^verbatim>\<open>parseHeaderAndL1\<close>, by the bits of the
  incompatible-features field: the first of dirty, corrupt, external data file,
  extended L2 entries, and any bit above the five known ones.
\<close>

definition featureError :: "64 word \<Rightarrow> error" where
  "featureError f =
     (if bit f 0 then DirtyBitSet
      else if bit f 1 then CorruptBitSet
      else if bit f 2 then ExternalDataFileNotSupported
      else if bit f 4 then ExtendedL2NotSupported
      else UnknownIncompatibleFeatures (f AND NOT 0b11111))"

subsection \<open>More concrete images\<close>

text \<open>
  A version-3 header (512-byte clusters, a virtual size of 512, an empty L1 table) and
  its 32-byte extension, given by the first and the last byte of the
  incompatible-features field and the header length. \<open>imgDirty\<close> has the dirty bit;
  \<open>imgFlaggedField\<close> has the compression-type bit and a nonzero first byte;
  \<open>imgZstd\<close> has the compression-type bit and the compression type 1 in the byte at
  offset 104; \<open>imgHuge\<close> is a version-2 header with a virtual size of \<open>2 ^ 63\<close>.
\<close>

definition header3 :: "byte list" where
  "header3 =
     [0x51, 0x46, 0x49, 0xfb,  0, 0, 0, 3,  0, 0, 0, 0, 0, 0, 0, 0,  0, 0, 0, 0,
      0, 0, 0, 9,  0, 0, 0, 0, 0, 0, 2, 0,  0, 0, 0, 0,  0, 0, 0, 0,
      0, 0, 0, 0, 0, 0, 0, 0,  0, 0, 0, 0, 0, 0, 0, 0,  0, 0, 0, 0,  0, 0, 0, 0,
      0, 0, 0, 0, 0, 0, 0, 0]"

definition v3block :: "byte \<Rightarrow> byte \<Rightarrow> byte \<Rightarrow> byte list" where
  "v3block fhi flo hlen =
     [fhi, 0, 0, 0, 0, 0, 0, flo,  0, 0, 0, 0, 0, 0, 0, 0,  0, 0, 0, 0, 0, 0, 0, 0,
      0, 0, 0, 4,  0, 0, 0, hlen]"

definition imgDirty :: image where
  "imgDirty = \<lparr>bytes = header3 @ v3block 0 1 104, pos = 0, trace = []\<rparr>"

definition imgWrongMagic :: image where
  "imgWrongMagic = \<lparr>bytes = 0x50 # tl (header2 2 0 1), pos = 0, trace = []\<rparr>"

definition imgFourBytes :: image where
  "imgFourBytes = \<lparr>bytes = [0, 0, 0, 0], pos = 0, trace = []\<rparr>"

text \<open>
  The empty input, and the version-3 image with the dirty bit whose header also names
  a backing file.
\<close>

definition imgEmpty :: image where
  "imgEmpty = \<lparr>bytes = [], pos = 0, trace = []\<rparr>"

definition imgBackedDirty :: image where
  "imgBackedDirty = \<lparr>bytes = header3[15 := 1] @ v3block 0 1 104, pos = 0, trace = []\<rparr>"

definition imgFlaggedField :: image where
  "imgFlaggedField = \<lparr>bytes = header3 @ v3block 1 8 112 @ [0, 0, 0, 0, 0, 0, 0, 0],
                       pos = 0, trace = []\<rparr>"

definition imgZstd :: image where
  "imgZstd = \<lparr>bytes = header3 @ v3block 0 8 112 @ [1, 0, 0, 0, 0, 0, 0, 0],
               pos = 0, trace = []\<rparr>"

definition imgHuge :: image where
  "imgHuge = \<lparr>bytes =
       [0x51, 0x46, 0x49, 0xfb,  0, 0, 0, 2,  0, 0, 0, 0, 0, 0, 0, 0,  0, 0, 0, 0,
        0, 0, 0, 9,  0x80, 0, 0, 0, 0, 0, 0, 0,  0, 0, 0, 0,  0, 0, 0, 0,
        0, 0, 0, 0, 0, 0, 0, 0,  0, 0, 0, 0, 0, 0, 0, 0,  0, 0, 0, 0,  0, 0, 0, 0,
        0, 0, 0, 0, 0, 0, 0, 0], pos = 0, trace = []\<rparr>"

subsection \<open>Images for the decode\<close>

text \<open>
  The byte sequence that \<open>img3\<close> stores. \<open>img65\<close> has 65 clusters behind two L2
  tables: the first table is absent (64 all-zero clusters), the second, at offset 512,
  has the single entry of a raw cluster at offset 1024; \<open>data65\<close> is what it stores.
  \<open>rdr65AtTable1\<close> is its reader after 64 reads of a full cluster, before the second
  table.
\<close>

definition data3 :: "byte list" where
  "data3 = rawCluster @ replicate 512 0 @ packedCluster"

definition img65 :: image where
  "img65 = \<lparr>bytes =
            header2 0x82 0 2 @ [0, 0, 0, 0, 0, 0, 0, 0] @ [0, 0, 0, 0, 0, 0, 2, 0]
            @ replicate 424 0
            @ [0, 0, 0, 0, 0, 0, 4, 0] @ replicate 504 0
            @ rawCluster,
          pos = 0, trace = []\<rparr>"

definition rdr65 :: qcow2Reader where
  "rdr65 = resValue (NewReader img65)"

definition data65 :: "byte list" where
  "data65 = replicate (64 * 512) 0 @ rawCluster"

definition rdr65AtTable1 :: qcow2Reader where
  "rdr65AtTable1 = the (stateAfter storedInflate rdr65 (replicate 64 512))"

text \<open>
  The all-zero entry that \<^verbatim>\<open>parseL2Table\<close> synthesizes, and images whose L1 entries are
  all 0: one cluster (a virtual size of 512), a virtual size of 513, 65 clusters
  under two L1 entries, and one cluster with an empty L1 table.
\<close>

definition allZeroEntry :: l2Entry where
  "allZeroEntry = \<lparr>offset = 0, compressed = False, allZeroes = True\<rparr>"

definition imgZero :: image where
  "imgZero = \<lparr>bytes = header2 2 0 1 @ [0, 0, 0, 0, 0, 0, 0, 0], pos = 0, trace = []\<rparr>"

definition rdrZero :: qcow2Reader where
  "rdrZero = resValue (NewReader imgZero)"

definition imgZero513 :: image where
  "imgZero513 = \<lparr>bytes = header2 2 1 1 @ [0, 0, 0, 0, 0, 0, 0, 0], pos = 0, trace = []\<rparr>"

definition rdrZero513 :: qcow2Reader where
  "rdrZero513 = resValue (NewReader imgZero513)"

definition imgZero65 :: image where
  "imgZero65 = \<lparr>bytes = header2 0x82 0 2 @ [0, 0, 0, 0, 0, 0, 0, 0, 0, 0, 0, 0, 0, 0, 0, 0],
                 pos = 0, trace = []\<rparr>"

definition rdrZero65 :: qcow2Reader where
  "rdrZero65 = resValue (NewReader imgZero65)"

definition imgNoL1 :: image where
  "imgNoL1 = \<lparr>bytes = header2 2 0 0, pos = 0, trace = []\<rparr>"

definition rdrNoL1 :: qcow2Reader where
  "rdrNoL1 = resValue (NewReader imgNoL1)"

section \<open>Properties\<close>

subsection \<open>Lists, words and the byte source\<close>

lemma storeAll_eq:
  "storeAll i vs xs =
     (if vs = [] \<or> i + length vs \<le> length xs
      then Some (take i xs @ vs @ drop (i + length vs) xs) else None)"
proof (induction vs arbitrary: i xs)
  case Nil
  then show ?case by simp
next
  case (Cons v vs)
  show ?case
  proof (cases "i < length xs")
    case True
    then show ?thesis
      by (auto simp: Cons.IH take_Suc_conv_app_nth upd_conv_take_nth_drop add.commute)
  next
    case False
    then show ?thesis by simp
  qed
qed

lemma compressed_bit_test: "(e AND l2EntryCompressedBit \<noteq> 0) = bit e 62" for e :: "64 word"
  unfolding l2EntryCompressedBit_def push_bit_of_1
  using and_exp_eq_0_iff_not_bit [of e 62] by blast

lemma zero_bit_test: "(e AND l2EntryNoncompressedAllZeroesBit \<noteq> 0) = bit e 0" for e :: "64 word"
  unfolding l2EntryNoncompressedAllZeroesBit_def
  by (simp add: and_one_eq bit_0 mod_2_eq_odd)

lemma sint_and_mask: "n < 64 \<Longrightarrow> sint (e AND (2 ^ n - 1)) = uint (e AND (2 ^ n - 1))" for e :: "64 word"
proof -
  assume n: "n < 64"
  let ?w = "e AND (2 ^ n - 1)"
  have "uint ?w < 2 ^ n"
    using and_mask_lt_2p [of e n] by (simp add: mask_eq_decr_exp)
  also have "(2::int) ^ n \<le> 2 ^ 63"
    using n by (intro power_increasing) simp_all
  finally have "uint ?w < 2 ^ 63" .
  moreover have "- (2 ^ 63) \<le> uint ?w"
    by (rule order_trans [of _ 0]) simp_all
  ultimately have "signed_take_bit 63 (uint ?w) = uint ?w"
    by (intro signed_take_bit_int_eq_self) simp_all
  then show ?thesis by (simp add: sint_uint)
qed

lemma Uint64_window:
  assumes "k < m"
  shows "Uint64 (drop (k * 8) (take (8 * m) bs)) = Uint64 (drop (k * 8) bs)"
proof -
  have "take 8 (drop (k * 8) (take (8 * m) bs)) = take 8 (drop (k * 8) bs)"
    using assms by (simp add: drop_take min_def)
  then show ?thesis by (simp add: Uint64_def)
qed

lemma ReadFull_bytes: "ReadFull img n = (e, b, img') \<Longrightarrow> bytes img' = bytes img"
  by (auto simp: ReadFull_def Let_def split: if_splits)

lemma Seek_bytes: "Seek img off = Ok u img' \<Longrightarrow> bytes img' = bytes img"
  by (auto simp: Seek_def Let_def split: if_splits)

lemma parseL1Table_bytes: "parseL1Table img off sz = Ok l1 img' \<Longrightarrow> bytes img' = bytes img"
  by (auto simp: parseL1Table_def split: result.splits prod.splits option.splits
           dest!: Seek_bytes ReadFull_bytes)

lemma parseV3Header_bytes: "parseV3Header img = Ok u img' \<Longrightarrow> bytes img' = bytes img"
  by (auto simp: parseV3Header_def Let_def split: result.splits prod.splits option.splits if_splits
           dest!: ReadFull_bytes)

lemma goDiv_pos: "0 \<le> a \<Longrightarrow> 0 < b \<Longrightarrow> goDiv a b = a div b"
  by (cases "a = 0") (simp_all add: goDiv_def)

lemma goRem_pos: "0 \<le> a \<Longrightarrow> 0 < b \<Longrightarrow> goRem a b = a mod b"
  by (cases "a = 0") (simp_all add: goRem_def)

lemma clusterBits_range:
  fixes w :: "32 word"
  assumes "\<not> (w < 9 \<or> w > 21)"
  shows "9 \<le> unat w \<and> unat w \<le> 21"
  using assms by (simp add: word_less_nat_alt not_less)

lemma pow2_div8: "3 \<le> n \<Longrightarrow> (2::int) ^ n div 8 = 2 ^ (n - 3)"
proof -
  assume "3 \<le> n"
  then have "(2::int) ^ n = 2 ^ (n - 3) * 2 ^ 3"
    by (simp only: power_add [symmetric]) simp
  then show ?thesis by simp
qed

lemma parseHeaderAndL1_shape:
  assumes "parseHeaderAndL1 img = Ok cfg img'"
  shows "\<exists>w :: 32 word. \<not> (w < 9 \<or> w > 21) \<and> clusterSize cfg = 2 ^ unat w
           \<and> l2TableSize cfg = goDiv (2 ^ unat w) 8
           \<and> l2CompressedEntryHostClusterOffsetMask cfg = push_bit (70 - unat w) 1 - 1
           \<and> bytes img' = bytes img"
  using assms unfolding parseHeaderAndL1_def Let_def
  by (auto split: if_splits prod.splits option.splits result.splits
           dest!: parseL1Table_bytes parseV3Header_bytes ReadFull_bytes)

lemma parseHeaderAndL1_config:
  assumes "parseHeaderAndL1 img = Ok cfg img'"
  shows "\<exists>cb. 9 \<le> cb \<and> cb \<le> 21 \<and> clusterSize cfg = 2 ^ cb \<and> l2TableSize cfg = 2 ^ (cb - 3)
           \<and> l2CompressedEntryHostClusterOffsetMask cfg = 2 ^ (70 - cb) - 1
           \<and> bytes img' = bytes img"
proof -
  from parseHeaderAndL1_shape [OF assms] obtain w :: "32 word" where
    w: "\<not> (w < 9 \<or> w > 21)" and cs: "clusterSize cfg = 2 ^ unat w"
    and l2: "l2TableSize cfg = goDiv (2 ^ unat w) 8"
    and m: "l2CompressedEntryHostClusterOffsetMask cfg = push_bit (70 - unat w) 1 - 1"
    and b: "bytes img' = bytes img"
    by blast
  from clusterBits_range [OF w] have r: "9 \<le> unat w" "unat w \<le> 21" by simp_all
  have "goDiv (2 ^ unat w) 8 = (2::int) ^ unat w div 8"
    by (rule goDiv_pos) simp_all
  also have "\<dots> = 2 ^ (unat w - 3)"
    using r by (intro pow2_div8) simp
  finally have "l2TableSize cfg = 2 ^ (unat w - 3)" using l2 by simp
  with r cs m b show ?thesis
    by (intro exI [of _ "unat w"]) (simp add: push_bit_of_1)
qed

lemma ReadFull_short:
  assumes "length (drop (pos img) (bytes img)) < n"
  shows "ReadFull img n
           = (Some (if drop (pos img) (bytes img) = [] then EOF else ErrUnexpectedEOF),
              drop (pos img) (bytes img),
              img\<lparr>trace := trace img @ [ReadAt (pos img) n],
                  pos := pos img + length (drop (pos img) (bytes img))\<rparr>)"
  using assms by (simp add: ReadFull_def Let_def)

lemma ReadFull_None:
  assumes "ReadFull img n = (None, buf, img')"
  shows "buf = take n (drop (pos img) (bytes img))"
    and "pos img + n \<le> length (bytes img) \<or> n = 0"
    and "bytes img' = bytes img"
    and "pos img' = pos img + n"
    and "trace img' = trace img @ (if n = 0 then [] else [ReadAt (pos img) n])"
  using assms by (auto simp: ReadFull_def Let_def split: if_splits)

lemma Seek_Ok:
  assumes "Seek img off = Ok u img'"
  shows "0 \<le> off" and "img' = img\<lparr>trace := trace img @ [SeekTo off], pos := nat off\<rparr>"
  using assms by (auto simp: Seek_def Let_def split: if_splits)

lemma parseL2Table_Ok_nonzero:
  assumes ok: "parseL2Table r i = Ok u r'" and nz: "l1Table r ! nat i \<noteq> 0"
  shows "\<exists>m. int m = min (l2TableSize r) (nClusters r - currentCluster r)
           \<and> m \<le> length (currentL2Table r)
           \<and> currentL2Table r' =
               map (\<lambda>k. decodeL2Entry (l2CompressedEntryHostClusterOffsetMask r)
                          (Uint64 (drop (nat (l1Table r ! nat i) + k * 8) (bytes (image_src r)))))
                   [0..<m]
               @ drop m (currentL2Table r)"
proof -
  let ?off = "l1Table r ! nat i"
  let ?e = "min (l2TableSize r) (nClusters r - currentCluster r)"
  from ok nz obtain img1 img2 buf tab where
    seek: "Seek (image_src r) (l1Table r ! nat i) = Ok () img1"
    and nonneg': "\<not> ?e < 0"
    and rd: "ReadFull img1 (nat (8 * ?e)) = (None, buf, img2)"
    and st: "storeAll 0 (map (\<lambda>k. decodeL2Entry (l2CompressedEntryHostClusterOffsetMask r)
                                    (Uint64 (drop (k * 8) buf))) [0..<nat ?e])
               (currentL2Table r) = Some tab"
    and r': "r' = r\<lparr>image_src := img2, currentL2Table := tab\<rparr>"
    unfolding parseL2Table_def Let_def
    by (auto split: if_splits result.splits prod.splits option.splits)
  from nonneg' have nonneg: "0 \<le> ?e" by linarith
  from seek have seek': "Seek (image_src r) ?off = Ok () img1" by simp
  define m where "m = nat ?e"
  have m: "int m = ?e" using nonneg by (simp add: m_def)
  have buf: "buf = take (8 * m) (drop (nat ?off) (bytes (image_src r)))"
    using ReadFull_None(1) [OF rd] Seek_Ok(2) [OF seek] nonneg
    by (simp add: m_def nat_mult_distrib)
  have len: "m \<le> length (currentL2Table r)"
    and tab: "tab = map (\<lambda>k. decodeL2Entry (l2CompressedEntryHostClusterOffsetMask r)
                              (Uint64 (drop (k * 8) buf))) [0..<m] @ drop m (currentL2Table r)"
    using st by (auto simp: storeAll_eq m_def split: if_splits)
  have "map (\<lambda>k. decodeL2Entry (l2CompressedEntryHostClusterOffsetMask r)
                    (Uint64 (drop (k * 8) buf))) [0..<m]
        = map (\<lambda>k. decodeL2Entry (l2CompressedEntryHostClusterOffsetMask r)
                    (Uint64 (drop (nat ?off + k * 8) (bytes (image_src r))))) [0..<m]"
    by (rule map_cong) (simp_all add: buf Uint64_window add.commute)
  with m len tab r' show ?thesis by (intro exI [of _ m]) simp
qed

lemma entryKind_decodeL2Entry:
  assumes "n < 64"
  shows "entryKind (decodeL2Entry (2 ^ n - 1) e) =
     (if bit e 62 then Compressed (uint (e AND (2 ^ n - 1)))
      else if bit e 0 then AllZero
      else Raw (uint (e AND 0x00FFFFFFFFFFFE00)))"
proof -
  have raw: "sint (e AND l2EntryNoncompressedOffsetMask) = uint (e AND 0x00FFFFFFFFFFFE00)"
  proof -
    have "e AND 0x00FFFFFFFFFFFE00 = (e AND 0x00FFFFFFFFFFFE00) AND (2 ^ 56 - 1)"
      by (simp add: and.assoc)
    then show ?thesis
      unfolding l2EntryNoncompressedOffsetMask_def
      using sint_and_mask [of 56 "e AND 0x00FFFFFFFFFFFE00"] by simp
  qed
  show ?thesis
    using sint_and_mask [OF assms, of e]
    by (simp add: entryKind_def decodeL2Entry_def compressed_bit_test zero_bit_test raw)
qed

subsection \<open>What the calls preserve\<close>

lemma length_storeAll: "storeAll i vs xs = Some ys \<Longrightarrow> length ys = length xs"
  by (induction vs arbitrary: i xs) (auto split: if_splits)

lemma length_copy: "length (copy dst src) = length dst"
  by (simp add: copy_def)

lemma sameSetup_refl: "sameSetup r r"
  by (simp add: sameSetup_def)

lemma sameSetup_trans: "sameSetup a b \<Longrightarrow> sameSetup b c \<Longrightarrow> sameSetup a c"
  by (simp add: sameSetup_def)

lemma parseL2Table_Ok_same:
  assumes "parseL2Table r i = Ok u r'"
  shows "sameSetup r r'" and "currentCluster r' = currentCluster r"
    and "currentOffset r' = currentOffset r" and "currentData r' = currentData r"
  using assms unfolding parseL2Table_def Let_def sameSetup_def
  by (auto split: if_splits result.splits prod.splits option.splits
           dest!: length_storeAll ReadFull_bytes Seek_bytes)

lemma parseL2Table_Err_same:
  assumes "parseL2Table r i = Err e r'"
  shows "currentCluster r' = currentCluster r" and "currentOffset r' = currentOffset r"
    and "clusterSize r' = clusterSize r"
  using assms unfolding parseL2Table_def Let_def
  by (auto split: if_splits result.splits prod.splits option.splits)

lemma materializeCluster_Ok_same:
  assumes "materializeCluster inflate r = Ok u r'"
  shows "sameSetup r r'" and "currentCluster r' = currentCluster r"
    and "currentOffset r' = 0" and "currentL2Table r' = currentL2Table r"
  using assms unfolding materializeCluster_def Let_def sameSetup_def
  by (auto split: if_splits result.splits prod.splits option.splits
           simp: length_copy
           dest!: length_storeAll ReadFull_bytes Seek_bytes)

lemma materializeCluster_Err_same:
  assumes "materializeCluster inflate r = Err e r'"
  shows "currentCluster r' = currentCluster r" and "currentOffset r' = currentOffset r"
    and "clusterSize r' = clusterSize r"
  using assms unfolding materializeCluster_def Let_def
  by (auto split: if_splits result.splits prod.splits option.splits)

text \<open>The two halves of a successful or failed transition.\<close>

lemma fillNextCluster_Ok_cases:
  assumes "fillNextCluster inflate r = Ok u r'"
  obtains r1 where "materializeCluster inflate r1 = Ok u r'"
    and "sameSetup r r1" and "currentCluster r1 = currentCluster r + 1"
    and "currentCluster r + 1 \<noteq> nClusters r"
proof -
  let ?r = "r\<lparr>currentCluster := currentCluster r + 1\<rparr>"
  have s0: "sameSetup r ?r" by (simp add: sameSetup_def)
  from assms have ne: "currentCluster r + 1 \<noteq> nClusters r"
    by (auto simp: fillNextCluster_def Let_def split: if_splits)
  from assms consider
      (stay) "materializeCluster inflate ?r = Ok u r'"
    | (load) i r1 where "parseL2Table ?r i = Ok () r1" "materializeCluster inflate r1 = Ok u r'"
    by (auto simp: fillNextCluster_def Let_def split: if_splits result.splits)
  then show thesis
  proof cases
    case stay
    with s0 ne show ?thesis by (intro that [of ?r]) simp_all
  next
    case load
    from parseL2Table_Ok_same [OF load(1)] s0 have "sameSetup r r1" "currentCluster r1 = currentCluster r + 1"
      by (auto intro: sameSetup_trans)
    with load(2) ne show ?thesis by (intro that [of r1])
  qed
qed

lemma fillNextCluster_Ok:
  assumes "fillNextCluster inflate r = Ok u r'"
  shows "sameSetup r r'" and "currentCluster r' = currentCluster r + 1" and "currentOffset r' = 0"
proof -
  from assms obtain r1 where m: "materializeCluster inflate r1 = Ok u r'"
    and s: "sameSetup r r1" and c: "currentCluster r1 = currentCluster r + 1"
    by (rule fillNextCluster_Ok_cases)
  from materializeCluster_Ok_same [OF m] s c
  show "sameSetup r r'" and "currentCluster r' = currentCluster r + 1" and "currentOffset r' = 0"
    by (auto intro: sameSetup_trans)
qed

lemma fillNextCluster_Err:
  assumes "fillNextCluster inflate r = Err e r'"
  shows "currentCluster r' = currentCluster r + 1" and "currentOffset r' = currentOffset r"
    and "clusterSize r' = clusterSize r"
proof -
  let ?r = "r\<lparr>currentCluster := currentCluster r + 1\<rparr>"
  from assms consider
      (eof) "r' = ?r"
    | (tab) i where "parseL2Table ?r i = Err e r'"
    | (stay) "materializeCluster inflate ?r = Err e r'"
    | (load) i r1 where "parseL2Table ?r i = Ok () r1" "materializeCluster inflate r1 = Err e r'"
    by (auto simp: fillNextCluster_def Let_def split: if_splits result.splits)
  then have "currentCluster r' = currentCluster r + 1 \<and> currentOffset r' = currentOffset r
             \<and> clusterSize r' = clusterSize r"
  proof cases
    case eof
    then show ?thesis by simp
  next
    case tab
    from parseL2Table_Err_same [OF tab] show ?thesis by simp
  next
    case stay
    from materializeCluster_Err_same [OF stay] show ?thesis by simp
  next
    case load
    from parseL2Table_Ok_same [OF load(1)] materializeCluster_Err_same [OF load(2)]
    show ?thesis by (simp add: sameSetup_def)
  qed
  then show "currentCluster r' = currentCluster r + 1" and "currentOffset r' = currentOffset r"
    and "clusterSize r' = clusterSize r" by simp_all
qed

lemma NewReader_state:
  assumes "NewReader img = Ok r img'"
  shows "currentOffset r = clusterSize r" and "currentCluster r = - 1"
    and "image_src r = img'"
    and "length (currentData r) = nat (clusterSize r)"
    and "length (currentL2Table r) = nat (l2TableSize r)"
    and "\<exists>cfg. parseHeaderAndL1 img = Ok cfg img' \<and> clusterSize r = clusterSize cfg
           \<and> nClusters r = nClusters cfg \<and> l1Table r = l1Table cfg
           \<and> l2TableSize r = l2TableSize cfg
           \<and> l2CompressedEntryHostClusterOffsetMask r = l2CompressedEntryHostClusterOffsetMask cfg"
  using assms by (auto simp: NewReader_def split: result.splits)

lemma NewReader_sizes:
  assumes "NewReader img = Ok r img'"
  shows "\<exists>cb. 9 \<le> cb \<and> cb \<le> 21 \<and> clusterSize r = 2 ^ cb \<and> l2TableSize r = 2 ^ (cb - 3)
           \<and> l2CompressedEntryHostClusterOffsetMask r = 2 ^ (70 - cb) - 1
           \<and> bytes img' = bytes img"
  using NewReader_state(6) [OF assms] parseHeaderAndL1_config by metis

lemma Read_eq:
  "Read inflate r plen =
     (case (if clusterSize r \<le> currentOffset r then fillNextCluster inflate r else Ok () r) of
        Err e r1 \<Rightarrow> Err e r1
      | Panic \<Rightarrow> Panic
      | Ok u r1 \<Rightarrow>
          if currentOffset r1 < 0 \<or> min (clusterSize r1 - currentOffset r1) (int plen) < 0
             \<or> int (length (currentData r1)) < currentOffset r1 + min (clusterSize r1 - currentOffset r1) (int plen)
          then Panic
          else Ok (slice (currentData r1) (nat (currentOffset r1))
                     (nat (currentOffset r1 + min (clusterSize r1 - currentOffset r1) (int plen))))
                  (r1\<lparr>currentOffset := currentOffset r1 + min (clusterSize r1 - currentOffset r1) (int plen)\<rparr>))"
  by (simp add: Read_def Let_def cong: result.case_cong)

lemma Read_Ok_cases:
  assumes "Read inflate r plen = Ok out r'"
  obtains r1 where
    "if clusterSize r \<le> currentOffset r then fillNextCluster inflate r = Ok () r1 else r1 = r"
    and "0 \<le> currentOffset r1"
    and "0 \<le> min (clusterSize r1 - currentOffset r1) (int plen)"
    and "currentOffset r1 + min (clusterSize r1 - currentOffset r1) (int plen) \<le> int (length (currentData r1))"
    and "out = slice (currentData r1) (nat (currentOffset r1))
                 (nat (currentOffset r1 + min (clusterSize r1 - currentOffset r1) (int plen)))"
    and "r' = r1\<lparr>currentOffset := currentOffset r1 + min (clusterSize r1 - currentOffset r1) (int plen)\<rparr>"
  using assms unfolding Read_eq
  by (cases "clusterSize r \<le> currentOffset r")
     (auto split: result.splits if_splits simp: not_less)

subsection \<open>The header checks\<close>

lemma feature_bit_tests:
  fixes f :: "64 word"
  shows "(f AND incFeatDirtyBit \<noteq> 0) = bit f 0"
    and "(f AND incFeatCorruptBit \<noteq> 0) = bit f 1"
    and "(f AND incFeatExternalDataFileBit \<noteq> 0) = bit f 2"
    and "(f AND incFeatCompressionTypeBit \<noteq> 0) = bit f 3"
    and "(f AND incFeatExtendedL2EntriesBit \<noteq> 0) = bit f 4"
  unfolding incFeatDirtyBit_def incFeatCorruptBit_def incFeatExternalDataFileBit_def
    incFeatCompressionTypeBit_def incFeatExtendedL2EntriesBit_def push_bit_of_1
  using and_exp_eq_0_iff_not_bit [of f 0] and_exp_eq_0_iff_not_bit [of f 1]
    and_exp_eq_0_iff_not_bit [of f 2] and_exp_eq_0_iff_not_bit [of f 3]
    and_exp_eq_0_iff_not_bit [of f 4]
  by simp_all

lemma parseV3Header_rejects:
  assumes rd: "ReadFull img1 32 = (None, v3Header, img2)"
    and bad: "bit (Uint64 (slice v3Header 0 8)) 0 \<or> bit (Uint64 (slice v3Header 0 8)) 1
              \<or> bit (Uint64 (slice v3Header 0 8)) 2 \<or> bit (Uint64 (slice v3Header 0 8)) 4
              \<or> Uint64 (slice v3Header 0 8) AND NOT 0b11111 \<noteq> 0"
  shows "parseV3Header img1 = Err (featureError (Uint64 (slice v3Header 0 8))) img2"
proof -
  let ?f = "Uint64 (slice v3Header 0 8)"
  from bad consider
      (dirty) "bit ?f 0"
    | (corrupt) "\<not> bit ?f 0" "bit ?f 1"
    | (external) "\<not> bit ?f 0" "\<not> bit ?f 1" "bit ?f 2"
    | (extended) "\<not> bit ?f 0" "\<not> bit ?f 1" "\<not> bit ?f 2" "bit ?f 4"
    | (unknown) "\<not> bit ?f 0" "\<not> bit ?f 1" "\<not> bit ?f 2" "\<not> bit ?f 4"
        "?f AND NOT 0b11111 \<noteq> 0"
    by blast
  then show ?thesis
    by cases
      (simp_all add: parseV3Header_def rd Let_def feature_bit_tests featureError_def
         incFeatUnknownBits_def)
qed

lemma errorClass_featureError: "errorClass (featureError f) = UnsupportedFeatureError"
  by (simp add: featureError_def)

lemma sint_eq_uint_small:
  fixes w :: "64 word"
  assumes "uint w < 2 ^ 63"
  shows "sint w = uint w"
proof -
  have "signed_take_bit 63 (uint w) = uint w"
    using assms by (intro signed_take_bit_int_eq_self) (simp_all add: order_trans [of _ 0])
  then show ?thesis by (simp add: sint_uint)
qed

lemma nClusters_truncates:
  assumes ok: "parseHeaderAndL1 img = Ok cfg img'"
    and hd: "ReadFull img 72 = (None, header, img1)"
    and small: "uint (Uint64 (slice header 24 32)) < 2 ^ 63"
  shows "nClusters cfg = uint (Uint64 (slice header 24 32)) div clusterSize cfg"
proof -
  from ok have "nClusters cfg = goDiv (sint (Uint64 (slice header 24 32))) (clusterSize cfg)"
    and "\<exists>n. clusterSize cfg = 2 ^ n"
    unfolding parseHeaderAndL1_def hd Let_def
    by (auto split: if_splits result.splits)
  then show ?thesis
    using small by (auto simp: sint_eq_uint_small goDiv_pos)
qed

subsection \<open>The decode invariant\<close>

lemma encodes_same:
  "sameSetup r r' \<Longrightarrow> encodes inflate (bytes (image_src r')) r' data
     = encodes inflate (bytes (image_src r)) r data"
  by (simp add: encodes_def clusterStored_def l2EntryAt_def sameSetup_def Let_def)

lemma goodD:
  assumes "good inflate data r"
  shows "0 < clusterSize r" and "0 < l2TableSize r"
    and "encodes inflate (bytes (image_src r)) r data"
    and "length (currentData r) = nat (clusterSize r)"
    and "length (currentL2Table r) = nat (l2TableSize r)"
    and "- 1 \<le> currentCluster r" and "0 \<le> currentOffset r"
    and "currentOffset r \<le> clusterSize r"
    and "currentCluster r = - 1 \<Longrightarrow> currentOffset r = clusterSize r"
    and "0 \<le> currentCluster r \<Longrightarrow> currentCluster r < nClusters r"
    and "0 \<le> currentCluster r \<Longrightarrow>
           currentData r = take (nat (clusterSize r))
                             (drop (nat (currentCluster r) * nat (clusterSize r)) data)"
    and "0 \<le> currentCluster r \<Longrightarrow> tableHolds r"
  using assms by (simp_all add: good_def)

lemma encodesD:
  assumes "encodes inflate img cfg data"
  shows "0 \<le> nClusters cfg"
    and "length data = nat (nClusters cfg) * nat (clusterSize cfg)"
    and "c < nat (nClusters cfg) \<Longrightarrow>
           clusterStored inflate img cfg c
             (take (nat (clusterSize cfg)) (drop (c * nat (clusterSize cfg)) data))"
  using assms by (simp_all add: encodes_def)

lemma offset_update_irrelevant:
  "encodes inflate img (r\<lparr>currentOffset := x\<rparr>) data = encodes inflate img r data"
  "tableHolds (r\<lparr>currentOffset := x\<rparr>) = tableHolds r"
  by (simp_all add: encodes_def clusterStored_def l2EntryAt_def tableHolds_def Let_def)

text \<open>The copying half of \<open>Read\<close> in a state that holds a cluster.\<close>

lemma copy_good:
  assumes g: "good inflate data r" and lt: "currentOffset r < clusterSize r" and p: "0 < plen"
  shows "\<exists>out r'.
           (if currentOffset r < 0 \<or> min (clusterSize r - currentOffset r) (int plen) < 0
               \<or> int (length (currentData r)) < currentOffset r + min (clusterSize r - currentOffset r) (int plen)
            then Panic
            else Ok (slice (currentData r) (nat (currentOffset r))
                       (nat (currentOffset r + min (clusterSize r - currentOffset r) (int plen))))
                    (r\<lparr>currentOffset := currentOffset r + min (clusterSize r - currentOffset r) (int plen)\<rparr>))
           = Ok out r'
           \<and> out \<noteq> [] \<and> good inflate data r' \<and> remaining data r = out @ remaining data r'
           \<and> image_src r' = image_src r"
proof -
  define cs where "cs = nat (clusterSize r)"
  define off where "off = nat (currentOffset r)"
  define n where "n = nat (nClusters r)"
  define k where "k = min (cs - off) plen"
  have cc: "0 \<le> currentCluster r"
    using goodD(6,9) [OF g] lt by (cases "currentCluster r = - 1") simp_all
  define c where "c = nat (currentCluster r)"
  have ints: "clusterSize r = int cs" "currentOffset r = int off" "nClusters r = int n"
    "currentCluster r = int c"
    using cc goodD(1,7) [OF g] encodesD(1) [OF goodD(3) [OF g]]
    by (simp_all add: cs_def off_def n_def c_def)
  from lt p have k: "0 < k" "off + k \<le> cs" "off < cs"
    by (auto simp: k_def ints)
  from goodD(10) [OF g cc] have cn: "c < n" by (simp add: ints)
  have len: "length data = n * cs"
    using encodesD(2) [OF goodD(3) [OF g]] by (simp add: ints)
  have cd: "currentData r = take cs (drop (c * cs) data)"
    using goodD(11) [OF g cc] by (simp add: ints)
  have lcd: "length (currentData r) = cs"
    using goodD(4) [OF g] by (simp add: ints)
  have "(c + 1) * cs \<le> n * cs" using cn by (intro mult_le_mono1) simp
  then have room: "c * cs + cs \<le> length data" by (simp add: len)
  have kint: "min (int cs - int off) (int plen) = int k"
    using k by (simp add: k_def)
  let ?out = "slice (currentData r) off (off + k)"
  let ?r' = "r\<lparr>currentOffset := int (off + k)\<rparr>"
  have out: "?out = take k (drop (c * cs + off) data)"
    using k by (simp add: slice_def cd drop_take min_def add.commute)
  have "length ?out = k" using k room by (simp add: out)
  with k have ne: "?out \<noteq> []" by auto
  have rem: "remaining data r = drop (c * cs + off) data"
    by (simp add: remaining_def ints nat_add_distrib nat_mult_distrib)
  have rem': "remaining data ?r' = drop (c * cs + off + k) data"
    by (simp add: remaining_def ints nat_add_distrib nat_mult_distrib add.assoc)
  have split: "remaining data r = ?out @ remaining data ?r'"
    unfolding rem rem' out by (simp add: add.commute drop_drop [symmetric] del: drop_drop)
  have g': "good inflate data ?r'"
    using g k cn room by (simp add: good_def offset_update_irrelevant ints)
  show ?thesis
    using k ne g' split lcd
    by (simp add: kint ints nat_add_distrib)
qed

lemma copy_full: "length src = length dst \<Longrightarrow> copy dst src = src"
  by (simp add: copy_def)

lemma parseL2Table_absent:
  assumes "0 \<le> i" and "nat i < length (l1Table r)" and "l1Table r ! nat i = 0"
    and "length (currentL2Table r) = nat (l2TableSize r)"
  shows "parseL2Table r i =
           Ok () (r\<lparr>currentL2Table :=
                      replicate (nat (l2TableSize r))
                        \<lparr>offset = 0, compressed = False, allZeroes = True\<rparr>\<rparr>)"
  using assms by (simp add: parseL2Table_def storeAll_eq)

lemma parseL2Table_present:
  assumes i: "0 \<le> i" "nat i < length (l1Table r)"
    and t: "0 < l1Table r ! nat i"
    and m: "int m = min (l2TableSize r) (nClusters r - currentCluster r)" "0 < m"
    and fits: "nat (l1Table r ! nat i) + 8 * m \<le> length (bytes (image_src r))"
    and room: "m \<le> length (currentL2Table r)"
  shows "\<exists>r1. parseL2Table r i = Ok () r1
           \<and> trace (image_src r1)
               = trace (image_src r) @ [SeekTo (l1Table r ! nat i), ReadAt (nat (l1Table r ! nat i)) (8 * m)]"
proof -
  have e: "nat (8 * min (l2TableSize r) (nClusters r - currentCluster r)) = 8 * m"
    using m(1) [symmetric] by (simp add: nat_mult_distrib)
  have nn: "\<not> min (l2TableSize r) (nClusters r - currentCluster r) < 0"
    using m(1) [symmetric] by simp
  have nm: "nat (min (l2TableSize r) (nClusters r - currentCluster r)) = m"
    using m(1) [symmetric] by simp
  have ir: "\<not> int (length (l1Table r)) \<le> i" using i by linarith
  have av: "8 * m \<le> length (bytes (image_src r)) - nat (l1Table r ! nat i)"
    using fits by linarith
  show ?thesis
    using i(1) t m(2) room ir av
    by (simp add: parseL2Table_def Seek_def ReadFull_def Let_def e nn nm storeAll_eq)
qed

lemma materializeCluster_stored:
  assumes cc: "currentCluster r = int c" and l2: "0 < l2TableSize r"
    and j: "c mod nat (l2TableSize r) < length (currentL2Table r)"
    and e: "currentL2Table r ! (c mod nat (l2TableSize r)) = l2EntryAt (bytes (image_src r)) r c"
    and st: "clusterStored inflate (bytes (image_src r)) r c bs"
    and len: "length (currentData r) = nat (clusterSize r)" "length bs = nat (clusterSize r)"
      "0 < clusterSize r"
  shows "\<exists>r'. materializeCluster inflate r = Ok () r' \<and> currentData r' = bs
           \<and> (allZeroes (l2EntryAt (bytes (image_src r)) r c) \<longrightarrow> image_src r' = image_src r)
           \<and> (\<exists>rest. trace (image_src r') = trace (image_src r) @ rest)"
proof -
  define l2 where "l2 = nat (l2TableSize r)"
  define cs where "cs = nat (clusterSize r)"
  define entry where "entry = l2EntryAt (bytes (image_src r)) r c"
  have l2i: "l2TableSize r = int l2" "0 < l2" using l2 by (simp_all add: l2_def)
  have csi: "clusterSize r = int cs" "0 < cs" using len(3) by (simp_all add: cs_def)
  have idx: "goRem (currentCluster r) (l2TableSize r) = int (c mod l2)"
    using l2i by (simp add: cc goRem_pos zmod_int)
  have ent: "currentL2Table r ! (c mod l2) = entry"
    using e by (simp add: l2_def entry_def)
  have inr: "c mod l2 < length (currentL2Table r)" using j by (simp add: l2_def)
  from st have kinds:
    "if allZeroes entry then bs = replicate cs 0
     else if compressed entry
       then 0 \<le> offset entry
            \<and> fst (inflate (drop (nat (offset entry)) (bytes (image_src r))) cs) = None
            \<and> fst (snd (inflate (drop (nat (offset entry)) (bytes (image_src r))) cs)) = bs
       else 0 \<le> offset entry \<and> nat (offset entry) + cs \<le> length (bytes (image_src r))
            \<and> take cs (drop (nat (offset entry)) (bytes (image_src r))) = bs"
    by (simp add: clusterStored_def Let_def entry_def cs_def)
  have lens: "length (currentData r) = cs" "length bs = cs"
    using len by (simp_all add: cs_def)
  consider (zero) "allZeroes entry" | (packed) "\<not> allZeroes entry" "compressed entry"
    | (raw) "\<not> allZeroes entry" "\<not> compressed entry" by blast
  then show ?thesis
  proof cases
    case zero
    with kinds have "bs = replicate cs 0" by simp
    with zero inr lens csi show ?thesis
      by (simp add: materializeCluster_def Let_def idx ent storeAll_eq entry_def [symmetric])
  next
    case packed
    with kinds have off: "0 \<le> offset entry"
      and a: "fst (inflate (drop (nat (offset entry)) (bytes (image_src r))) cs) = None"
      and b: "fst (snd (inflate (drop (nat (offset entry)) (bytes (image_src r))) cs)) = bs"
      by simp_all
    obtain used where "inflate (drop (nat (offset entry)) (bytes (image_src r))) cs = (None, bs, used)"
      using a b by (cases "inflate (drop (nat (offset entry)) (bytes (image_src r))) cs") auto
    with packed off inr lens csi show ?thesis
      by (simp add: materializeCluster_def Let_def idx ent Seek_def copy_full entry_def [symmetric])
  next
    case raw
    with kinds have off: "0 \<le> offset entry"
      and a: "nat (offset entry) + cs \<le> length (bytes (image_src r))"
      and b: "take cs (drop (nat (offset entry)) (bytes (image_src r))) = bs"
      by simp_all
    with raw inr lens csi show ?thesis
      by (simp add: materializeCluster_def Let_def idx ent Seek_def ReadFull_def copy_full
            entry_def [symmetric])
  qed
qed

lemma aligned_div: "(c::nat) mod l = 0 \<Longrightarrow> c div l * l = c"
  by (simp add: mod_eq_0_iff_dvd)

lemma same_table_offset:
  assumes "(c::nat) mod l = 0" and "c \<le> c'" and "c' div l = c div l"
  shows "c' mod l = c' - c"
proof -
  have "c' = c' div l * l + c' mod l" by simp
  also have "c' div l * l = c" using assms by (simp add: aligned_div)
  finally show ?thesis by simp
qed

lemma prev_same_table:
  assumes "(c::nat) mod l \<noteq> 0"
  shows "(c - 1) div l = c div l" and "0 < c"
proof -
  from assms show pos: "0 < c" by (cases c) simp_all
  show "(c - 1) div l = c div l"
  proof (cases "l = 0")
    case True
    then show ?thesis by simp
  next
    case False
    then have l: "0 < l" by simp
    have "c - 1 = (c mod l - 1) + c div l * l"
      using assms div_mult_mod_eq [of c l] by linarith
    moreover have "c mod l - 1 < l" using l by (simp add: less_imp_diff_less)
    ultimately show ?thesis by simp
  qed
qed

lemma within_short_table:
  assumes "(c::nat) < n" and "0 < l"
  shows "c mod l < min l (n - c div l * l)"
proof -
  have "c div l * l + c mod l < n" using assms by simp
  then have "c mod l < n - c div l * l" by linarith
  with assms show ?thesis by simp
qed


lemma tableHolds_cong:
  "sameSetup r r' \<Longrightarrow> currentL2Table r' = currentL2Table r
     \<Longrightarrow> currentCluster r' = currentCluster r \<Longrightarrow> tableHolds r' = tableHolds r"
  by (simp add: tableHolds_def l2EntryAt_def sameSetup_def Let_def)

lemma clusterStored_same:
  "sameSetup r r' \<Longrightarrow> clusterStored inflate (bytes (image_src r')) r' c bs
     = clusterStored inflate (bytes (image_src r)) r c bs"
  by (simp add: clusterStored_def l2EntryAt_def sameSetup_def Let_def)

text \<open>The first half of the transition: the table that is current after it is the one of the new cluster.\<close>

lemma table_stage_good:
  assumes g: "good inflate data r" and more: "currentCluster r + 1 < nClusters r"
  defines "r0 \<equiv> r\<lparr>currentCluster := currentCluster r + 1\<rparr>"
  shows "\<exists>r1. (if goRem (currentCluster r0) (l2TableSize r0) = 0
               then parseL2Table r0 (goDiv (currentCluster r0) (l2TableSize r0))
               else Ok () r0) = Ok () r1
           \<and> sameSetup r r1 \<and> currentCluster r1 = currentCluster r + 1
           \<and> tableHolds r1
           \<and> (let c = nat (currentCluster r + 1); l2 = nat (l2TableSize r);
                   tab = l1Table r ! (c div l2)
               in if c mod l2 = 0 \<and> tab \<noteq> 0
                  then trace (image_src r1)
                         = trace (image_src r)
                           @ [SeekTo tab,
                              ReadAt (nat tab) (8 * min l2 (nat (nClusters r) - c div l2 * l2))]
                  else image_src r1 = image_src r)"
proof -
  define c where "c = nat (currentCluster r + 1)"
  define l2 where "l2 = nat (l2TableSize r)"
  define n where "n = nat (nClusters r)"
  define img where "img = bytes (image_src r)"
  define io where "io = (\<lambda>r1 :: qcow2Reader. if c mod l2 = 0 \<and> l1Table r ! (c div l2) \<noteq> 0
                  then trace (image_src r1)
                         = trace (image_src r)
                           @ [SeekTo (l1Table r ! (c div l2)),
                              ReadAt (nat (l1Table r ! (c div l2))) (8 * min l2 (n - c div l2 * l2))]
                  else image_src r1 = image_src r)"
  have goal: "\<exists>r1. (if goRem (currentCluster r0) (l2TableSize r0) = 0
               then parseL2Table r0 (goDiv (currentCluster r0) (l2TableSize r0))
               else Ok () r0) = Ok () r1
           \<and> sameSetup r r1 \<and> currentCluster r1 = currentCluster r + 1
           \<and> tableHolds r1 \<and> io r1"
  proof -
  have cc0: "currentCluster r0 = int c"
    using goodD(6) [OF g] by (simp add: r0_def c_def)
  have l2i: "l2TableSize r = int l2" "0 < l2" using goodD(2) [OF g] by (simp_all add: l2_def)
  have ni: "nClusters r = int n" using more goodD(6) [OF g] by (simp add: n_def)
  have cn: "c < n" using more goodD(6) [OF g] by (simp add: c_def n_def)
  have s0: "sameSetup r r0" by (simp add: sameSetup_def r0_def)
  have f0: "l2TableSize r0 = int l2" "nClusters r0 = int n" "l1Table r0 = l1Table r"
    "currentL2Table r0 = currentL2Table r" "image_src r0 = image_src r"
    "l2CompressedEntryHostClusterOffsetMask r0 = l2CompressedEntryHostClusterOffsetMask r"
    by (simp_all add: r0_def l2i ni)
  have rem: "goRem (currentCluster r0) (l2TableSize r0) = int (c mod l2)"
    using l2i(2) by (simp add: cc0 f0 goRem_pos zmod_int)
  have quo: "goDiv (currentCluster r0) (l2TableSize r0) = int (c div l2)"
    using l2i(2) by (simp add: cc0 f0 goDiv_pos zdiv_int)
  have st: "clusterStored inflate img r c
              (take (nat (clusterSize r)) (drop (c * nat (clusterSize r)) data))"
    using encodesD(3) [OF goodD(3) [OF g], of c] cn by (simp add: n_def img_def)
  define t where "t = l1Table r ! (c div l2)"
  from st have inr: "c div l2 < length (l1Table r)" and tnn: "0 \<le> t"
    and fits: "t = 0 \<or> nat t + 8 * min l2 (n - c div l2 * l2) \<le> length img"
    by (simp_all add: clusterStored_def Let_def l2_def t_def n_def)
  have lt: "length (currentL2Table r) = l2" using goodD(5) [OF g] by (simp add: l2_def)
  show ?thesis
  proof (cases "c mod l2 = 0")
    case False
    then have prev: "(c - 1) div l2 = c div l2" "0 < c" by (rule prev_same_table)+
    then have nn: "0 \<le> currentCluster r" by (simp add: c_def)
    then have c1: "nat (currentCluster r) = c - 1" by (simp add: c_def)
    from goodD(12) [OF g nn] have "tableHolds r" .
    then have "tableHolds r0"
      unfolding tableHolds_def
    proof (intro allI impI)
      fix c'
      assume h: "\<forall>c. nat (currentCluster r) \<le> c \<and> c < nat (nClusters r)
          \<and> c div nat (l2TableSize r) = nat (currentCluster r) div nat (l2TableSize r)
          \<longrightarrow> currentL2Table r ! (c mod nat (l2TableSize r))
               = l2EntryAt (bytes (image_src r)) r c"
      assume a: "nat (currentCluster r0) \<le> c' \<and> c' < nat (nClusters r0)
                 \<and> c' div nat (l2TableSize r0) = nat (currentCluster r0) div nat (l2TableSize r0)"
      then have "nat (currentCluster r) \<le> c' \<and> c' < nat (nClusters r)
          \<and> c' div nat (l2TableSize r) = nat (currentCluster r) div nat (l2TableSize r)"
        using prev(1) by (auto simp: cc0 f0 l2i ni c1)
      with h have "currentL2Table r ! (c' mod nat (l2TableSize r))
                     = l2EntryAt (bytes (image_src r)) r c'"
        by blast
      then show "currentL2Table r0 ! (c' mod nat (l2TableSize r0))
                   = l2EntryAt (bytes (image_src r0)) r0 c'"
        by (simp add: f0 l2i l2EntryAt_def Let_def)
    qed
    moreover have "(if goRem (currentCluster r0) (l2TableSize r0) = 0
               then parseL2Table r0 (goDiv (currentCluster r0) (l2TableSize r0))
               else Ok () r0) = Ok () r0"
      using False by (simp add: rem)
    moreover have "currentCluster r0 = currentCluster r + 1" by (simp add: r0_def)
    moreover have "io r0" using False by (simp add: io_def f0)
    ultimately show ?thesis using s0 by blast
  next
    case True
    then have al: "c div l2 * l2 = c" by (rule aligned_div)
    have i0: "0 \<le> int (c div l2)" "nat (int (c div l2)) < length (l1Table r0)"
      using inr by (simp_all add: f0)
    show ?thesis
    proof (cases "t = 0")
      case zero: True
      have "parseL2Table r0 (int (c div l2)) =
              Ok () (r0\<lparr>currentL2Table :=
                         replicate (nat (l2TableSize r0))
                           \<lparr>offset = 0, compressed = False, allZeroes = True\<rparr>\<rparr>)"
        using zero lt i0 by (intro parseL2Table_absent) (simp_all add: f0 t_def)
      moreover have "tableHolds (r0\<lparr>currentL2Table :=
                         replicate (nat (l2TableSize r0))
                           \<lparr>offset = 0, compressed = False, allZeroes = True\<rparr>\<rparr>)"
        using zero l2i(2)
        by (simp add: tableHolds_def l2EntryAt_def Let_def cc0 f0 t_def)
      moreover have "sameSetup r (r0\<lparr>currentL2Table :=
                         replicate (nat (l2TableSize r0))
                           \<lparr>offset = 0, compressed = False, allZeroes = True\<rparr>\<rparr>)"
        using lt by (simp add: sameSetup_def r0_def l2i)
      moreover have "currentCluster (r0\<lparr>currentL2Table :=
                         replicate (nat (l2TableSize r0))
                           \<lparr>offset = 0, compressed = False, allZeroes = True\<rparr>\<rparr>)
                      = currentCluster r + 1"
        by (simp add: r0_def)
      moreover have "(if goRem (currentCluster r0) (l2TableSize r0) = 0
               then parseL2Table r0 (goDiv (currentCluster r0) (l2TableSize r0))
               else Ok () r0) = parseL2Table r0 (int (c div l2))"
        using True by (simp add: rem quo)
      moreover have "io (r0\<lparr>currentL2Table :=
                         replicate (nat (l2TableSize r0))
                           \<lparr>offset = 0, compressed = False, allZeroes = True\<rparr>\<rparr>)"
        using zero by (simp add: io_def f0 t_def)
      ultimately show ?thesis by metis
    next
      case nonzero: False
      define m where "m = min l2 (n - c)"
      have m: "0 < m" "m \<le> l2" using cn l2i by (simp_all add: m_def)
      have tpos: "0 < l1Table r0 ! nat (int (c div l2))"
        using nonzero tnn by (simp add: f0 t_def)
      have mi: "int m = min (l2TableSize r0) (nClusters r0 - currentCluster r0)"
        using cn by (simp add: cc0 f0 m_def min_def) linarith
      have ft: "nat (l1Table r0 ! nat (int (c div l2))) + 8 * m \<le> length (bytes (image_src r0))"
        using fits nonzero by (simp add: f0 t_def m_def al img_def)
      have rm: "m \<le> length (currentL2Table r0)" using m lt by (simp add: f0)
      from parseL2Table_present [OF i0 tpos mi m(1) ft rm]
      obtain r1 where ok: "parseL2Table r0 (int (c div l2)) = Ok () r1"
        and tr: "trace (image_src r1)
               = trace (image_src r0)
                 @ [SeekTo (l1Table r0 ! nat (int (c div l2))),
                    ReadAt (nat (l1Table r0 ! nat (int (c div l2)))) (8 * m)]"
        by blast
      have io1: "io r1"
        using nonzero True tr by (simp add: io_def f0 t_def m_def al)
      note same = parseL2Table_Ok_same [OF ok]
      have nz: "l1Table r0 ! nat (int (c div l2)) \<noteq> 0" using tpos by simp
      from parseL2Table_Ok_nonzero [OF ok nz] mi obtain m' where
        "int m' = int m" and
        tab: "currentL2Table r1 =
               map (\<lambda>k. decodeL2Entry (l2CompressedEntryHostClusterOffsetMask r0)
                          (Uint64 (drop (nat (l1Table r0 ! nat (int (c div l2))) + k * 8)
                                     (bytes (image_src r0)))))
                   [0..<m']
               @ drop m' (currentL2Table r0)"
        by auto
      then have m': "m' = m" by simp
      have s1: "sameSetup r r1" using s0 same(1) by (rule sameSetup_trans)
      have cc1: "currentCluster r1 = int c" using same(2) cc0 by simp
      have "tableHolds r1"
        unfolding tableHolds_def
      proof (intro allI impI)
        fix c'
        assume a: "nat (currentCluster r1) \<le> c' \<and> c' < nat (nClusters r1)
                   \<and> c' div nat (l2TableSize r1) = nat (currentCluster r1) div nat (l2TableSize r1)"
        from a s1 have b: "c \<le> c'" "c' < n" "c' div l2 = c div l2"
          by (simp_all add: cc1 sameSetup_def ni l2i)
        from same_table_offset [OF True b(1,3)] have j: "c' mod l2 = c' - c" .
        have "c' mod l2 < l2" using l2i(2) by simp
        with j b have jm: "c' mod l2 < m" by (simp add: m_def)
        have "currentL2Table r1 ! (c' mod l2)
                = decodeL2Entry (l2CompressedEntryHostClusterOffsetMask r0)
                    (Uint64 (drop (nat (l1Table r0 ! nat (int (c div l2))) + (c' mod l2) * 8)
                               (bytes (image_src r0))))"
          using jm by (simp add: tab m' nth_append)
        also have "\<dots> = l2EntryAt (bytes (image_src r1)) r1 c'"
          using s1 nonzero b(3)
          by (simp add: l2EntryAt_def Let_def sameSetup_def f0 l2i t_def)
        finally show "currentL2Table r1 ! (c' mod nat (l2TableSize r1))
                        = l2EntryAt (bytes (image_src r1)) r1 c'"
          using s1 by (simp add: sameSetup_def l2i)
      qed
      moreover have "currentCluster r1 = currentCluster r + 1"
        using same(2) by (simp add: r0_def)
      moreover have "(if goRem (currentCluster r0) (l2TableSize r0) = 0
               then parseL2Table r0 (goDiv (currentCluster r0) (l2TableSize r0))
               else Ok () r0) = Ok () r1"
        using True ok by (simp add: rem quo)
      ultimately show ?thesis using s1 io1 by blast
    qed
  qed
  qed
  then show ?thesis
    unfolding io_def c_def l2_def n_def Let_def .
qed

lemma fill_good:
  assumes g: "good inflate data r" and more: "currentCluster r + 1 < nClusters r"
  shows "\<exists>r'. fillNextCluster inflate r = Ok () r' \<and> good inflate data r'
           \<and> currentCluster r' = currentCluster r + 1 \<and> currentOffset r' = 0
           \<and> (let c = nat (currentCluster r + 1); l2 = nat (l2TableSize r);
                   tab = l1Table r ! (c div l2)
               in if c mod l2 = 0 \<and> tab \<noteq> 0
                  then \<exists>rest. trace (image_src r')
                         = trace (image_src r)
                           @ [SeekTo tab,
                              ReadAt (nat tab) (8 * min l2 (nat (nClusters r) - c div l2 * l2))]
                           @ rest
                  else tab = 0 \<longrightarrow> image_src r' = image_src r)"
proof -
  let ?r0 = "r\<lparr>currentCluster := currentCluster r + 1\<rparr>"
  from table_stage_good [OF g more] obtain r1 where
    stage: "(if goRem (currentCluster ?r0) (l2TableSize ?r0) = 0
             then parseL2Table ?r0 (goDiv (currentCluster ?r0) (l2TableSize ?r0))
             else Ok () ?r0) = Ok () r1"
    and s1: "sameSetup r r1" and cc1: "currentCluster r1 = currentCluster r + 1"
    and th: "tableHolds r1"
    and io1: "let c = nat (currentCluster r + 1); l2 = nat (l2TableSize r);
                   tab = l1Table r ! (c div l2)
               in if c mod l2 = 0 \<and> tab \<noteq> 0
                  then trace (image_src r1)
                         = trace (image_src r)
                           @ [SeekTo tab,
                              ReadAt (nat tab) (8 * min l2 (nat (nClusters r) - c div l2 * l2))]
                  else image_src r1 = image_src r"
    by blast
  have l2nz: "l2TableSize r \<noteq> 0" using goodD(2) [OF g] by simp
  have ne: "currentCluster r + 1 \<noteq> nClusters r" using more by simp
  have fill: "fillNextCluster inflate r = materializeCluster inflate r1"
    unfolding fillNextCluster_def Let_def using ne l2nz stage by simp
  define c where "c = nat (currentCluster r + 1)"
  define cs where "cs = nat (clusterSize r)"
  define n where "n = nat (nClusters r)"
  define bs where "bs = take cs (drop (c * cs) data)"
  have cci: "currentCluster r1 = int c" using goodD(6) [OF g] by (simp add: cc1 c_def)
  have cn: "c < n" using more goodD(6) [OF g] by (simp add: c_def n_def)
  have f1: "clusterSize r1 = clusterSize r" "l2TableSize r1 = l2TableSize r"
    "nClusters r1 = nClusters r" "length (currentData r1) = length (currentData r)"
    "length (currentL2Table r1) = length (currentL2Table r)"
    using s1 by (simp_all add: sameSetup_def)
  have st: "clusterStored inflate (bytes (image_src r1)) r1 c bs"
    using encodesD(3) [OF goodD(3) [OF g], of c] cn
    by (simp add: clusterStored_same [OF s1] n_def bs_def cs_def)
  have l2p: "0 < l2TableSize r1" using goodD(2) [OF g] by (simp add: f1)
  have j: "c mod nat (l2TableSize r1) < length (currentL2Table r1)"
    using goodD(2,5) [OF g] by (simp add: f1)
  have e: "currentL2Table r1 ! (c mod nat (l2TableSize r1)) = l2EntryAt (bytes (image_src r1)) r1 c"
    using th cn unfolding tableHolds_def by (simp add: cci f1 n_def)
  have "c * cs + cs \<le> n * cs"
    using cn mult_le_mono1 [of "Suc c" n cs] by simp
  moreover have "length data = n * cs"
    using encodesD(2) [OF goodD(3) [OF g]] by (simp add: cs_def n_def)
  ultimately have lbs0: "length bs = cs" by (simp add: bs_def)
  then have lbs: "length bs = nat (clusterSize r1)" by (simp add: f1 cs_def)
  have lcd: "length (currentData r1) = nat (clusterSize r1)"
    using goodD(4) [OF g] by (simp add: f1)
  have csp: "0 < clusterSize r1" using goodD(1) [OF g] by (simp add: f1)
  from materializeCluster_stored [OF cci l2p j e st lcd lbs csp]
  obtain r' rest where ok: "materializeCluster inflate r1 = Ok () r'" and cd: "currentData r' = bs"
    and zio: "allZeroes (l2EntryAt (bytes (image_src r1)) r1 c) \<longrightarrow> image_src r' = image_src r1"
    and tio: "trace (image_src r') = trace (image_src r1) @ rest"
    by blast
  have ent: "l2EntryAt (bytes (image_src r1)) r1 c = l2EntryAt (bytes (image_src r)) r c"
    using s1 by (simp add: l2EntryAt_def sameSetup_def Let_def)
  have io: "let c = nat (currentCluster r + 1); l2 = nat (l2TableSize r);
                   tab = l1Table r ! (c div l2)
               in if c mod l2 = 0 \<and> tab \<noteq> 0
                  then \<exists>rest. trace (image_src r')
                         = trace (image_src r)
                           @ [SeekTo tab,
                              ReadAt (nat tab) (8 * min l2 (nat (nClusters r) - c div l2 * l2))]
                           @ rest
                  else tab = 0 \<longrightarrow> image_src r' = image_src r"
    using io1 zio tio unfolding Let_def c_def [symmetric] ent
    by (auto simp: l2EntryAt_def Let_def)
  note same = materializeCluster_Ok_same [OF ok]
  have s2: "sameSetup r r'" using s1 same(1) by (rule sameSetup_trans)
  have f2: "clusterSize r' = clusterSize r" "l2TableSize r' = l2TableSize r"
    "nClusters r' = nClusters r" "length (currentData r') = length (currentData r)"
    "length (currentL2Table r') = length (currentL2Table r)"
    using s2 by (simp_all add: sameSetup_def)
  have th': "tableHolds r'"
    using th tableHolds_cong [OF same(1,4,2)] by simp
  have cc': "currentCluster r' = int c" using same(2) cci by simp
  have cd': "currentData r' = take (nat (clusterSize r)) (drop (c * nat (clusterSize r)) data)"
    by (simp add: cd bs_def cs_def)
  have cnn: "int c < nClusters r" using cn by (simp add: n_def)
  have mn: "min (length data - c * nat (clusterSize r)) (nat (clusterSize r)) = nat (clusterSize r)"
    using lbs0 by (simp add: bs_def cs_def)
  have "good inflate data r'"
    unfolding good_def
    using goodD(1,2,4,5) [OF g] goodD(3) [OF g] cnn th'
    by (simp add: encodes_same [OF s2] f2 cc' same(3) cd' mn)
  moreover have "currentCluster r' = currentCluster r + 1" using same(2) cc1 by simp
  ultimately show ?thesis using fill ok same(3) io by simp
qed

lemma remaining_nil:
  assumes g: "good inflate data r" and full: "currentOffset r = clusterSize r"
  shows "remaining data r = [] \<longleftrightarrow> currentCluster r + 1 = nClusters r"
proof -
  define c where "c = nat (currentCluster r + 1)"
  define cs where "cs = nat (clusterSize r)"
  define n where "n = nat (nClusters r)"
  have csi: "clusterSize r = int cs" "0 < cs" using goodD(1) [OF g] by (simp_all add: cs_def)
  have ci: "currentCluster r + 1 = int c" using goodD(6) [OF g] by (simp add: c_def)
  have ni: "nClusters r = int n" using encodesD(1) [OF goodD(3) [OF g]] by (simp add: n_def)
  have "int c \<le> int n"
  proof (cases "0 \<le> currentCluster r")
    case True
    from goodD(10) [OF g True] show ?thesis using ci ni by simp
  next
    case False
    with goodD(6) [OF g] have "currentCluster r = - 1" by simp
    with ci show ?thesis by simp
  qed
  then have le: "c \<le> n" by simp
  have "currentCluster r * clusterSize r + currentOffset r = (currentCluster r + 1) * clusterSize r"
    by (simp add: full algebra_simps)
  then have "remaining data r = drop (c * cs) data"
    by (simp add: remaining_def ci csi nat_mult_distrib)
  moreover have "length data = n * cs"
    using encodesD(2) [OF goodD(3) [OF g]] by (simp add: n_def cs_def)
  ultimately have "remaining data r = [] \<longleftrightarrow> n * cs \<le> c * cs" by simp
  also have "\<dots> \<longleftrightarrow> n \<le> c" using csi(2) by simp
  also have "\<dots> \<longleftrightarrow> c = n" using le by auto
  finally show ?thesis by (simp add: ci ni)
qed

lemma Read_good:
  assumes g: "good inflate data r" and p: "0 < plen"
  shows "if remaining data r = []
         then \<exists>r'. Read inflate r plen = Err EOF r' \<and> image_src r' = image_src r
         else \<exists>out r'. Read inflate r plen = Ok out r' \<and> out \<noteq> [] \<and> good inflate data r'
                \<and> remaining data r = out @ remaining data r' \<and> sameSetup r r'
                \<and> ((\<forall>t \<in> set (l1Table r). t = 0) \<longrightarrow> image_src r' = image_src r)
                \<and> (currentOffset r = clusterSize r \<longrightarrow>
                     (let c = nat (currentCluster r + 1); l2 = nat (l2TableSize r);
                          tab = l1Table r ! (c div l2)
                      in c mod l2 = 0 \<and> tab \<noteq> 0 \<longrightarrow>
                           (\<exists>rest. trace (image_src r')
                              = trace (image_src r)
                                @ [SeekTo tab,
                                   ReadAt (nat tab) (8 * min l2 (nat (nClusters r) - c div l2 * l2))]
                                @ rest)))"
proof (cases "currentOffset r < clusterSize r")
  case True
  from copy_good [OF g True p] obtain out r' where
    c: "(if currentOffset r < 0 \<or> min (clusterSize r - currentOffset r) (int plen) < 0
               \<or> int (length (currentData r)) < currentOffset r + min (clusterSize r - currentOffset r) (int plen)
            then Panic
            else Ok (slice (currentData r) (nat (currentOffset r))
                       (nat (currentOffset r + min (clusterSize r - currentOffset r) (int plen))))
                    (r\<lparr>currentOffset := currentOffset r + min (clusterSize r - currentOffset r) (int plen)\<rparr>))
           = Ok out r'"
    and ne: "out \<noteq> []" and g': "good inflate data r'"
    and rem: "remaining data r = out @ remaining data r'" and io: "image_src r' = image_src r"
    by blast
  from True have rd: "Read inflate r plen = Ok out r'"
    by (simp add: Read_eq c)
  from c have "sameSetup r r'"
    by (auto simp: sameSetup_def split: if_splits)
  with rd ne g' rem io True show ?thesis by auto
next
  case False
  with goodD(8) [OF g] have full: "currentOffset r = clusterSize r" by simp
  show ?thesis
  proof (cases "currentCluster r + 1 = nClusters r")
    case True
    then have "Read inflate r plen = Err EOF (r\<lparr>currentCluster := currentCluster r + 1\<rparr>)"
      by (simp add: Read_eq full fillNextCluster_def Let_def)
    moreover from True have "remaining data r = []"
      by (simp add: remaining_nil [OF g full])
    ultimately show ?thesis by simp
  next
    case ne: False
    then have nonempty: "remaining data r \<noteq> []"
      by (simp add: remaining_nil [OF g full])
    have "currentCluster r + 1 \<le> nClusters r"
    proof (cases "0 \<le> currentCluster r")
      case True
      from goodD(10) [OF g True] show ?thesis by simp
    next
      case False
      with goodD(6) [OF g] encodesD(1) [OF goodD(3) [OF g]] show ?thesis by simp
    qed
    with ne have more: "currentCluster r + 1 < nClusters r" by simp
    from fill_good [OF g more] obtain r1 where
      fill: "fillNextCluster inflate r = Ok () r1" and g1: "good inflate data r1"
      and cc1: "currentCluster r1 = currentCluster r + 1" and off1: "currentOffset r1 = 0"
      and io1: "let c = nat (currentCluster r + 1); l2 = nat (l2TableSize r);
                   tab = l1Table r ! (c div l2)
               in if c mod l2 = 0 \<and> tab \<noteq> 0
                  then \<exists>rest. trace (image_src r1)
                         = trace (image_src r)
                           @ [SeekTo tab,
                              ReadAt (nat tab) (8 * min l2 (nat (nClusters r) - c div l2 * l2))]
                           @ rest
                  else tab = 0 \<longrightarrow> image_src r1 = image_src r"
      by blast
    note s1 = fillNextCluster_Ok(1) [OF fill]
    have lt1: "currentOffset r1 < clusterSize r1" using goodD(1) [OF g1] off1 by simp
    from copy_good [OF g1 lt1 p] obtain out r' where
      c: "(if currentOffset r1 < 0 \<or> min (clusterSize r1 - currentOffset r1) (int plen) < 0
               \<or> int (length (currentData r1)) < currentOffset r1 + min (clusterSize r1 - currentOffset r1) (int plen)
            then Panic
            else Ok (slice (currentData r1) (nat (currentOffset r1))
                       (nat (currentOffset r1 + min (clusterSize r1 - currentOffset r1) (int plen))))
                    (r1\<lparr>currentOffset := currentOffset r1 + min (clusterSize r1 - currentOffset r1) (int plen)\<rparr>))
           = Ok out r'"
      and ne': "out \<noteq> []" and g': "good inflate data r'"
      and rem1: "remaining data r1 = out @ remaining data r'" and io2: "image_src r' = image_src r1"
      by blast
    have rd: "Read inflate r plen = Ok out r'"
      using c by (simp add: Read_eq full fill)
    from c have "sameSetup r1 r'"
      by (auto simp: sameSetup_def split: if_splits)
    with s1 have s: "sameSetup r r'" by (rule sameSetup_trans)
    have "remaining data r = remaining data r1"
      using s1 by (simp add: remaining_def full cc1 off1 sameSetup_def algebra_simps)
    with rem1 have rem: "remaining data r = out @ remaining data r'" by simp
    define c where "c = nat (currentCluster r + 1)"
    have "c < nat (nClusters r)" using more goodD(6) [OF g] by (simp add: c_def)
    from encodesD(3) [OF goodD(3) [OF g] this]
    have inr: "c div nat (l2TableSize r) < length (l1Table r)"
      by (simp add: clusterStored_def Let_def)
    have zero: "(\<forall>t \<in> set (l1Table r). t = 0) \<longrightarrow> image_src r' = image_src r"
    proof
      assume z: "\<forall>t \<in> set (l1Table r). t = 0"
      with inr have "l1Table r ! (c div nat (l2TableSize r)) = 0" by simp
      with io1 have "image_src r1 = image_src r" by (simp add: Let_def c_def)
      with io2 show "image_src r' = image_src r" by simp
    qed
    have tr: "let c = nat (currentCluster r + 1); l2 = nat (l2TableSize r);
                          tab = l1Table r ! (c div l2)
                      in c mod l2 = 0 \<and> tab \<noteq> 0 \<longrightarrow>
                           (\<exists>rest. trace (image_src r')
                              = trace (image_src r)
                                @ [SeekTo tab,
                                   ReadAt (nat tab) (8 * min l2 (nat (nClusters r) - c div l2 * l2))]
                                @ rest)"
      using io1 io2 by (auto simp: Let_def)
    from nonempty rd ne' g' rem s zero tr show ?thesis by auto
  qed
qed

lemma readLoop_good:
  assumes "good inflate data r" and "\<forall>p \<in> set reqs. 0 < p"
    and "length (remaining data r) < length reqs"
  shows "\<exists>r'. readLoop inflate r reqs = Stopped EOF (remaining data r) r'
           \<and> ((\<forall>t \<in> set (l1Table r). t = 0) \<longrightarrow> image_src r' = image_src r)"
  using assms
proof (induction reqs arbitrary: r)
  case Nil
  then show ?case by simp
next
  case (Cons p ps)
  then have p: "0 < p" by simp
  note step = Read_good [OF Cons.prems(1) p]
  show ?case
  proof (cases "remaining data r = []")
    case True
    with step show ?thesis by auto
  next
    case False
    with step obtain out r1 where rd: "Read inflate r p = Ok out r1" and ne: "out \<noteq> []"
      and g1: "good inflate data r1" and rem: "remaining data r = out @ remaining data r1"
      and s: "sameSetup r r1"
      and z: "(\<forall>t \<in> set (l1Table r). t = 0) \<longrightarrow> image_src r1 = image_src r"
      by auto
    from rem ne Cons.prems(3) have "length (remaining data r1) < length ps"
      by (cases out) simp_all
    with Cons.IH [OF g1] Cons.prems(2) obtain r' where
      "readLoop inflate r1 ps = Stopped EOF (remaining data r1) r'"
      "(\<forall>t \<in> set (l1Table r1). t = 0) \<longrightarrow> image_src r' = image_src r1"
      by auto
    with rd rem z s show ?thesis by (auto simp: sameSetup_def)
  qed
qed

lemma stateAfter_good:
  assumes "good inflate data r" and "\<forall>p \<in> set reqs. 0 < p"
    and "stateAfter inflate r reqs = Some r'"
  shows "good inflate data r' \<and> sameSetup r r'"
  using assms
proof (induction reqs arbitrary: r)
  case Nil
  then show ?case by (simp add: sameSetup_refl)
next
  case (Cons p ps)
  then have p: "0 < p" by simp
  from Cons.prems(3) obtain out r1 where rd: "Read inflate r p = Ok out r1"
    and rest: "stateAfter inflate r1 ps = Some r'"
    by (auto split: result.splits)
  from Read_good [OF Cons.prems(1) p] rd have "good inflate data r1 \<and> sameSetup r r1"
    by (auto split: if_splits)
  with Cons.IH [of r1] Cons.prems(2) rest show ?case
    by (auto intro: sameSetup_trans)
qed

lemma NewReader_good:
  assumes new: "NewReader img = Ok r img'" and enc: "encodes inflate (bytes img) r data"
  shows "good inflate data r" and "remaining data r = data"
proof -
  note st = NewReader_state [OF new]
  from NewReader_sizes [OF new] obtain cb where
    sz: "clusterSize r = 2 ^ cb" "l2TableSize r = 2 ^ (cb - 3)" "bytes img' = bytes img"
    by blast
  then have pos: "0 < clusterSize r" "0 < l2TableSize r" by simp_all
  with st enc sz(3) show "good inflate data r"
    by (simp add: good_def)
  show "remaining data r = data"
    by (simp add: remaining_def st)
qed

subsection \<open>Runs over whole clusters and all-zero images\<close>

lemma boundary_remaining:
  assumes g: "good inflate data r" and off: "currentOffset r = clusterSize r"
    and more: "currentCluster r + 1 < nClusters r"
  shows "remaining data r \<noteq> []"
proof -
  have cs: "0 < clusterSize r" by (rule goodD(1) [OF g])
  have cc: "- 1 \<le> currentCluster r" by (rule goodD(6) [OF g])
  have len: "length data = nat (nClusters r) * nat (clusterSize r)"
    by (rule encodesD(2) [OF goodD(3) [OF g]])
  have e: "currentCluster r * clusterSize r + currentOffset r
             = (currentCluster r + 1) * clusterSize r"
    by (simp add: off algebra_simps)
  have nn: "0 \<le> currentCluster r + 1" using cc by simp
  have "(currentCluster r + 1) * clusterSize r < nClusters r * clusterSize r"
    using more cs by simp
  then have "nat ((currentCluster r + 1) * clusterSize r) < nat (nClusters r * clusterSize r)"
    using nn cs by (simp add: nat_less_iff)
  also have "nat (nClusters r * clusterSize r) = length data"
    using more nn cs by (simp add: len nat_mult_distrib)
  finally show ?thesis by (simp add: remaining_def e)
qed

lemma full_read:
  assumes g: "good inflate data r" and off: "currentOffset r = clusterSize r"
    and more: "currentCluster r + 1 < nClusters r"
  shows "\<exists>out r'. Read inflate r (nat (clusterSize r)) = Ok out r' \<and> good inflate data r'
           \<and> sameSetup r r' \<and> currentCluster r' = currentCluster r + 1
           \<and> currentOffset r' = clusterSize r'"
proof -
  have cs: "0 < clusterSize r" by (rule goodD(1) [OF g])
  then have p: "0 < nat (clusterSize r)" by simp
  have ne: "remaining data r \<noteq> []" by (rule boundary_remaining [OF g off more])
  from Read_good [OF g p] ne obtain out r' where
    rd: "Read inflate r (nat (clusterSize r)) = Ok out r'" and g': "good inflate data r'"
    and same: "sameSetup r r'"
    by auto
  from rd obtain r1 where
    r1: "if clusterSize r \<le> currentOffset r then fillNextCluster inflate r = Ok () r1 else r1 = r"
    and r': "r' = r1\<lparr>currentOffset := currentOffset r1
                        + min (clusterSize r1 - currentOffset r1) (int (nat (clusterSize r)))\<rparr>"
    by (rule Read_Ok_cases)
  from r1 off have f: "fillNextCluster inflate r = Ok () r1" by simp
  from fillNextCluster_Ok [OF f] have s1: "clusterSize r1 = clusterSize r"
    and c1: "currentCluster r1 = currentCluster r + 1" and o1: "currentOffset r1 = 0"
    by (simp_all add: sameSetup_def)
  have "currentCluster r' = currentCluster r + 1" by (simp add: r' c1)
  moreover have "currentOffset r' = clusterSize r'" using cs by (simp add: r' s1 o1)
  ultimately show ?thesis using rd g' same by blast
qed

lemma full_reads:
  assumes "good inflate data r" and "currentOffset r = clusterSize r"
    and "currentCluster r + int k < nClusters r"
  shows "\<exists>r'. stateAfter inflate r (replicate k (nat (clusterSize r))) = Some r'
           \<and> good inflate data r' \<and> sameSetup r r'
           \<and> currentCluster r' = currentCluster r + int k
           \<and> currentOffset r' = clusterSize r'"
  using assms
proof (induction k arbitrary: r)
  case 0
  then show ?case by (simp add: sameSetup_refl)
next
  case (Suc k)
  from Suc.prems(3) have more: "currentCluster r + 1 < nClusters r" by simp
  from full_read [OF Suc.prems(1,2) more] obtain out r1 where
    rd: "Read inflate r (nat (clusterSize r)) = Ok out r1" and g1: "good inflate data r1"
    and s1: "sameSetup r r1" and c1: "currentCluster r1 = currentCluster r + 1"
    and o1: "currentOffset r1 = clusterSize r1"
    by blast
  from s1 have cs: "clusterSize r1 = clusterSize r" and n: "nClusters r1 = nClusters r"
    by (simp_all add: sameSetup_def)
  from Suc.prems(3) have m1: "currentCluster r1 + int k < nClusters r1"
    by (simp add: c1 n)
  from Suc.IH [OF g1 o1 m1] obtain r' where
    st: "stateAfter inflate r1 (replicate k (nat (clusterSize r1))) = Some r'"
    and g': "good inflate data r'" and s': "sameSetup r1 r'"
    and c': "currentCluster r' = currentCluster r1 + int k"
    and o': "currentOffset r' = clusterSize r'"
    by blast
  have "stateAfter inflate r (replicate (Suc k) (nat (clusterSize r))) = Some r'"
    using st by (simp add: rd cs)
  moreover have "sameSetup r r'" using s1 s' by (rule sameSetup_trans)
  moreover have "currentCluster r' = currentCluster r + int (Suc k)" by (simp add: c' c1)
  ultimately show ?case using g' o' by blast
qed

lemma table_reached:
  assumes new: "NewReader img = Ok r0 img'"
    and enc: "encodes inflate (bytes img) r0 data"
    and i: "0 \<le> i" "i * l2TableSize r0 < nClusters r0"
  shows "map_option (\<lambda>s. (currentOffset s, currentCluster s + 1))
           (stateAfter inflate r0 (replicate (nat (i * l2TableSize r0)) (nat (clusterSize r0))))
         = Some (clusterSize r0, i * l2TableSize r0)"
proof -
  from NewReader_good [OF new enc] have g0: "good inflate data r0" by simp
  have off: "currentOffset r0 = clusterSize r0" and cc: "currentCluster r0 = - 1"
    using NewReader_state(1,2) [OF new] by simp_all
  have l2: "0 < l2TableSize r0" by (rule goodD(2) [OF g0])
  have k0: "0 \<le> i * l2TableSize r0" using i(1) l2 by simp
  have m: "currentCluster r0 + int (nat (i * l2TableSize r0)) < nClusters r0"
    using i(2) k0 by (simp add: cc)
  from full_reads [OF g0 off m] obtain r' where
    st: "stateAfter inflate r0 (replicate (nat (i * l2TableSize r0)) (nat (clusterSize r0))) = Some r'"
    and s: "sameSetup r0 r'"
    and c: "currentCluster r' = currentCluster r0 + int (nat (i * l2TableSize r0))"
    and o: "currentOffset r' = clusterSize r'"
    by blast
  from s have "clusterSize r' = clusterSize r0" by (simp add: sameSetup_def)
  then show ?thesis using k0 by (simp add: st c o cc)
qed

lemma encodes_zero:
  assumes cs: "0 < clusterSize cfg" and l2: "0 < l2TableSize cfg"
    and n: "0 \<le> nClusters cfg"
    and zero: "\<forall>t \<in> set (l1Table cfg). t = 0"
    and cover: "nClusters cfg \<le> int (length (l1Table cfg)) * l2TableSize cfg"
  shows "encodes inflate img cfg (replicate (nat (nClusters cfg) * nat (clusterSize cfg)) 0)"
proof -
  define N where "N = nat (nClusters cfg)"
  define S where "S = nat (clusterSize cfg)"
  define L where "L = nat (l2TableSize cfg)"
  have Lpos: "0 < L" using l2 by (simp add: L_def)
  have cov: "N \<le> length (l1Table cfg) * L"
  proof -
    have "int N \<le> int (length (l1Table cfg) * L)"
      using cover n l2 by (simp add: N_def L_def)
    then show ?thesis by linarith
  qed
  have each: "clusterStored inflate img cfg c (take S (drop (c * S) (replicate (N * S) 0)))"
    if c: "c < N" for c
  proof -
    have "c < length (l1Table cfg) * L" using c cov by linarith
    then have idx: "c div L < length (l1Table cfg)"
      using Lpos by (simp add: less_mult_imp_div_less)
    then have tab: "l1Table cfg ! (c div L) = 0"
      using zero by simp
    have "Suc c \<le> N" using c by simp
    then have "Suc c * S \<le> N * S" by (rule mult_le_mono1)
    then have m: "min S (N * S - c * S) = S" by simp
    have tk: "take S (drop (c * S) (replicate (N * S) (0::byte))) = replicate S 0"
      by (simp add: m)
    show ?thesis
      unfolding tk using idx tab
      by (simp add: clusterStored_def l2EntryAt_def Let_def L_def [symmetric] S_def [symmetric])
  qed
  show ?thesis
    unfolding encodes_def using n each
    by (simp add: N_def [symmetric] S_def [symmetric])
qed

subsection \<open>Evaluation of the concrete images\<close>

lemma len_header2: "length (header2 a b c) = 72" by (simp add: header2_def)
lemma len_rawCluster: "length rawCluster = 512" by (simp add: rawCluster_def)
lemma len_packedCluster: "length packedCluster = 512" by (simp add: packedCluster_def)

lemma header2_fields:
  "slice (header2 a b c) 0 4 = magic"
  "Uint32 (slice (header2 a b c) 4 8) = 2"
  "Uint64 (slice (header2 a b c) 8 16) = 0"
  "Uint32 (slice (header2 a b c) 20 24) = 9"
  "Uint32 (slice (header2 a b c) 32 36) = 0"
  "Uint64 (slice (header2 a b c) 40 48) = 72"
  by (simp_all add: header2_def slice_def magic_def Uint32_def Uint64_def beUint_def)

lemma header2_sizes:
  "Uint64 (slice (header2 6 0 1) 24 32) = 1536"
  "Uint32 (slice (header2 6 0 1) 36 40) = 1"
  by (simp_all add: header2_def slice_def magic_def Uint32_def Uint64_def beUint_def)

lemma Uint64_bytes:
  "Uint64 (a # b # c # d # e # f # g # h # rest) =
     push_bit 56 (ucast a) OR push_bit 48 (ucast b) OR push_bit 40 (ucast c) OR push_bit 32 (ucast d)
     OR push_bit 24 (ucast e) OR push_bit 16 (ucast f) OR push_bit 8 (ucast g) OR ucast h"
  by (simp add: Uint64_def beUint_def push_bit_or push_bit_push_bit or.assoc)

lemma upt_one: "[0..<1] = [0]"
  by (simp add: upt_rec)

lemma NewReader_img3:
  "NewReader img3 =
     Ok \<lparr>clusterSize = 512, nClusters = 3, l1Table = [512], l2TableSize = 64,
         l2CompressedEntryHostClusterOffsetMask = 2 ^ 61 - 1,
         image_src = img3\<lparr>pos := 80, trace := [ReadAt 0 72, SeekTo 72, ReadAt 72 8]\<rparr>,
         currentCluster = - 1,
         currentL2Table = replicate 64 \<lparr>offset = 0, compressed = False, allZeroes = False\<rparr>,
         currentData = replicate 512 0, currentOffset = 512\<rparr>
        (img3\<lparr>pos := 80, trace := [ReadAt 0 72, SeekTo 72, ReadAt 72 8]\<rparr>)"
  by (simp add: NewReader_def parseHeaderAndL1_def parseL1Table_def Seek_def ReadFull_def img3_def
        Let_def len_header2 len_rawCluster len_packedCluster header2_fields header2_sizes
        goDiv_def l1EntryOffsetMask_def Uint64_bytes upt_one)

lemma rdr3_eq:
  "rdr3 = \<lparr>clusterSize = 512, nClusters = 3, l1Table = [512], l2TableSize = 64,
         l2CompressedEntryHostClusterOffsetMask = 2 ^ 61 - 1,
         image_src = img3\<lparr>pos := 80, trace := [ReadAt 0 72, SeekTo 72, ReadAt 72 8]\<rparr>,
         currentCluster = - 1,
         currentL2Table = replicate 64 \<lparr>offset = 0, compressed = False, allZeroes = False\<rparr>,
         currentData = replicate 512 0, currentOffset = 512\<rparr>"
  by (simp add: rdr3_def NewReader_img3)

lemma upt_three: "[0..<3] = [0, 1, 2]"
  by (simp add: upt_rec)

lemma parseL2Table_rdr3:
  "parseL2Table (rdr3\<lparr>currentCluster := 0\<rparr>) 0 =
     Ok () (rdr3\<lparr>currentCluster := 0,
                 image_src := img3\<lparr>pos := 536,
                    trace := [ReadAt 0 72, SeekTo 72, ReadAt 72 8, SeekTo 512, ReadAt 512 24]\<rparr>,
                 currentL2Table :=
                   [\<lparr>offset = 1024, compressed = False, allZeroes = False\<rparr>,
                    \<lparr>offset = 0, compressed = False, allZeroes = True\<rparr>,
                    \<lparr>offset = 1536, compressed = True, allZeroes = False\<rparr>]
                   @ replicate 61 \<lparr>offset = 0, compressed = False, allZeroes = False\<rparr>\<rparr>)"
  by (simp add: rdr3_eq parseL2Table_def Seek_def ReadFull_def img3_def Let_def
        len_header2 len_rawCluster len_packedCluster storeAll_eq upt_three Uint64_bytes
        decodeL2Entry_def l2EntryCompressedBit_def l2EntryNoncompressedAllZeroesBit_def
        l2EntryNoncompressedOffsetMask_def)

lemma rdr3_fields:
  "clusterSize rdr3 = 512" "nClusters rdr3 = 3" "l1Table rdr3 = [512]" "l2TableSize rdr3 = 64"
  "l2CompressedEntryHostClusterOffsetMask rdr3 = 2 ^ 61 - 1"
  "image_src rdr3 = img3\<lparr>pos := 80, trace := [ReadAt 0 72, SeekTo 72, ReadAt 72 8]\<rparr>"
  "currentCluster rdr3 = - 1"
  "currentL2Table rdr3 = replicate 64 \<lparr>offset = 0, compressed = False, allZeroes = False\<rparr>"
  "currentData rdr3 = replicate 512 0" "currentOffset rdr3 = 512"
  by (simp_all add: rdr3_eq)

lemma goRem_numeral: "goRem 0 64 = 0" "goRem 1 64 = 1" "goRem 2 64 = 2" "goDiv 0 64 = 0"
  by (simp_all add: goRem_def goDiv_def)

lemma fill_rdr3:
  "fillNextCluster inflate rdr3 =
     Ok () (rdr3\<lparr>currentCluster := 0,
                 image_src := img3\<lparr>pos := 1536,
                    trace := [ReadAt 0 72, SeekTo 72, ReadAt 72 8, SeekTo 512, ReadAt 512 24,
                              SeekTo 1024, ReadAt 1024 512]\<rparr>,
                 currentL2Table :=
                   [\<lparr>offset = 1024, compressed = False, allZeroes = False\<rparr>,
                    \<lparr>offset = 0, compressed = False, allZeroes = True\<rparr>,
                    \<lparr>offset = 1536, compressed = True, allZeroes = False\<rparr>]
                   @ replicate 61 \<lparr>offset = 0, compressed = False, allZeroes = False\<rparr>,
                 currentData := rawCluster, currentOffset := 0\<rparr>)"
  by (simp add: fillNextCluster_def Let_def rdr3_fields goRem_numeral parseL2Table_rdr3
        materializeCluster_def Seek_def ReadFull_def img3_def copy_def
        len_header2 len_rawCluster len_packedCluster)

lemma rdr3AtCluster0_fields:
  "clusterSize rdr3AtCluster0 = 512" "currentCluster rdr3AtCluster0 = 0"
  "currentData rdr3AtCluster0 = rawCluster" "currentOffset rdr3AtCluster0 = 0"
  by (simp_all add: rdr3AtCluster0_def fill_rdr3 rdr3_fields)

lemma len_header3: "length header3 = 72" by (simp add: header3_def)
lemma len_v3block: "length (v3block a b c) = 32" by (simp add: v3block_def)

lemma header3_fields:
  "slice header3 0 4 = magic"
  "Uint32 (slice header3 4 8) = 3"
  "Uint64 (slice header3 8 16) = 0"
  "Uint32 (slice header3 20 24) = 9"
  "Uint64 (slice header3 24 32) = 512"
  "Uint32 (slice header3 32 36) = 0"
  "Uint32 (slice header3 36 40) = 0"
  "Uint64 (slice header3 40 48) = 0"
  by (simp_all add: header3_def slice_def magic_def Uint32_def Uint64_def beUint_def)

lemma v3block_fields:
  "Uint64 (slice (v3block 0 1 104) 0 8) = 1"
  "Uint64 (slice (v3block 1 8 112) 0 8) = 0x0100000000000008"
  "Uint32 (slice (v3block 1 8 112) 0 4) = 0x01000000"
  "Uint64 (slice (v3block 0 8 112) 0 8) = 8"
  "Uint32 (slice (v3block 0 8 112) 0 4) = 0"
  "Uint32 (slice (v3block a b c) 28 32) = ucast c"
  by (simp_all add: v3block_def slice_def Uint32_def Uint64_def beUint_def)

lemma ReadFull_header3:
  "ReadFull \<lparr>bytes = header3 @ rest, pos = 0, trace = []\<rparr> 72
     = (None, header3, \<lparr>bytes = header3 @ rest, pos = 72, trace = [ReadAt 0 72]\<rparr>)"
  by (simp add: ReadFull_def Let_def len_header3)

lemma ReadFull_v3block:
  "ReadFull \<lparr>bytes = header3 @ v3block a b c @ rest, pos = 72, trace = [ReadAt 0 72]\<rparr> 32
     = (None, v3block a b c,
        \<lparr>bytes = header3 @ v3block a b c @ rest, pos = 104, trace = [ReadAt 0 72, ReadAt 72 32]\<rparr>)"
  by (simp add: ReadFull_def Let_def len_header3 len_v3block)

lemma NewReader_imgFourBytes:
  "NewReader imgFourBytes = Err ErrUnexpectedEOF (imgFourBytes\<lparr>pos := 4, trace := [ReadAt 0 72]\<rparr>)"
  by (simp add: NewReader_def parseHeaderAndL1_def ReadFull_def imgFourBytes_def Let_def)

lemma NewReader_imgFlaggedField:
  "NewReader imgFlaggedField
     = Err (UnknownIncompatibleFeatures 0x0100000000000000)
           (imgFlaggedField\<lparr>pos := 104, trace := [ReadAt 0 72, ReadAt 72 32]\<rparr>)"
  by (simp add: NewReader_def parseHeaderAndL1_def parseV3Header_def imgFlaggedField_def Let_def
        ReadFull_header3 ReadFull_v3block header3_fields v3block_fields
        incFeatDirtyBit_def incFeatCorruptBit_def incFeatExternalDataFileBit_def
        incFeatCompressionTypeBit_def incFeatExtendedL2EntriesBit_def incFeatUnknownBits_def)

lemma NewReader_imgZstd:
  "NewReader imgZstd =
     Ok \<lparr>clusterSize = 512, nClusters = 1, l1Table = [], l2TableSize = 64,
         l2CompressedEntryHostClusterOffsetMask = 2 ^ 61 - 1,
         image_src = imgZstd\<lparr>pos := 0,
            trace := [ReadAt 0 72, ReadAt 72 32, ReadAt 104 8, SeekTo 0]\<rparr>,
         currentCluster = - 1,
         currentL2Table = replicate 64 \<lparr>offset = 0, compressed = False, allZeroes = False\<rparr>,
         currentData = replicate 512 0, currentOffset = 512\<rparr>
        (imgZstd\<lparr>pos := 0, trace := [ReadAt 0 72, ReadAt 72 32, ReadAt 104 8, SeekTo 0]\<rparr>)"
  by (simp add: NewReader_def parseHeaderAndL1_def parseV3Header_def parseL1Table_def Seek_def
        imgZstd_def Let_def
        ReadFull_header3 ReadFull_v3block header3_fields v3block_fields
        incFeatDirtyBit_def incFeatCorruptBit_def incFeatExternalDataFileBit_def
        incFeatCompressionTypeBit_def incFeatExtendedL2EntriesBit_def incFeatUnknownBits_def
        compressionTypeZlib_def goDiv_def ReadFull_def len_header3 len_v3block)

lemma NewReader_imgHuge:
  "NewReader imgHuge =
     Ok \<lparr>clusterSize = 512, nClusters = - 18014398509481984, l1Table = [], l2TableSize = 64,
         l2CompressedEntryHostClusterOffsetMask = 2 ^ 61 - 1,
         image_src = imgHuge\<lparr>pos := 0, trace := [ReadAt 0 72, SeekTo 0]\<rparr>,
         currentCluster = - 1,
         currentL2Table = replicate 64 \<lparr>offset = 0, compressed = False, allZeroes = False\<rparr>,
         currentData = replicate 512 0, currentOffset = 512\<rparr>
        (imgHuge\<lparr>pos := 0, trace := [ReadAt 0 72, SeekTo 0]\<rparr>)"
  by (simp add: NewReader_def parseHeaderAndL1_def parseL1Table_def Seek_def ReadFull_def
        imgHuge_def Let_def slice_def magic_def Uint32_def Uint64_def beUint_def goDiv_def)

subsection \<open>Evaluation of the images for the decode\<close>

lemma storedInflate_packed:
  "storedInflate (1 # 0 # 2 # 0xff # 0xfd # packedCluster) 512 = (None, packedCluster, 517)"
  by (simp add: storedInflate_def Let_def len_packedCluster)

lemma encodes_img3: "encodes storedInflate (bytes img3) rdr3 data3"
proof -
  have c0: "clusterStored storedInflate (bytes img3) rdr3 0 rawCluster"
    by (simp add: clusterStored_def l2EntryAt_def rdr3_fields Let_def img3_def
          len_header2 len_rawCluster len_packedCluster Uint64_bytes
          decodeL2Entry_def l2EntryCompressedBit_def l2EntryNoncompressedAllZeroesBit_def
          l2EntryNoncompressedOffsetMask_def)
  have c1: "clusterStored storedInflate (bytes img3) rdr3 (Suc 0) (replicate 512 0)"
    by (simp add: clusterStored_def l2EntryAt_def rdr3_fields Let_def img3_def
          len_header2 len_rawCluster len_packedCluster Uint64_bytes
          decodeL2Entry_def l2EntryCompressedBit_def l2EntryNoncompressedAllZeroesBit_def
          l2EntryNoncompressedOffsetMask_def)
  have c2: "clusterStored storedInflate (bytes img3) rdr3 2 packedCluster"
    by (simp add: clusterStored_def l2EntryAt_def rdr3_fields Let_def img3_def
          len_header2 len_rawCluster len_packedCluster Uint64_bytes
          decodeL2Entry_def l2EntryCompressedBit_def l2EntryNoncompressedAllZeroesBit_def
          l2EntryNoncompressedOffsetMask_def storedInflate_packed)
  show ?thesis
    using c0 c1 c2
    by (simp add: encodes_def rdr3_fields upt_three data3_def len_rawCluster len_packedCluster)
qed

lemma header2_sizes65:
  "Uint64 (slice (header2 0x82 0 2) 24 32) = 33280"
  "Uint32 (slice (header2 0x82 0 2) 36 40) = 2"
  by (simp_all add: header2_def slice_def magic_def Uint32_def Uint64_def beUint_def)

lemma upt_two: "[0..<2] = [0, 1]"
  by (simp add: upt_rec)

lemma NewReader_img65:
  "NewReader img65 =
     Ok \<lparr>clusterSize = 512, nClusters = 65, l1Table = [0, 512], l2TableSize = 64,
         l2CompressedEntryHostClusterOffsetMask = 2 ^ 61 - 1,
         image_src = img65\<lparr>pos := 88, trace := [ReadAt 0 72, SeekTo 72, ReadAt 72 16]\<rparr>,
         currentCluster = - 1,
         currentL2Table = replicate 64 \<lparr>offset = 0, compressed = False, allZeroes = False\<rparr>,
         currentData = replicate 512 0, currentOffset = 512\<rparr>
        (img65\<lparr>pos := 88, trace := [ReadAt 0 72, SeekTo 72, ReadAt 72 16]\<rparr>)"
  by (simp add: NewReader_def parseHeaderAndL1_def parseL1Table_def Seek_def ReadFull_def img65_def
        Let_def len_header2 len_rawCluster header2_fields header2_sizes65
        goDiv_def l1EntryOffsetMask_def Uint64_bytes upt_two)

lemma rdr65_fields:
  "clusterSize rdr65 = 512" "nClusters rdr65 = 65" "l1Table rdr65 = [0, 512]"
  "l2TableSize rdr65 = 64"
  "l2CompressedEntryHostClusterOffsetMask rdr65 = 2 ^ 61 - 1"
  by (simp_all add: rdr65_def NewReader_img65)

lemma encodes_img65: "encodes storedInflate (bytes img65) rdr65 data65"
proof -
  have lo: "clusterStored storedInflate (bytes img65) rdr65 c
              (take 512 (drop (c * 512) data65))" if "c < 64" for c
  proof -
    from that have d: "c div 64 = 0" by simp
    from that have le: "c * 512 + 512 \<le> 32768" by simp
    then have z: "take 512 (drop (c * 512) data65) = replicate 512 0"
      by (simp add: data65_def min_def)
    show ?thesis
      by (simp add: clusterStored_def l2EntryAt_def rdr65_fields Let_def d z)
  qed
  have hi: "clusterStored storedInflate (bytes img65) rdr65 64 rawCluster"
    by (simp add: clusterStored_def l2EntryAt_def rdr65_fields Let_def img65_def
          len_header2 len_rawCluster Uint64_bytes
          decodeL2Entry_def l2EntryCompressedBit_def l2EntryNoncompressedAllZeroesBit_def
          l2EntryNoncompressedOffsetMask_def)
  have last: "take 512 (drop (64 * 512) data65) = rawCluster"
    by (simp add: data65_def len_rawCluster)
  have all: "clusterStored storedInflate (bytes img65) rdr65 c
              (take 512 (drop (c * 512) data65))" if "c < 65" for c
  proof (cases "c < 64")
    case True
    then show ?thesis by (rule lo)
  next
    case False
    with that have "c = 64" by simp
    with hi last show ?thesis by simp
  qed
  have len: "length data65 = 65 * 512" by (simp add: data65_def len_rawCluster)
  show ?thesis
    unfolding encodes_def using all len by (simp add: rdr65_fields)
qed

lemma header2_sizesZero:
  "Uint64 (slice (header2 2 0 1) 24 32) = 512"
  "Uint64 (slice (header2 2 1 1) 24 32) = 513"
  "Uint32 (slice (header2 a b 1) 36 40) = 1"
  by (simp_all add: header2_def slice_def magic_def Uint32_def Uint64_def beUint_def)

lemma NewReader_imgZero:
  "NewReader imgZero =
     Ok \<lparr>clusterSize = 512, nClusters = 1, l1Table = [0], l2TableSize = 64,
         l2CompressedEntryHostClusterOffsetMask = 2 ^ 61 - 1,
         image_src = imgZero\<lparr>pos := 80, trace := [ReadAt 0 72, SeekTo 72, ReadAt 72 8]\<rparr>,
         currentCluster = - 1,
         currentL2Table = replicate 64 \<lparr>offset = 0, compressed = False, allZeroes = False\<rparr>,
         currentData = replicate 512 0, currentOffset = 512\<rparr>
        (imgZero\<lparr>pos := 80, trace := [ReadAt 0 72, SeekTo 72, ReadAt 72 8]\<rparr>)"
  by (simp add: NewReader_def parseHeaderAndL1_def parseL1Table_def Seek_def ReadFull_def imgZero_def
        Let_def len_header2 header2_fields header2_sizesZero
        goDiv_def l1EntryOffsetMask_def Uint64_bytes upt_one)

lemma rdrZero_eq:
  "rdrZero = \<lparr>clusterSize = 512, nClusters = 1, l1Table = [0], l2TableSize = 64,
         l2CompressedEntryHostClusterOffsetMask = 2 ^ 61 - 1,
         image_src = imgZero\<lparr>pos := 80, trace := [ReadAt 0 72, SeekTo 72, ReadAt 72 8]\<rparr>,
         currentCluster = - 1,
         currentL2Table = replicate 64 \<lparr>offset = 0, compressed = False, allZeroes = False\<rparr>,
         currentData = replicate 512 0, currentOffset = 512\<rparr>"
  by (simp add: rdrZero_def NewReader_imgZero)

lemma header2_sizesNoL1:
  "Uint64 (slice (header2 2 0 0) 24 32) = 512"
  "Uint32 (slice (header2 a b 0) 36 40) = 0"
  by (simp_all add: header2_def slice_def magic_def Uint32_def Uint64_def beUint_def)

lemma rdrZero_fields:
  "clusterSize rdrZero = 512" "nClusters rdrZero = 1" "l1Table rdrZero = [0]"
  "l2TableSize rdrZero = 64"
  "currentL2Table rdrZero = replicate 64 \<lparr>offset = 0, compressed = False, allZeroes = False\<rparr>"
  "image_src rdrZero = imgZero\<lparr>pos := 80, trace := [ReadAt 0 72, SeekTo 72, ReadAt 72 8]\<rparr>"
  by (simp_all add: rdrZero_eq)

lemma NewReader_imgZero513:
  "NewReader imgZero513 =
     Ok \<lparr>clusterSize = 512, nClusters = 1, l1Table = [0], l2TableSize = 64,
         l2CompressedEntryHostClusterOffsetMask = 2 ^ 61 - 1,
         image_src = imgZero513\<lparr>pos := 80, trace := [ReadAt 0 72, SeekTo 72, ReadAt 72 8]\<rparr>,
         currentCluster = - 1,
         currentL2Table = replicate 64 \<lparr>offset = 0, compressed = False, allZeroes = False\<rparr>,
         currentData = replicate 512 0, currentOffset = 512\<rparr>
        (imgZero513\<lparr>pos := 80, trace := [ReadAt 0 72, SeekTo 72, ReadAt 72 8]\<rparr>)"
  by (simp add: NewReader_def parseHeaderAndL1_def parseL1Table_def Seek_def ReadFull_def
        imgZero513_def Let_def len_header2 header2_fields header2_sizesZero
        goDiv_def l1EntryOffsetMask_def Uint64_bytes upt_one)

lemma NewReader_imgZero65:
  "NewReader imgZero65 =
     Ok \<lparr>clusterSize = 512, nClusters = 65, l1Table = [0, 0], l2TableSize = 64,
         l2CompressedEntryHostClusterOffsetMask = 2 ^ 61 - 1,
         image_src = imgZero65\<lparr>pos := 88, trace := [ReadAt 0 72, SeekTo 72, ReadAt 72 16]\<rparr>,
         currentCluster = - 1,
         currentL2Table = replicate 64 \<lparr>offset = 0, compressed = False, allZeroes = False\<rparr>,
         currentData = replicate 512 0, currentOffset = 512\<rparr>
        (imgZero65\<lparr>pos := 88, trace := [ReadAt 0 72, SeekTo 72, ReadAt 72 16]\<rparr>)"
  by (simp add: NewReader_def parseHeaderAndL1_def parseL1Table_def Seek_def ReadFull_def
        imgZero65_def Let_def len_header2 header2_fields header2_sizes65
        goDiv_def l1EntryOffsetMask_def Uint64_bytes upt_two)

lemma NewReader_imgNoL1:
  "NewReader imgNoL1 =
     Ok \<lparr>clusterSize = 512, nClusters = 1, l1Table = [], l2TableSize = 64,
         l2CompressedEntryHostClusterOffsetMask = 2 ^ 61 - 1,
         image_src = imgNoL1\<lparr>pos := 72, trace := [ReadAt 0 72, SeekTo 72]\<rparr>,
         currentCluster = - 1,
         currentL2Table = replicate 64 \<lparr>offset = 0, compressed = False, allZeroes = False\<rparr>,
         currentData = replicate 512 0, currentOffset = 512\<rparr>
        (imgNoL1\<lparr>pos := 72, trace := [ReadAt 0 72, SeekTo 72]\<rparr>)"
  by (simp add: NewReader_def parseHeaderAndL1_def parseL1Table_def Seek_def ReadFull_def
        imgNoL1_def Let_def len_header2 header2_fields header2_sizesNoL1
        goDiv_def l1EntryOffsetMask_def)

subsection \<open>Decoding of L2 entries\<close>

text \<open>
  Claim C2. Every entry that \<^verbatim>\<open>parseL2Table\<close> decodes from an L2 table on disk is
  classified by the 64-bit big-endian value \<open>e\<close> of its 8 bytes: with bit 62 set it is
  compressed, with host offset \<open>e AND (2 ^ (70 - clusterBits) - 1)\<close>; otherwise with
  bit 0 set it is all-zero; otherwise it is raw, with host offset
  \<open>e AND 0x00FFFFFFFFFFFE00\<close>. The mask of the compressed case is the one that
  \<^verbatim>\<open>parseHeaderAndL1\<close> stores for a cluster size of \<open>2 ^ clusterBits\<close>.
\<close>

theorem l2_entry_kinds:
  assumes new: "NewReader img = Ok r0 img0"
    and cb: "clusterSize r0 = 2 ^ cb"
    and same: "l2CompressedEntryHostClusterOffsetMask r = l2CompressedEntryHostClusterOffsetMask r0"
    and ok: "parseL2Table r i = Ok u r'"
    and nz: "l1Table r ! nat i \<noteq> 0"
    and k: "int k < min (l2TableSize r) (nClusters r - currentCluster r)"
    and e: "e = Uint64 (drop (nat (l1Table r ! nat i) + k * 8) (bytes (image_src r)))"
  shows "entryKind (currentL2Table r' ! k) =
           (if bit e 62 then Compressed (uint (e AND (2 ^ (70 - cb) - 1)))
            else if bit e 0 then AllZero
            else Raw (uint (e AND 0x00FFFFFFFFFFFE00)))"
proof -
  from new obtain cfg where p: "parseHeaderAndL1 img = Ok cfg img0"
    and m0: "l2CompressedEntryHostClusterOffsetMask r0 = l2CompressedEntryHostClusterOffsetMask cfg"
    and c0: "clusterSize r0 = clusterSize cfg"
    by (auto simp: NewReader_def split: result.splits)
  from parseHeaderAndL1_config [OF p] obtain cb' where
    cb': "9 \<le> cb'" "cb' \<le> 21" "clusterSize cfg = 2 ^ cb'"
    "l2CompressedEntryHostClusterOffsetMask cfg = 2 ^ (70 - cb') - 1"
    by blast
  from cb c0 cb'(3) have "(2::int) ^ cb = 2 ^ cb'" by simp
  then have "cb = cb'" by simp
  with same m0 cb' have mask: "l2CompressedEntryHostClusterOffsetMask r = 2 ^ (70 - cb) - 1"
    and lt: "70 - cb < 64" by simp_all
  from parseL2Table_Ok_nonzero [OF ok nz] obtain m where
    m: "int m = min (l2TableSize r) (nClusters r - currentCluster r)"
    and tab: "currentL2Table r' =
               map (\<lambda>k. decodeL2Entry (l2CompressedEntryHostClusterOffsetMask r)
                          (Uint64 (drop (nat (l1Table r ! nat i) + k * 8) (bytes (image_src r)))))
                   [0..<m]
               @ drop m (currentL2Table r)"
    by blast
  from k m have "k < m" by linarith
  then have "currentL2Table r' ! k = decodeL2Entry (2 ^ (70 - cb) - 1) e"
    by (simp add: tab nth_append mask e)
  then show ?thesis
    by (simp add: entryKind_decodeL2Entry [OF lt])
qed

theorem l2_entry_kinds_witness:
  "NewReader img3 = Ok rdr3 (image_src rdr3)
   \<and> clusterSize rdr3 = 2 ^ 9
   \<and> parseL2Table (rdr3\<lparr>currentCluster := 0\<rparr>) 0
       = Ok () (resState (parseL2Table (rdr3\<lparr>currentCluster := 0\<rparr>) 0))
   \<and> l1Table (rdr3\<lparr>currentCluster := 0\<rparr>) ! nat 0 \<noteq> 0
   \<and> int 2 < min (l2TableSize (rdr3\<lparr>currentCluster := 0\<rparr>))
                 (nClusters (rdr3\<lparr>currentCluster := 0\<rparr>) - currentCluster (rdr3\<lparr>currentCluster := 0\<rparr>))
   \<and> Uint64 (drop (nat (l1Table (rdr3\<lparr>currentCluster := 0\<rparr>) ! nat 0) + 2 * 8)
               (bytes (image_src (rdr3\<lparr>currentCluster := 0\<rparr>)))) = 0x4000000000000600
   \<and> entryKind (currentL2Table (resState (parseL2Table (rdr3\<lparr>currentCluster := 0\<rparr>) 0)) ! 2)
       = Compressed 1536"
proof -
  let ?r = "rdr3\<lparr>currentCluster := 0\<rparr>"
  have new: "NewReader img3 = Ok rdr3 (image_src rdr3)"
    by (simp add: NewReader_img3 rdr3_eq)
  have cb: "clusterSize rdr3 = 2 ^ 9" by (simp add: rdr3_eq)
  have same: "l2CompressedEntryHostClusterOffsetMask ?r = l2CompressedEntryHostClusterOffsetMask rdr3"
    by simp
  have ok: "parseL2Table ?r 0 = Ok () (resState (parseL2Table ?r 0))"
    by (simp add: parseL2Table_rdr3)
  have nz: "l1Table ?r ! nat 0 \<noteq> 0" by (simp add: rdr3_eq)
  have k: "int 2 < min (l2TableSize ?r) (nClusters ?r - currentCluster ?r)"
    by (simp add: rdr3_eq)
  have e: "0x4000000000000600 = Uint64 (drop (nat (l1Table ?r ! nat 0) + 2 * 8) (bytes (image_src ?r)))"
    by (simp add: rdr3_eq img3_def len_header2 Uint64_def beUint_def)
  have v: "(if bit (0x4000000000000600 :: 64 word) 62
            then Compressed (uint ((0x4000000000000600 :: 64 word) AND (2 ^ (70 - 9) - 1)))
            else if bit (0x4000000000000600 :: 64 word) 0 then AllZero
            else Raw (uint ((0x4000000000000600 :: 64 word) AND 0x00FFFFFFFFFFFE00))) = Compressed 1536"
    by simp
  have c: "entryKind (currentL2Table (resState (parseL2Table ?r 0)) ! 2) = Compressed 1536"
    by (rule trans [OF l2_entry_kinds [OF new cb same ok nz k e] v])
  show ?thesis
    by (intro conjI) (rule new cb ok nz k e [symmetric] c)+
qed

subsection \<open>One cluster per call\<close>

text \<open>
  Claim C4. A call of \<open>Read\<close> that returns bytes returns them from one cluster. The
  buffer it copies from is the one of \<open>bufferState\<close>: the buffer that the transition
  materialized when the current cluster was used up, and otherwise the buffer the
  reader held before the call, which the call leaves as it was. From that buffer, at
  the intra-cluster offset (0 after a transition), it returns exactly
  \<open>min (clusterSize - offset) (len p)\<close> bytes; the state after the call is that buffer
  state with the offset advanced by that count, never beyond \<open>clusterSize\<close>, and the
  cluster index has moved by one exactly when a transition was needed. This holds for
  every reader state and every request length, in particular for every length of at
  least 1.
\<close>

theorem read_within_one_cluster:
  assumes "Read inflate r plen = Ok out r'"
  shows "int (length out) = min (clusterSize r - startOffset r) (int plen)
         \<and> out = slice (currentData (bufferState inflate r)) (nat (startOffset r))
                   (nat (startOffset r) + length out)
         \<and> r' = (bufferState inflate r)\<lparr>currentOffset := startOffset r + int (length out)\<rparr>
         \<and> (\<not> clusterSize r \<le> currentOffset r \<longrightarrow>
               currentData r' = currentData r
               \<and> out = slice (currentData r) (nat (currentOffset r))
                         (nat (currentOffset r) + length out))
         \<and> out = slice (currentData r') (nat (startOffset r)) (nat (startOffset r) + length out)
         \<and> currentOffset r' = startOffset r + int (length out)
         \<and> currentOffset r' \<le> clusterSize r
         \<and> currentCluster r' =
             (if clusterSize r \<le> currentOffset r then currentCluster r + 1 else currentCluster r)"
proof -
  from assms obtain r1 where
    r1: "if clusterSize r \<le> currentOffset r then fillNextCluster inflate r = Ok () r1 else r1 = r"
    and lo: "0 \<le> currentOffset r1"
    and n: "0 \<le> min (clusterSize r1 - currentOffset r1) (int plen)"
    and hi: "currentOffset r1 + min (clusterSize r1 - currentOffset r1) (int plen)
               \<le> int (length (currentData r1))"
    and out: "out = slice (currentData r1) (nat (currentOffset r1))
                 (nat (currentOffset r1 + min (clusterSize r1 - currentOffset r1) (int plen)))"
    and r': "r' = r1\<lparr>currentOffset := currentOffset r1 + min (clusterSize r1 - currentOffset r1) (int plen)\<rparr>"
    by (rule Read_Ok_cases)
  have bs: "bufferState inflate r = r1"
    using r1 by (simp add: bufferState_def split: if_splits)
  have facts: "clusterSize r1 = clusterSize r \<and> currentOffset r1 = startOffset r
               \<and> currentCluster r1 =
                   (if clusterSize r \<le> currentOffset r then currentCluster r + 1 else currentCluster r)"
  proof (cases "clusterSize r \<le> currentOffset r")
    case True
    with r1 have "fillNextCluster inflate r = Ok () r1" by simp
    from fillNextCluster_Ok [OF this] True show ?thesis
      by (simp add: startOffset_def sameSetup_def)
  next
    case False
    with r1 show ?thesis by (simp add: startOffset_def)
  qed
  define k where "k = min (clusterSize r - startOffset r) (int plen)"
  have k: "0 \<le> k" "startOffset r + k \<le> int (length (currentData r1))" "0 \<le> startOffset r"
    using n hi lo facts by (simp_all add: k_def)
  have len: "int (length out) = k"
    using k by (simp add: out facts slice_def k_def [symmetric] nat_add_distrib)
  have eq0: "out = slice (currentData r1) (nat (startOffset r)) (nat (startOffset r) + nat k)"
    using k by (simp add: out facts k_def [symmetric] nat_add_distrib)
  have l2: "nat k = length out" using len by simp
  have eq1: "out = slice (currentData r1) (nat (startOffset r)) (nat (startOffset r) + length out)"
    using eq0 unfolding l2 .
  have st: "r' = r1\<lparr>currentOffset := startOffset r + int (length out)\<rparr>"
    using len by (simp add: r' facts k_def)
  have same: "\<not> clusterSize r \<le> currentOffset r \<longrightarrow>
               currentData r' = currentData r
               \<and> out = slice (currentData r) (nat (currentOffset r))
                         (nat (currentOffset r) + length out)"
  proof
    assume f: "\<not> clusterSize r \<le> currentOffset r"
    with r1 have "r1 = r" by simp
    moreover from f have "startOffset r = currentOffset r" by (simp add: startOffset_def)
    ultimately show "currentData r' = currentData r
               \<and> out = slice (currentData r) (nat (currentOffset r))
                         (nat (currentOffset r) + length out)"
      using eq1 by (simp add: r')
  qed
  have a: "int (length out) = min (clusterSize r - startOffset r) (int plen)"
    using len by (simp add: k_def)
  have b: "out = slice (currentData (bufferState inflate r)) (nat (startOffset r))
                   (nat (startOffset r) + length out)"
    using eq1 by (simp add: bs)
  have c: "r' = (bufferState inflate r)\<lparr>currentOffset := startOffset r + int (length out)\<rparr>"
    using st by (simp add: bs)
  have d: "out = slice (currentData r') (nat (startOffset r)) (nat (startOffset r) + length out)"
    using eq1 by (simp add: r')
  have e: "currentOffset r' = startOffset r + int (length out)"
    by (simp add: st)
  have f: "currentOffset r' \<le> clusterSize r"
    unfolding e len by (simp add: k_def)
  have g: "currentCluster r' =
      (if clusterSize r \<le> currentOffset r then currentCluster r + 1 else currentCluster r)"
    using facts by (simp add: r')
  from a b c same d e f g show ?thesis by blast
qed

theorem read_within_one_cluster_witness:
  "Read storedInflate rdr3 100 = Ok (take 100 rawCluster) (rdr3AtCluster0\<lparr>currentOffset := 100\<rparr>)
   \<and> bufferState storedInflate rdr3 = rdr3AtCluster0
   \<and> int (length (take 100 rawCluster)) = min (clusterSize rdr3 - startOffset rdr3) (int 100)
   \<and> currentCluster (rdr3AtCluster0\<lparr>currentOffset := 100\<rparr>) = currentCluster rdr3 + 1
   \<and> Read storedInflate (rdr3AtCluster0\<lparr>currentOffset := 500\<rparr>) 100
       = Ok (take 12 (drop 500 rawCluster)) (rdr3AtCluster0\<lparr>currentOffset := 512\<rparr>)
   \<and> \<not> clusterSize (rdr3AtCluster0\<lparr>currentOffset := 500\<rparr>)
         \<le> currentOffset (rdr3AtCluster0\<lparr>currentOffset := 500\<rparr>)
   \<and> int (length (take 12 (drop 500 rawCluster))) = 12
   \<and> take 12 (drop 500 rawCluster)
       = slice (currentData (rdr3AtCluster0\<lparr>currentOffset := 500\<rparr>)) 500 (500 + 12)
   \<and> currentData (rdr3AtCluster0\<lparr>currentOffset := 512\<rparr>)
       = currentData (rdr3AtCluster0\<lparr>currentOffset := 500\<rparr>)
   \<and> Read storedInflate rdr3 1000 = Ok rawCluster (rdr3AtCluster0\<lparr>currentOffset := 512\<rparr>)
   \<and> int (length rawCluster) = min (clusterSize rdr3 - startOffset rdr3) (int 1000)
   \<and> int (length rawCluster) = 512"
proof -
  let ?s = "rdr3AtCluster0\<lparr>currentOffset := 500\<rparr>"
  have fill: "fillNextCluster storedInflate rdr3 = Ok () rdr3AtCluster0"
    by (simp add: rdr3AtCluster0_def fill_rdr3)
  have ev1: "Read storedInflate rdr3 100
      = Ok (take 100 rawCluster) (rdr3AtCluster0\<lparr>currentOffset := 100\<rparr>)"
    by (simp add: Read_eq rdr3_fields fill rdr3AtCluster0_fields slice_def len_rawCluster)
  have ev2: "Read storedInflate ?s 100
      = Ok (take 12 (drop 500 rawCluster)) (rdr3AtCluster0\<lparr>currentOffset := 512\<rparr>)"
    by (simp add: Read_eq rdr3AtCluster0_fields slice_def len_rawCluster)
  have so1: "startOffset rdr3 = 0" by (simp add: startOffset_def rdr3_fields)
  have so2: "startOffset ?s = 500" by (simp add: startOffset_def rdr3AtCluster0_fields)
  have nt: "\<not> clusterSize ?s \<le> currentOffset ?s" by (simp add: rdr3AtCluster0_fields)
  note t1 = read_within_one_cluster [OF ev1]
  note t2 = read_within_one_cluster [OF ev2]
  have b1: "bufferState storedInflate rdr3 = rdr3AtCluster0"
    by (simp add: bufferState_def rdr3_fields fill)
  from t1 have l1: "int (length (take 100 rawCluster)) = min (clusterSize rdr3 - startOffset rdr3) (int 100)"
    by (rule conjunct1)
  from t1 have "currentCluster (rdr3AtCluster0\<lparr>currentOffset := 100\<rparr>)
      = (if clusterSize rdr3 \<le> currentOffset rdr3 then currentCluster rdr3 + 1
         else currentCluster rdr3)"
    by blast
  then have c1: "currentCluster (rdr3AtCluster0\<lparr>currentOffset := 100\<rparr>) = currentCluster rdr3 + 1"
    by (simp add: rdr3_fields)
  from t2 have "int (length (take 12 (drop 500 rawCluster)))
      = min (clusterSize ?s - startOffset ?s) (int 100)"
    by (rule conjunct1)
  then have l2: "int (length (take 12 (drop 500 rawCluster))) = 12"
    by (simp add: so2 rdr3AtCluster0_fields)
  from t2 nt have x: "take 12 (drop 500 rawCluster)
       = slice (currentData ?s) (nat (currentOffset ?s))
           (nat (currentOffset ?s) + length (take 12 (drop 500 rawCluster)))"
    and d2: "currentData (rdr3AtCluster0\<lparr>currentOffset := 512\<rparr>) = currentData ?s"
    by blast+
  have lx: "length (take 12 (drop 500 rawCluster)) = 12" using l2 by linarith
  have n5: "nat (currentOffset ?s) = 500" by simp
  have s2: "take 12 (drop 500 rawCluster) = slice (currentData ?s) 500 (500 + 12)"
    using x unfolding n5 lx .
  have ev3: "Read storedInflate rdr3 1000
      = Ok rawCluster (rdr3AtCluster0\<lparr>currentOffset := 512\<rparr>)"
    by (simp add: Read_eq rdr3_fields fill rdr3AtCluster0_fields slice_def len_rawCluster)
  from read_within_one_cluster [OF ev3]
  have l3: "int (length rawCluster) = min (clusterSize rdr3 - startOffset rdr3) (int 1000)"
    by (rule conjunct1)
  then have l3': "int (length rawCluster) = 512" by (simp add: so1 rdr3_fields)
  from ev1 b1 l1 c1 ev2 nt l2 s2 d2 ev3 l3 l3' show ?thesis by blast
qed

subsection \<open>A read of length 0 at a cluster boundary\<close>

text \<open>
  Claim C10. When the intra-cluster offset equals the cluster size, as it does right
  after \<open>NewReader\<close>, a call of \<open>Read\<close> with a buffer of length 0 is the transition
  to the next cluster: it returns what \<open>fillNextCluster\<close> returns (an error, the
  end-of-stream signal, or no bytes with the state \<open>fillNextCluster\<close> reached), and
  unless it panics the cluster index has moved by one, so the reader state is not
  the one before the call.
\<close>

theorem zero_length_read_transition:
  assumes "(currentOffset r = clusterSize r \<and> 0 \<le> clusterSize r) \<or> NewReader img = Ok r img'"
  shows "Read inflate r 0 =
           (case fillNextCluster inflate r of
              Ok u r1 \<Rightarrow> Ok [] r1 | Err e r1 \<Rightarrow> Err e r1 | Panic \<Rightarrow> Panic)
         \<and> (Read inflate r 0 = Panic
              \<or> currentCluster (resState (Read inflate r 0)) = currentCluster r + 1)"
proof -
  have pre: "currentOffset r = clusterSize r \<and> 0 \<le> clusterSize r"
  proof (rule disjE [OF assms])
    assume "NewReader img = Ok r img'"
    from NewReader_state(1) [OF this] NewReader_sizes [OF this] show ?thesis by auto
  qed
  have eq: "Read inflate r 0 =
           (case fillNextCluster inflate r of
              Ok u r1 \<Rightarrow> Ok [] r1 | Err e r1 \<Rightarrow> Err e r1 | Panic \<Rightarrow> Panic)"
  proof (cases "fillNextCluster inflate r")
    case (Ok u r1)
    from fillNextCluster_Ok [OF Ok [unfolded unit_eq [of u]]] pre
    have "currentOffset r1 = 0" "clusterSize r1 = clusterSize r" "0 \<le> clusterSize r"
      by (simp_all add: sameSetup_def)
    moreover from this have "r1\<lparr>currentOffset := 0\<rparr> = r1" by (cases r1) simp
    ultimately show ?thesis using pre Ok by (simp add: Read_eq slice_def)
  next
    case (Err e r1)
    with pre show ?thesis by (simp add: Read_eq)
  next
    case Panic
    with pre show ?thesis by (simp add: Read_eq)
  qed
  have "Read inflate r 0 = Panic
        \<or> currentCluster (resState (Read inflate r 0)) = currentCluster r + 1"
  proof (cases "fillNextCluster inflate r")
    case (Ok u r1)
    from fillNextCluster_Ok(2) [OF Ok] Ok show ?thesis by (simp add: eq)
  next
    case (Err e r1)
    from fillNextCluster_Err(1) [OF Err] Err show ?thesis by (simp add: eq)
  next
    case Panic
    then show ?thesis by (simp add: eq)
  qed
  with eq show ?thesis by simp
qed

theorem zero_length_read_transition_witness:
  "NewReader img3 = Ok rdr3 (image_src rdr3)
   \<and> Read storedInflate rdr3 0 = Ok [] (resState (fillNextCluster storedInflate rdr3))
   \<and> currentCluster rdr3 = - 1
   \<and> currentCluster (resState (Read storedInflate rdr3 0)) = 0
   \<and> trace (image_src (resState (Read storedInflate rdr3 0)))
       = trace (image_src rdr3) @ [SeekTo 512, ReadAt 512 24, SeekTo 1024, ReadAt 1024 512]"
proof -
  have new: "NewReader img3 = Ok rdr3 (image_src rdr3)"
    by (simp add: NewReader_img3 rdr3_eq)
  note t = zero_length_read_transition [OF disjI2, OF new, of storedInflate]
  from t have rd: "Read storedInflate rdr3 0 = Ok [] (resState (fillNextCluster storedInflate rdr3))"
    by (simp add: fill_rdr3)
  from t have "Read storedInflate rdr3 0 = Panic
      \<or> currentCluster (resState (Read storedInflate rdr3 0)) = currentCluster rdr3 + 1"
    by (rule conjunct2)
  with rd have cc: "currentCluster (resState (Read storedInflate rdr3 0)) = 0"
    by (simp add: rdr3_fields)
  have tr: "trace (image_src (resState (Read storedInflate rdr3 0)))
       = trace (image_src rdr3) @ [SeekTo 512, ReadAt 512 24, SeekTo 1024, ReadAt 1024 512]"
    by (simp add: rd fill_rdr3 rdr3_fields)
  from new rd cc tr show ?thesis by (simp add: rdr3_fields)
qed

subsection \<open>Rejection at construction\<close>

text \<open>
  Claim C7, as amended. The fixed header is read before the magic is checked. An
  input with fewer than 72 bytes left therefore fails with the error of that read,
  whatever its first bytes are: \<^verbatim>\<open>io.EOF\<close> (end of stream) when no byte is left,
  \<^verbatim>\<open>io.ErrUnexpectedEOF\<close> (an I/O error) otherwise; the only call on the source is
  that read. For every input whose 72-byte header can be read: if its first 4 bytes
  differ from the magic, construction fails with the wrong-magic error (a
  \<open>FormatError\<close>) and the only call on the source is the read of the header. If the
  header has the magic and version 3, its 32-byte extension can be read and the
  incompatible-features field has the dirty, corrupt, external-data-file or
  extended-L2 bit or any bit above the five known ones, construction fails with an
  \<open>UnsupportedFeatureError\<close>: that of the backing file, of the cluster size or of the
  encryption when the header fails one of these earlier checks (in this order,
  after the read of the header only), and otherwise that of the first unsupported bit
  in the order above; the only calls on the source are the read of the header and at
  most the read of the extension: no seek and no read of the L1 table.
\<close>

theorem rejection_before_tables:
  "(length (drop (pos img) (bytes img)) < 72 \<longrightarrow>
      NewReader img
        = Err (if drop (pos img) (bytes img) = [] then EOF else ErrUnexpectedEOF)
              (img\<lparr>trace := trace img @ [ReadAt (pos img) 72],
                   pos := pos img + length (drop (pos img) (bytes img))\<rparr>)
      \<and> map_option errorClass (resError (NewReader img))
          = Some (if drop (pos img) (bytes img) = [] then EndOfStream else IOError))
   \<and> (ReadFull img 72 = (None, header, img1) \<and> slice header 0 4 \<noteq> magic \<longrightarrow>
        NewReader img = Err WrongMagic img1
        \<and> errorClass WrongMagic = FormatError
        \<and> trace img1 = trace img @ [ReadAt (pos img) 72])
   \<and> (ReadFull img 72 = (None, header, img1) \<and> slice header 0 4 = magic
        \<and> Uint32 (slice header 4 8) = 3
        \<and> ReadFull img1 32 = (None, v3Header, img2)
        \<and> f = Uint64 (slice v3Header 0 8)
        \<and> (bit f 0 \<or> bit f 1 \<or> bit f 2 \<or> bit f 4 \<or> f AND NOT 0b11111 \<noteq> 0) \<longrightarrow>
        NewReader img
          = (if Uint64 (slice header 8 16) \<noteq> 0 then Err BackingFileNotSupported img1
             else if Uint32 (slice header 20 24) < 9 \<or> Uint32 (slice header 20 24) > 21
               then Err ClusterSizeNotSupported img1
             else if Uint32 (slice header 32 36) \<noteq> 0 then Err EncryptionNotSupported img1
             else Err (featureError f) img2)
        \<and> map_option errorClass (resError (NewReader img)) = Some UnsupportedFeatureError
        \<and> (trace (resState (NewReader img)) = trace img @ [ReadAt (pos img) 72]
             \<or> trace (resState (NewReader img))
                 = trace img @ [ReadAt (pos img) 72, ReadAt (pos img + 72) 32]))"
proof (intro conjI impI)
  assume "length (drop (pos img) (bytes img)) < 72"
  from ReadFull_short [OF this]
  show eq: "NewReader img
        = Err (if drop (pos img) (bytes img) = [] then EOF else ErrUnexpectedEOF)
              (img\<lparr>trace := trace img @ [ReadAt (pos img) 72],
                   pos := pos img + length (drop (pos img) (bytes img))\<rparr>)"
    by (simp add: NewReader_def parseHeaderAndL1_def)
  show "map_option errorClass (resError (NewReader img))
          = Some (if drop (pos img) (bytes img) = [] then EndOfStream else IOError)"
    unfolding eq by simp
next
  assume a: "ReadFull img 72 = (None, header, img1) \<and> slice header 0 4 \<noteq> magic"
  then show "NewReader img = Err WrongMagic img1"
    by (simp add: NewReader_def parseHeaderAndL1_def)
  show "errorClass WrongMagic = FormatError" by simp
  from a have hd: "ReadFull img 72 = (None, header, img1)" by simp
  from ReadFull_None(5) [OF hd] show "trace img1 = trace img @ [ReadAt (pos img) 72]" by simp
next
  assume a: "ReadFull img 72 = (None, header, img1) \<and> slice header 0 4 = magic
        \<and> Uint32 (slice header 4 8) = 3
        \<and> ReadFull img1 32 = (None, v3Header, img2)
        \<and> f = Uint64 (slice v3Header 0 8)
        \<and> (bit f 0 \<or> bit f 1 \<or> bit f 2 \<or> bit f 4 \<or> f AND NOT 0b11111 \<noteq> 0)"
  then have hd: "ReadFull img 72 = (None, header, img1)"
    and rd: "ReadFull img1 32 = (None, v3Header, img2)"
    and mg: "slice header 0 4 = magic" and ver: "Uint32 (slice header 4 8) = 3"
    by simp_all
  from a have v3: "parseV3Header img1 = Err (featureError f) img2"
    using parseV3Header_rejects [of img1 v3Header img2] by blast
  show eq: "NewReader img
          = (if Uint64 (slice header 8 16) \<noteq> 0 then Err BackingFileNotSupported img1
             else if Uint32 (slice header 20 24) < 9 \<or> Uint32 (slice header 20 24) > 21
               then Err ClusterSizeNotSupported img1
             else if Uint32 (slice header 32 36) \<noteq> 0 then Err EncryptionNotSupported img1
             else Err (featureError f) img2)"
    by (simp add: NewReader_def parseHeaderAndL1_def hd mg ver v3 Let_def)
  show "map_option errorClass (resError (NewReader img)) = Some UnsupportedFeatureError"
    unfolding eq by (simp add: errorClass_featureError)
  from ReadFull_None(4,5) [OF hd] ReadFull_None(5) [OF rd]
  have "trace img1 = trace img @ [ReadAt (pos img) 72]"
    and "trace img2 = trace img @ [ReadAt (pos img) 72, ReadAt (pos img + 72) 32]"
    by simp_all
  then show "trace (resState (NewReader img)) = trace img @ [ReadAt (pos img) 72]
             \<or> trace (resState (NewReader img))
                 = trace img @ [ReadAt (pos img) 72, ReadAt (pos img + 72) 32]"
    unfolding eq by simp
qed

theorem rejection_before_tables_witness:
  "NewReader imgEmpty = Err EOF (imgEmpty\<lparr>trace := [ReadAt 0 72]\<rparr>)
   \<and> NewReader imgFourBytes
       = Err ErrUnexpectedEOF (imgFourBytes\<lparr>trace := [ReadAt 0 72], pos := 4\<rparr>)
   \<and> slice (0x50 # tl (header2 2 0 1)) 0 4 \<noteq> magic
   \<and> NewReader imgWrongMagic = Err WrongMagic (imgWrongMagic\<lparr>pos := 72, trace := [ReadAt 0 72]\<rparr>)
   \<and> bit (Uint64 (slice (v3block 0 1 104) 0 8)) 0
   \<and> NewReader imgDirty = Err DirtyBitSet (imgDirty\<lparr>pos := 104, trace := [ReadAt 0 72, ReadAt 72 32]\<rparr>)
   \<and> Uint64 (slice (header3[15 := 1]) 8 16) = 1
   \<and> NewReader imgBackedDirty
       = Err BackingFileNotSupported (imgBackedDirty\<lparr>pos := 72, trace := [ReadAt 0 72]\<rparr>)"
proof -
  have c0: "NewReader imgEmpty = Err EOF (imgEmpty\<lparr>trace := [ReadAt 0 72]\<rparr>)"
    using rejection_before_tables [where img = imgEmpty] by (simp add: imgEmpty_def)
  have c1: "NewReader imgFourBytes
       = Err ErrUnexpectedEOF (imgFourBytes\<lparr>trace := [ReadAt 0 72], pos := 4\<rparr>)"
    using rejection_before_tables [where img = imgFourBytes] by (simp add: imgFourBytes_def)
  have rd1: "ReadFull imgWrongMagic 72
     = (None, 0x50 # tl (header2 2 0 1), imgWrongMagic\<lparr>pos := 72, trace := [ReadAt 0 72]\<rparr>)"
    by (simp add: ReadFull_def imgWrongMagic_def header2_def Let_def)
  have m: "slice (0x50 # tl (header2 2 0 1)) 0 4 \<noteq> magic"
    by (simp add: slice_def header2_def magic_def)
  from rejection_before_tables [where img = imgWrongMagic and header = "0x50 # tl (header2 2 0 1)"
      and ?img1.0 = "imgWrongMagic\<lparr>pos := 72, trace := [ReadAt 0 72]\<rparr>"] rd1 m
  have c2: "NewReader imgWrongMagic
      = Err WrongMagic (imgWrongMagic\<lparr>pos := 72, trace := [ReadAt 0 72]\<rparr>)"
    by blast
  have rd2: "ReadFull imgDirty 72 = (None, header3, imgDirty\<lparr>pos := 72, trace := [ReadAt 0 72]\<rparr>)"
    by (simp add: imgDirty_def ReadFull_header3)
  have rd3: "ReadFull (imgDirty\<lparr>pos := 72, trace := [ReadAt 0 72]\<rparr>) 32
       = (None, v3block 0 1 104, imgDirty\<lparr>pos := 104, trace := [ReadAt 0 72, ReadAt 72 32]\<rparr>)"
    using ReadFull_v3block [of 0 1 104 "[]"] by (simp add: imgDirty_def)
  have b: "bit (Uint64 (slice (v3block 0 1 104) 0 8)) 0"
    by (simp add: v3block_fields)
  have "NewReader imgDirty
      = Err (featureError (Uint64 (slice (v3block 0 1 104) 0 8)))
            (imgDirty\<lparr>pos := 104, trace := [ReadAt 0 72, ReadAt 72 32]\<rparr>)"
    using rejection_before_tables [where img = imgDirty and header = header3
        and ?img1.0 = "imgDirty\<lparr>pos := 72, trace := [ReadAt 0 72]\<rparr>"
        and ?v3Header.0 = "v3block 0 1 104"
        and ?img2.0 = "imgDirty\<lparr>pos := 104, trace := [ReadAt 0 72, ReadAt 72 32]\<rparr>"
        and f = "Uint64 (slice (v3block 0 1 104) 0 8)"] rd2 rd3 b
    by (simp add: header3_fields)
  then have c3: "NewReader imgDirty
      = Err DirtyBitSet (imgDirty\<lparr>pos := 104, trace := [ReadAt 0 72, ReadAt 72 32]\<rparr>)"
    by (simp add: featureError_def v3block_fields)
  have lb: "length (header3[15 := 1]) = 72" by (simp add: len_header3)
  have rd4: "ReadFull imgBackedDirty 72
      = (None, header3[15 := 1], imgBackedDirty\<lparr>pos := 72, trace := [ReadAt 0 72]\<rparr>)"
    by (simp add: ReadFull_def Let_def imgBackedDirty_def len_header3)
  have rd5: "ReadFull (imgBackedDirty\<lparr>pos := 72, trace := [ReadAt 0 72]\<rparr>) 32
       = (None, v3block 0 1 104,
          imgBackedDirty\<lparr>pos := 104, trace := [ReadAt 0 72, ReadAt 72 32]\<rparr>)"
    by (simp add: ReadFull_def Let_def imgBackedDirty_def len_header3 len_v3block)
  have hb: "slice (header3[15 := 1]) 0 4 = magic" "Uint32 (slice (header3[15 := 1]) 4 8) = 3"
    "Uint64 (slice (header3[15 := 1]) 8 16) = 1"
    by (simp_all add: header3_def slice_def magic_def Uint32_def Uint64_def beUint_def)
  have c4: "NewReader imgBackedDirty
       = Err BackingFileNotSupported (imgBackedDirty\<lparr>pos := 72, trace := [ReadAt 0 72]\<rparr>)"
    using rejection_before_tables [where img = imgBackedDirty and header = "header3[15 := 1]"
        and ?img1.0 = "imgBackedDirty\<lparr>pos := 72, trace := [ReadAt 0 72]\<rparr>"
        and ?v3Header.0 = "v3block 0 1 104"
        and ?img2.0 = "imgBackedDirty\<lparr>pos := 104, trace := [ReadAt 0 72, ReadAt 72 32]\<rparr>"
        and f = "Uint64 (slice (v3block 0 1 104) 0 8)"] rd4 rd5 b
    by (simp add: hb)
  from c0 c1 m c2 b c3 hb(3) c4 show ?thesis by blast
qed

text \<open>
  The claim as stated fails on an input of four bytes that are not the magic: the
  read of the header fails first.
\<close>

theorem short_input_wrong_magic_counterexample:
  "take 4 (bytes imgFourBytes) \<noteq> magic
   \<and> NewReader imgFourBytes
       = Err ErrUnexpectedEOF (imgFourBytes\<lparr>pos := 4, trace := [ReadAt 0 72]\<rparr>)
   \<and> errorClass ErrUnexpectedEOF \<noteq> FormatError"
  by (simp add: NewReader_imgFourBytes) (simp add: imgFourBytes_def magic_def)

subsection \<open>The compression type\<close>

text \<open>
  Claim C8. The claim requires an image with the compression-type bit and a
  compression-type field other than 0 to fail with \<open>UnsupportedCompressionError\<close>.
  The source reads the field from \<^verbatim>\<open>v3Header[0:4]\<close>, the upper half of the
  incompatible-features field, which the check of the unknown bits has already
  forced to 0. So a nonzero value there fails with the unknown-features error, and
  an image whose compression type (the byte at offset 104) is 1 is accepted.
\<close>

theorem compression_type_read_from_feature_bits:
  "bit (Uint64 (slice (v3block 1 8 112) 0 8)) 3
   \<and> Uint32 (slice (v3block 1 8 112) 0 4) \<noteq> compressionTypeZlib
   \<and> NewReader imgFlaggedField
       = Err (UnknownIncompatibleFeatures 0x0100000000000000)
             (imgFlaggedField\<lparr>pos := 104, trace := [ReadAt 0 72, ReadAt 72 32]\<rparr>)
   \<and> errorClass (UnknownIncompatibleFeatures 0x0100000000000000) \<noteq> UnsupportedCompressionError
   \<and> bit (Uint64 (slice (v3block 0 8 112) 0 8)) 3
   \<and> bytes imgZstd ! 104 = 1
   \<and> isOk (NewReader imgZstd)"
proof -
  have "bytes imgZstd ! 104 = 1"
    by (simp add: imgZstd_def nth_append len_header3 len_v3block)
  then show ?thesis
    by (simp add: NewReader_imgFlaggedField NewReader_imgZstd v3block_fields compressionTypeZlib_def)
qed

subsection \<open>The cluster count\<close>

text \<open>
  Claim C9. The cluster count is \<^verbatim>\<open>int(virtualDiskSize) / clusterSize\<close>. For a
  virtual size of \<open>2 ^ 63\<close> and 512-byte clusters the header is accepted and the
  count is \<open>- (2 ^ 54)\<close>, while the size divided by the cluster size is \<open>2 ^ 54\<close>.
  Lemma \<open>nClusters_truncates\<close> shows that the count is the truncating quotient for
  every accepted header with a virtual size below \<open>2 ^ 63\<close>.
\<close>

theorem cluster_count_of_huge_disk:
  "Uint64 (slice (bytes imgHuge) 24 32) = 0x8000000000000000
   \<and> isOk (NewReader imgHuge)
   \<and> clusterSize (resValue (NewReader imgHuge)) = 512
   \<and> nClusters (resValue (NewReader imgHuge)) = - 18014398509481984
   \<and> uint (0x8000000000000000 :: 64 word) div 512 = 18014398509481984"
proof -
  have "Uint64 (slice (bytes imgHuge) 24 32) = 0x8000000000000000"
    by (simp add: imgHuge_def slice_def Uint64_def beUint_def)
  then show ?thesis by (simp add: NewReader_imgHuge)
qed

subsection \<open>The round trip\<close>



subsection \<open>Reads after the end of the stream\<close>

text \<open>
  Claim C3. The claim requires every read after the end-of-stream signal to report
  the end of the stream again. \<^verbatim>\<open>fillNextCluster\<close> increments the cluster index and
  then tests \<^verbatim>\<open>r.currentCluster == r.nClusters\<close>, so the call after the signal moves
  the index past the count and the reader goes on with the entries left in its L2
  table. On the all-zero image of one cluster, three reads of 512 bytes return the
  cluster, the signal, and 512 more zero bytes. On \<open>img3\<close>, five reads return the
  three clusters, the signal, and then the first 512 bytes of the image file itself
  (its header), because the fifth entry of the table in memory is still the zero value
  of an entry, a raw cluster at offset 0. That the signal comes on the read after the
  last byte and not before is part of lemma \<open>readLoop_good\<close>.
\<close>

theorem reads_after_end_of_stream:
  "nClusters rdrZero = 1 \<and> clusterSize rdrZero = 512
   \<and> readSeq storedInflate rdrZero [512, 512, 512]
       = [Some (Inr (replicate 512 0)), Some (Inl EOF), Some (Inr (replicate 512 0))]
   \<and> nClusters rdr3 = 3 \<and> clusterSize rdr3 = 512
   \<and> readSeq storedInflate rdr3 [512, 512, 512, 512, 512]
       = [Some (Inr rawCluster), Some (Inr (replicate 512 0)), Some (Inr packedCluster),
          Some (Inl EOF), Some (Inr (take 512 (bytes img3)))]"
proof -
  have z: "readSeq storedInflate rdrZero [512, 512, 512]
       = [Some (Inr (replicate 512 0)), Some (Inl EOF), Some (Inr (replicate 512 0))]"
    by (simp add: rdrZero_eq Read_eq fillNextCluster_def materializeCluster_def parseL2Table_def
          Let_def goRem_def goDiv_def storeAll_eq slice_def)
  have t: "readSeq storedInflate rdr3 [512, 512, 512, 512, 512]
       = [Some (Inr rawCluster), Some (Inr (replicate 512 0)), Some (Inr packedCluster),
          Some (Inl EOF), Some (Inr (take 512 (bytes img3)))]"
    by (simp add: Read_eq parseL2Table_rdr3 rdr3_fields slice_def len_rawCluster len_packedCluster
          fillNextCluster_def materializeCluster_def Let_def goRem_def goDiv_def storeAll_eq
          Seek_def ReadFull_def copy_def img3_def len_header2 storedInflate_packed)
  from z t show ?thesis by (simp add: rdrZero_fields rdr3_fields)
qed

subsection \<open>The extent of an L2 table read\<close>

text \<open>
  Claim C5. Let \<open>NewReader\<close> accept an image that encodes a byte sequence, and let \<open>r\<close>
  be a state of its reader reached by reads with non-empty buffers that all returned
  bytes. If \<open>r\<close> stands at the end of its cluster, before the first cluster of the L2
  table with the L1 index \<open>i\<close>, this cluster exists and \<open>l1Table[i]\<close> is not 0, then
  the next read succeeds and its first two calls on the byte source are the seek to
  \<open>l1Table[i]\<close> and one read there of exactly \<open>8 * entriesToRead\<close> bytes, where
  \<open>entriesToRead = min l2TableSize (nClusters - i * l2TableSize)\<close>. In every reached
  state that holds a cluster, the cluster index is below \<open>nClusters\<close> and its index in
  the L2 table is below the \<open>entriesToRead\<close> of that table, so no entry beyond those
  read is used. The decode delivers the bytes of exactly \<open>nClusters\<close> clusters. Every
  L1 index \<open>j\<close> with \<open>j * l2TableSize < nClusters\<close> is reached in this way, by
  \<open>j * l2TableSize\<close> reads of a full cluster. The instances below are \<open>img3\<close>, whose
  only L2 table is read with 3 entries (24 bytes), and \<open>img65\<close>, whose second L2
  table is read with one entry (8 bytes) after 64 clusters.
\<close>

theorem l2_table_read_extent:
  assumes new: "NewReader img = Ok r0 img'"
    and enc: "encodes inflate (bytes img) r0 data"
    and reqs: "\<forall>p \<in> set reqs. 0 < p"
    and st: "stateAfter inflate r0 reqs = Some r"
  shows "(currentOffset r = clusterSize r \<and> currentCluster r + 1 = i * l2TableSize r
          \<and> i * l2TableSize r < nClusters r \<and> l1Table r ! nat i \<noteq> 0 \<and> 0 < plen \<longrightarrow>
            isOk (Read inflate r plen)
            \<and> take (length (trace (image_src r)) + 2)
                (trace (image_src (resState (Read inflate r plen))))
              = trace (image_src r)
                @ [SeekTo (l1Table r ! nat i),
                   ReadAt (nat (l1Table r ! nat i))
                     (nat (8 * min (l2TableSize r) (nClusters r - i * l2TableSize r)))])
       \<and> (0 \<le> currentCluster r \<longrightarrow>
            currentCluster r < nClusters r
            \<and> goRem (currentCluster r) (l2TableSize r)
                < min (l2TableSize r)
                    (nClusters r - goDiv (currentCluster r) (l2TableSize r) * l2TableSize r))
       \<and> (length data < length rest \<and> (\<forall>p \<in> set rest. 0 < p) \<longrightarrow>
            delivered (readLoop inflate r0 rest) = Some (EOF, data)
            \<and> length data = nat (nClusters r0) * nat (clusterSize r0))
       \<and> (0 \<le> j \<and> j * l2TableSize r0 < nClusters r0 \<longrightarrow>
            map_option (\<lambda>s. (currentOffset s, currentCluster s + 1))
              (stateAfter inflate r0
                 (replicate (nat (j * l2TableSize r0)) (nat (clusterSize r0))))
            = Some (clusterSize r0, j * l2TableSize r0))"
proof (intro conjI impI)
  from NewReader_good [OF new enc] have g0: "good inflate data r0"
    and rem0: "remaining data r0 = data" by simp_all
  from stateAfter_good [OF g0 reqs st] have g: "good inflate data r" by simp
  have l2: "0 < l2TableSize r" by (rule goodD(2) [OF g])
  have n0: "0 \<le> nClusters r" by (rule encodesD(1) [OF goodD(3) [OF g]])
  {
    assume a: "currentOffset r = clusterSize r \<and> currentCluster r + 1 = i * l2TableSize r
          \<and> i * l2TableSize r < nClusters r \<and> l1Table r ! nat i \<noteq> 0 \<and> 0 < plen"
    then have off: "currentOffset r = clusterSize r"
      and ci: "currentCluster r + 1 = i * l2TableSize r"
      and more: "i * l2TableSize r < nClusters r" and tab: "l1Table r ! nat i \<noteq> 0"
      and p: "0 < plen" by simp_all
    have "0 \<le> i * l2TableSize r" using goodD(6) [OF g] ci by linarith
    then have i0: "0 \<le> i" using l2 by (simp add: zero_le_mult_iff)
    define L where "L = nat (l2TableSize r)"
    define I where "I = nat i"
    define N where "N = nat (nClusters r)"
    have ints: "l2TableSize r = int L" "i = int I" "nClusters r = int N"
      using l2 i0 n0 by (simp_all add: L_def I_def N_def)
    have Lp: "0 < L" using l2 by (simp add: L_def)
    have c: "nat (currentCluster r + 1) = I * L"
      unfolding ci ints by (simp add: nat_mult_distrib)
    have lt: "I * L < N" using more unfolding ints by (metis of_nat_mult of_nat_less_iff)
    have cnt: "8 * min L (N - I * L)
                 = nat (8 * min (l2TableSize r) (nClusters r - i * l2TableSize r))"
    proof -
      have "I * L \<le> N" using lt by simp
      then have "int (N - I * L) = int N - int I * int L" by (simp add: of_nat_diff)
      moreover have "int (min L (N - I * L)) = min (int L) (int (N - I * L))" by (rule of_nat_min)
      ultimately have "int (min L (N - I * L)) = min (int L) (int N - int I * int L)" by simp
      then have "nat (8 * min (int L) (int N - int I * int L)) = 8 * min L (N - I * L)"
        by (metis nat_int of_nat_mult of_nat_numeral)
      then show ?thesis by (simp add: ints)
    qed
    have ne: "remaining data r \<noteq> []"
      using boundary_remaining [OF g off] more ci by simp
    from Read_good [OF g p] ne off obtain out r' where
      rd: "Read inflate r plen = Ok out r'"
      and tr: "let c = nat (currentCluster r + 1); l2 = nat (l2TableSize r);
                   tab = l1Table r ! (c div l2)
               in c mod l2 = 0 \<and> tab \<noteq> 0 \<longrightarrow>
                    (\<exists>rest. trace (image_src r')
                       = trace (image_src r)
                         @ [SeekTo tab,
                            ReadAt (nat tab) (8 * min l2 (nat (nClusters r) - c div l2 * l2))]
                         @ rest)"
      by auto
    from tr tab Lp obtain rest where
      "trace (image_src r')
         = trace (image_src r)
           @ [SeekTo (l1Table r ! I), ReadAt (nat (l1Table r ! I)) (8 * min L (N - I * L))] @ rest"
      unfolding c Let_def L_def [symmetric] N_def [symmetric] by (auto simp: I_def)
    then have "take (length (trace (image_src r)) + 2) (trace (image_src r'))
         = trace (image_src r)
           @ [SeekTo (l1Table r ! I), ReadAt (nat (l1Table r ! I)) (8 * min L (N - I * L))]"
      by simp
    then show "isOk (Read inflate r plen)"
      and "take (length (trace (image_src r)) + 2)
                (trace (image_src (resState (Read inflate r plen))))
              = trace (image_src r)
                @ [SeekTo (l1Table r ! nat i),
                   ReadAt (nat (l1Table r ! nat i))
                     (nat (8 * min (l2TableSize r) (nClusters r - i * l2TableSize r)))]"
      unfolding cnt [symmetric] by (simp_all add: rd I_def)
  }
  {
    assume cc: "0 \<le> currentCluster r"
    from goodD(10) [OF g cc] show lt: "currentCluster r < nClusters r" .
    have d: "goDiv (currentCluster r) (l2TableSize r) = currentCluster r div l2TableSize r"
      and m: "goRem (currentCluster r) (l2TableSize r) = currentCluster r mod l2TableSize r"
      using cc l2 by (simp_all add: goDiv_pos goRem_pos)
    have "currentCluster r mod l2TableSize r < l2TableSize r" using l2 by simp
    moreover have "currentCluster r mod l2TableSize r
        < nClusters r - currentCluster r div l2TableSize r * l2TableSize r"
      using lt by (simp add: algebra_simps mod_mult_div_eq less_diff_eq)
    ultimately show "goRem (currentCluster r) (l2TableSize r)
                < min (l2TableSize r)
                    (nClusters r - goDiv (currentCluster r) (l2TableSize r) * l2TableSize r)"
      unfolding d m by simp
  }
  {
    assume a: "length data < length rest \<and> (\<forall>p \<in> set rest. 0 < p)"
    then have fuel: "length (remaining data r0) < length rest" and ps: "\<forall>p \<in> set rest. 0 < p"
      by (simp_all add: rem0)
    from readLoop_good [OF g0 ps fuel]
    obtain r' where "readLoop inflate r0 rest = Stopped EOF data r'" by (auto simp: rem0)
    then show "delivered (readLoop inflate r0 rest) = Some (EOF, data)" by simp
    show "length data = nat (nClusters r0) * nat (clusterSize r0)"
      by (rule encodesD(2) [OF enc])
  }
  {
    assume "0 \<le> j \<and> j * l2TableSize r0 < nClusters r0"
    then have j: "0 \<le> j" "j * l2TableSize r0 < nClusters r0" by simp_all
    show "map_option (\<lambda>s. (currentOffset s, currentCluster s + 1))
              (stateAfter inflate r0
                 (replicate (nat (j * l2TableSize r0)) (nat (clusterSize r0))))
            = Some (clusterSize r0, j * l2TableSize r0)"
      by (rule table_reached [OF new enc j])
  }
qed

theorem l2_table_read_extent_witness:
  "NewReader img3 = Ok rdr3 (img3\<lparr>pos := 80, trace := [ReadAt 0 72, SeekTo 72, ReadAt 72 8]\<rparr>)
   \<and> stateAfter storedInflate rdr3 [] = Some rdr3
   \<and> l1Table rdr3 ! nat 0 = 512
   \<and> isOk (Read storedInflate rdr3 100)
   \<and> take 5 (trace (image_src (resState (Read storedInflate rdr3 100))))
       = [ReadAt 0 72, SeekTo 72, ReadAt 72 8, SeekTo 512, ReadAt 512 24]
   \<and> NewReader img65
       = Ok rdr65 (img65\<lparr>pos := 88, trace := [ReadAt 0 72, SeekTo 72, ReadAt 72 16]\<rparr>)
   \<and> stateAfter storedInflate rdr65 (replicate 64 512) = Some rdr65AtTable1
   \<and> currentCluster rdr65AtTable1 = 63 \<and> currentOffset rdr65AtTable1 = 512
   \<and> l1Table rdr65AtTable1 ! nat 1 = 512
   \<and> isOk (Read storedInflate rdr65AtTable1 100)
   \<and> take (length (trace (image_src rdr65AtTable1)) + 2)
         (trace (image_src (resState (Read storedInflate rdr65AtTable1 100))))
       = trace (image_src rdr65AtTable1) @ [SeekTo 512, ReadAt 512 8]
   \<and> goRem 63 64 < min 64 (65 - goDiv 63 64 * 64)
   \<and> delivered (readLoop storedInflate rdr65 (replicate 33281 4096)) = Some (EOF, data65)"
proof -
  have new3: "NewReader img3
      = Ok rdr3 (img3\<lparr>pos := 80, trace := [ReadAt 0 72, SeekTo 72, ReadAt 72 8]\<rparr>)"
    by (simp add: rdr3_eq NewReader_img3)
  have enc3: "encodes storedInflate (bytes img3) rdr3 data3" by (rule encodes_img3)
  have q0: "\<forall>p \<in> set []. 0 < (p::nat)" by simp
  have st3: "stateAfter storedInflate rdr3 [] = Some rdr3" by simp
  have t3: "l1Table rdr3 ! nat 0 = 512" by (simp add: rdr3_fields)
  have h3: "currentOffset rdr3 = clusterSize rdr3 \<and> currentCluster rdr3 + 1 = 0 * l2TableSize rdr3
      \<and> 0 * l2TableSize rdr3 < nClusters rdr3 \<and> l1Table rdr3 ! nat 0 \<noteq> 0 \<and> 0 < (100::nat)"
    by (simp add: rdr3_fields)
  from l2_table_read_extent [OF new3 enc3 q0 st3, where i = 0 and plen = 100] h3
  have x3: "isOk (Read storedInflate rdr3 100)
      \<and> take (length (trace (image_src rdr3)) + 2)
            (trace (image_src (resState (Read storedInflate rdr3 100))))
          = trace (image_src rdr3)
            @ [SeekTo (l1Table rdr3 ! nat 0),
               ReadAt (nat (l1Table rdr3 ! nat 0))
                 (nat (8 * min (l2TableSize rdr3) (nClusters rdr3 - 0 * l2TableSize rdr3)))]"
    by blast
  have l3: "length (trace (image_src rdr3)) + 2 = 5" by (simp add: rdr3_fields)
  have r3: "trace (image_src rdr3)
            @ [SeekTo (l1Table rdr3 ! nat 0),
               ReadAt (nat (l1Table rdr3 ! nat 0))
                 (nat (8 * min (l2TableSize rdr3) (nClusters rdr3 - 0 * l2TableSize rdr3)))]
          = [ReadAt 0 72, SeekTo 72, ReadAt 72 8, SeekTo 512, ReadAt 512 24]"
    by (simp add: rdr3_fields)
  have a3: "isOk (Read storedInflate rdr3 100)
      \<and> take 5 (trace (image_src (resState (Read storedInflate rdr3 100))))
          = [ReadAt 0 72, SeekTo 72, ReadAt 72 8, SeekTo 512, ReadAt 512 24]"
    using x3 unfolding l3 r3 .
  have e65: "rdr65 = resValue (NewReader img65)" by (rule rdr65_def)
  have new65: "NewReader img65
       = Ok rdr65 (img65\<lparr>pos := 88, trace := [ReadAt 0 72, SeekTo 72, ReadAt 72 16]\<rparr>)"
    by (simp add: e65 NewReader_img65)
  have enc65: "encodes storedInflate (bytes img65) rdr65 data65" by (rule encodes_img65)
  have st0: "stateAfter storedInflate rdr65 [] = Some rdr65" by simp
  from l2_table_read_extent [OF new65 enc65 q0 st0, where j = 1]
  have "map_option (\<lambda>s. (currentOffset s, currentCluster s + 1))
          (stateAfter storedInflate rdr65 (replicate 64 512)) = Some (512, 64)"
    by (simp add: rdr65_fields)
  then obtain s where s: "stateAfter storedInflate rdr65 (replicate 64 512) = Some s"
    and so: "currentOffset s = 512" and sc: "currentCluster s + 1 = 64"
    by auto
  have rs: "rdr65AtTable1 = s" by (simp add: rdr65AtTable1_def s)
  have st64: "stateAfter storedInflate rdr65 (replicate 64 512) = Some rdr65AtTable1"
    by (simp add: rs s)
  have cc: "currentCluster rdr65AtTable1 = 63" and off: "currentOffset rdr65AtTable1 = 512"
    using so sc by (simp_all add: rs)
  have q64: "\<forall>p \<in> set (replicate 64 512). 0 < (p::nat)" by simp
  from NewReader_good [OF new65 enc65] have g0: "good storedInflate data65 rdr65" by simp
  from stateAfter_good [OF g0 q64 st64] have "sameSetup rdr65 rdr65AtTable1" by simp
  then have f: "clusterSize rdr65AtTable1 = 512" "nClusters rdr65AtTable1 = 65"
    "l1Table rdr65AtTable1 = [0, 512]" "l2TableSize rdr65AtTable1 = 64"
    by (simp_all add: sameSetup_def rdr65_fields)
  have t65: "l1Table rdr65AtTable1 ! nat 1 = 512" by (simp add: f)
  have len: "length data65 = 33280" by (simp add: data65_def len_rawCluster)
  note inst = l2_table_read_extent [OF new65 enc65 q64 st64, where i = 1 and plen = 100
      and rest = "replicate 33281 4096"]
  from inst have a65: "isOk (Read storedInflate rdr65AtTable1 100)
      \<and> take (length (trace (image_src rdr65AtTable1)) + 2)
            (trace (image_src (resState (Read storedInflate rdr65AtTable1 100))))
          = trace (image_src rdr65AtTable1) @ [SeekTo 512, ReadAt 512 8]"
    by (simp add: f cc off)
  from inst have b65: "goRem 63 64 < min 64 (65 - goDiv 63 64 * 64)"
    by (simp add: f cc off)
  from inst have c65: "delivered (readLoop storedInflate rdr65 (replicate 33281 4096))
      = Some (EOF, data65)"
    by (simp add: len)
  from new3 st3 t3 a3 new65 st64 cc off t65 a65 b65 c65 show ?thesis by blast
qed

subsection \<open>Absent L2 tables and all-zero images\<close>

text \<open>
  Claim C6, as amended. For every L1 index \<open>i\<close> with \<open>l1Table[i] = 0\<close>,
  \<open>parseL2Table\<close> fills the L2 table in memory with \<open>l2TableSize\<close> all-zero entries and
  changes nothing else: the byte source is not touched. Let \<open>NewReader\<close> accept an image
  whose L1 entries are all 0, whose virtual size is below \<open>2 ^ 63\<close> and whose L1 table
  has an entry for each of its clusters
  (\<open>nClusters \<le> length l1Table * l2TableSize\<close>). Then the decode delivers exactly
  \<open>nClusters * clusterSize\<close> bytes, every byte 0, followed by the end-of-stream
  signal; this count is the virtual size rounded down to a multiple of the cluster
  size, hence the virtual size itself when that is a multiple of the cluster size;
  and the byte source of the last state is the one that \<open>NewReader\<close> returned, with
  the same position and the same trace: no seek and no read after construction.
\<close>

theorem all_zero_image:
  "(0 \<le> i \<and> nat i < length (l1Table r) \<and> l1Table r ! nat i = 0
      \<and> length (currentL2Table r) = nat (l2TableSize r) \<longrightarrow>
      parseL2Table r i
        = Ok () (r\<lparr>currentL2Table := replicate (nat (l2TableSize r)) allZeroEntry\<rparr>))
   \<and> (NewReader img = Ok r0 img' \<and> ReadFull img 72 = (None, header, img1)
        \<and> uint (Uint64 (slice header 24 32)) < 2 ^ 63
        \<and> (\<forall>t \<in> set (l1Table r0). t = 0)
        \<and> nClusters r0 \<le> int (length (l1Table r0)) * l2TableSize r0
        \<and> (\<forall>p \<in> set reqs. 0 < p)
        \<and> nat (nClusters r0) * nat (clusterSize r0) < length reqs \<longrightarrow>
        delivered (readLoop inflate r0 reqs)
          = Some (EOF, replicate (nat (nClusters r0) * nat (clusterSize r0)) 0)
        \<and> int (nat (nClusters r0) * nat (clusterSize r0))
            = uint (Uint64 (slice header 24 32))
              - uint (Uint64 (slice header 24 32)) mod clusterSize r0
        \<and> map_option image_src (lastState (readLoop inflate r0 reqs)) = Some img')"
proof (intro conjI impI)
  assume "0 \<le> i \<and> nat i < length (l1Table r) \<and> l1Table r ! nat i = 0
      \<and> length (currentL2Table r) = nat (l2TableSize r)"
  then show "parseL2Table r i
        = Ok () (r\<lparr>currentL2Table := replicate (nat (l2TableSize r)) allZeroEntry\<rparr>)"
    by (simp add: parseL2Table_absent allZeroEntry_def)
next
  assume a: "NewReader img = Ok r0 img' \<and> ReadFull img 72 = (None, header, img1)
        \<and> uint (Uint64 (slice header 24 32)) < 2 ^ 63
        \<and> (\<forall>t \<in> set (l1Table r0). t = 0)
        \<and> nClusters r0 \<le> int (length (l1Table r0)) * l2TableSize r0
        \<and> (\<forall>p \<in> set reqs. 0 < p)
        \<and> nat (nClusters r0) * nat (clusterSize r0) < length reqs"
  then have new: "NewReader img = Ok r0 img'" and hd: "ReadFull img 72 = (None, header, img1)"
    and small: "uint (Uint64 (slice header 24 32)) < 2 ^ 63"
    and zero: "\<forall>t \<in> set (l1Table r0). t = 0"
    and cover: "nClusters r0 \<le> int (length (l1Table r0)) * l2TableSize r0"
    and reqs: "\<forall>p \<in> set reqs. 0 < p"
    and fuel: "nat (nClusters r0) * nat (clusterSize r0) < length reqs"
    by simp_all
  define vs where "vs = uint (Uint64 (slice header 24 32))"
  define data :: "byte list" where "data = replicate (nat (nClusters r0) * nat (clusterSize r0)) 0"
  from NewReader_sizes [OF new] obtain cb where
    cs: "clusterSize r0 = 2 ^ cb" and l2: "l2TableSize r0 = 2 ^ (cb - 3)" by blast
  have csp: "0 < clusterSize r0" and l2p: "0 < l2TableSize r0" by (simp_all add: cs l2)
  from NewReader_state(6) [OF new] obtain cfg where
    cfg: "parseHeaderAndL1 img = Ok cfg img'" and cse: "clusterSize r0 = clusterSize cfg"
    and ne: "nClusters r0 = nClusters cfg" by blast
  from nClusters_truncates [OF cfg hd small]
  have n: "nClusters r0 = vs div clusterSize r0" by (simp add: ne cse vs_def)
  have vs0: "0 \<le> vs" by (simp add: vs_def)
  have n0: "0 \<le> nClusters r0" unfolding n using vs0 csp by (simp add: pos_imp_zdiv_nonneg_iff)
  have enc: "encodes inflate (bytes img) r0 data"
    unfolding data_def by (rule encodes_zero [OF csp l2p n0 zero cover])
  from NewReader_good [OF new enc] have g: "good inflate data r0"
    and rem: "remaining data r0 = data" by simp_all
  have fl: "length (remaining data r0) < length reqs" unfolding rem using fuel by (simp add: data_def)
  from readLoop_good [OF g reqs fl] zero obtain r' where
    rl: "readLoop inflate r0 reqs = Stopped EOF data r'" and src: "image_src r' = image_src r0"
    by (auto simp: rem)
  show "delivered (readLoop inflate r0 reqs)
          = Some (EOF, replicate (nat (nClusters r0) * nat (clusterSize r0)) 0)"
    by (simp add: rl data_def)
  show "map_option image_src (lastState (readLoop inflate r0 reqs)) = Some img'"
    by (simp add: rl src NewReader_state(3) [OF new])
  have "int (nat (nClusters r0) * nat (clusterSize r0)) = nClusters r0 * clusterSize r0"
    using n0 csp by simp
  also have "\<dots> = vs - vs mod clusterSize r0"
    unfolding n by (simp add: minus_mod_eq_div_mult)
  finally show "int (nat (nClusters r0) * nat (clusterSize r0))
            = uint (Uint64 (slice header 24 32))
              - uint (Uint64 (slice header 24 32)) mod clusterSize r0"
    by (simp add: vs_def)
qed

theorem all_zero_image_witness:
  "parseL2Table rdrZero 0 = Ok () (rdrZero\<lparr>currentL2Table := replicate 64 allZeroEntry\<rparr>)
   \<and> NewReader imgZero
       = Ok rdrZero (imgZero\<lparr>pos := 80, trace := [ReadAt 0 72, SeekTo 72, ReadAt 72 8]\<rparr>)
   \<and> l1Table rdrZero = [0]
   \<and> uint (Uint64 (slice (header2 2 0 1) 24 32)) = 512
   \<and> delivered (readLoop storedInflate rdrZero (replicate 513 4096)) = Some (EOF, replicate 512 0)
   \<and> map_option image_src (lastState (readLoop storedInflate rdrZero (replicate 513 4096)))
       = Some (imgZero\<lparr>pos := 80, trace := [ReadAt 0 72, SeekTo 72, ReadAt 72 8]\<rparr>)
   \<and> NewReader imgZero65
       = Ok rdrZero65 (imgZero65\<lparr>pos := 88, trace := [ReadAt 0 72, SeekTo 72, ReadAt 72 16]\<rparr>)
   \<and> l1Table rdrZero65 = [0, 0]
   \<and> uint (Uint64 (slice (header2 0x82 0 2) 24 32)) = 65 * 512
   \<and> delivered (readLoop storedInflate rdrZero65 (replicate 33281 4096))
       = Some (EOF, replicate (65 * 512) 0)
   \<and> map_option image_src (lastState (readLoop storedInflate rdrZero65 (replicate 33281 4096)))
       = Some (imgZero65\<lparr>pos := 88, trace := [ReadAt 0 72, SeekTo 72, ReadAt 72 16]\<rparr>)"
proof -
  have p1: "parseL2Table rdrZero 0
      = Ok () (rdrZero\<lparr>currentL2Table := replicate 64 allZeroEntry\<rparr>)"
    using all_zero_image [where r = rdrZero and i = 0] by (simp add: rdrZero_fields)
  have new1: "NewReader imgZero
       = Ok rdrZero (imgZero\<lparr>pos := 80, trace := [ReadAt 0 72, SeekTo 72, ReadAt 72 8]\<rparr>)"
    by (simp add: rdrZero_eq NewReader_imgZero)
  have hd1: "ReadFull imgZero 72
      = (None, header2 2 0 1, imgZero\<lparr>pos := 72, trace := [ReadAt 0 72]\<rparr>)"
    by (simp add: ReadFull_def imgZero_def len_header2 Let_def)
  have vs1: "uint (Uint64 (slice (header2 2 0 1) 24 32)) = 512"
    by (simp add: header2_sizesZero)
  have l1: "l1Table rdrZero = [0]" by (simp add: rdrZero_fields)
  have q1: "\<forall>p \<in> set (replicate 513 4096). 0 < (p::nat)" by simp
  from all_zero_image [where img = imgZero and ?r0.0 = rdrZero
      and img' = "imgZero\<lparr>pos := 80, trace := [ReadAt 0 72, SeekTo 72, ReadAt 72 8]\<rparr>"
      and header = "header2 2 0 1"
      and ?img1.0 = "imgZero\<lparr>pos := 72, trace := [ReadAt 0 72]\<rparr>"
      and reqs = "replicate 513 4096" and inflate = storedInflate] new1 hd1 vs1 q1
  have d1: "delivered (readLoop storedInflate rdrZero (replicate 513 4096))
              = Some (EOF, replicate 512 0)
            \<and> map_option image_src (lastState (readLoop storedInflate rdrZero (replicate 513 4096)))
              = Some (imgZero\<lparr>pos := 80, trace := [ReadAt 0 72, SeekTo 72, ReadAt 72 8]\<rparr>)"
    by (simp add: rdrZero_fields)
  have e65: "rdrZero65 = resValue (NewReader imgZero65)" by (rule rdrZero65_def)
  have f65: "clusterSize rdrZero65 = 512" "nClusters rdrZero65 = 65" "l1Table rdrZero65 = [0, 0]"
    "l2TableSize rdrZero65 = 64"
    by (simp_all add: e65 NewReader_imgZero65)
  have new2: "NewReader imgZero65
       = Ok rdrZero65 (imgZero65\<lparr>pos := 88, trace := [ReadAt 0 72, SeekTo 72, ReadAt 72 16]\<rparr>)"
    by (simp add: e65 NewReader_imgZero65)
  have hd2: "ReadFull imgZero65 72
      = (None, header2 0x82 0 2, imgZero65\<lparr>pos := 72, trace := [ReadAt 0 72]\<rparr>)"
    by (simp add: ReadFull_def imgZero65_def len_header2 Let_def)
  have vs2: "uint (Uint64 (slice (header2 0x82 0 2) 24 32)) = 65 * 512"
    by (simp add: header2_sizes65)
  have q2: "\<forall>p \<in> set (replicate 33281 4096). 0 < (p::nat)" by simp
  from all_zero_image [where img = imgZero65 and ?r0.0 = rdrZero65
      and img' = "imgZero65\<lparr>pos := 88, trace := [ReadAt 0 72, SeekTo 72, ReadAt 72 16]\<rparr>"
      and header = "header2 0x82 0 2"
      and ?img1.0 = "imgZero65\<lparr>pos := 72, trace := [ReadAt 0 72]\<rparr>"
      and reqs = "replicate 33281 4096" and inflate = storedInflate] new2 hd2 vs2 q2
  have d2: "delivered (readLoop storedInflate rdrZero65 (replicate 33281 4096))
              = Some (EOF, replicate (65 * 512) 0)
            \<and> map_option image_src (lastState (readLoop storedInflate rdrZero65 (replicate 33281 4096)))
              = Some (imgZero65\<lparr>pos := 88, trace := [ReadAt 0 72, SeekTo 72, ReadAt 72 16]\<rparr>)"
    by (simp add: f65)
  from p1 new1 l1 vs1 d1 new2 f65(3) vs2 d2 show ?thesis by blast
qed

text \<open>
  The claim as stated fails on an all-zero image with a virtual size of 513 and
  512-byte clusters: the decode delivers 512 bytes, not 513, because the cluster count
  is the truncating quotient. It also fails when the L1 table is too short for the
  clusters: with one cluster and an empty L1 table the first read indexes the L1
  table out of range.
\<close>

theorem unaligned_zero_image_counterexample:
  "isOk (NewReader imgZero513)
   \<and> uint (Uint64 (slice (bytes imgZero513) 24 32)) = 513
   \<and> l1Table rdrZero513 = [0]
   \<and> delivered (readLoop storedInflate rdrZero513 [512, 512]) = Some (EOF, replicate 512 0)
   \<and> length (replicate 512 (0::byte)) \<noteq> 513
   \<and> isOk (NewReader imgNoL1)
   \<and> uint (Uint64 (slice (bytes imgNoL1) 24 32)) = 512
   \<and> l1Table rdrNoL1 = []
   \<and> readLoop storedInflate rdrNoL1 [512] = Crashed"
proof -
  have e: "rdrZero513 = resValue (NewReader imgZero513)" by (rule rdrZero513_def)
  have vs: "uint (Uint64 (slice (bytes imgZero513) 24 32)) = 513"
    by (simp add: imgZero513_def header2_def slice_def Uint64_bytes)
  have rl: "readLoop storedInflate rdrZero513 [512, 512]
      = Stopped EOF (replicate 512 0)
          (resValue (NewReader imgZero513)\<lparr>currentCluster := 1,
             currentL2Table := replicate 64 \<lparr>offset = 0, compressed = False, allZeroes = True\<rparr>\<rparr>)"
    by (simp add: e NewReader_imgZero513 Read_eq fillNextCluster_def materializeCluster_def
          parseL2Table_def Let_def goRem_def goDiv_def storeAll_eq slice_def)
  have d: "delivered (readLoop storedInflate rdrZero513 [512, 512]) = Some (EOF, replicate 512 0)"
    unfolding rl by simp
  have ok: "isOk (NewReader imgZero513)" by (simp add: NewReader_imgZero513)
  have l1: "l1Table rdrZero513 = [0]" by (simp add: e NewReader_imgZero513)
  have ne: "length (replicate 512 (0::byte)) \<noteq> 513" by simp
  have ok2: "isOk (NewReader imgNoL1)" by (simp add: NewReader_imgNoL1)
  have vs2: "uint (Uint64 (slice (bytes imgNoL1) 24 32)) = 512"
    by (simp add: imgNoL1_def header2_def slice_def Uint64_bytes)
  have cr: "l1Table rdrNoL1 = [] \<and> readLoop storedInflate rdrNoL1 [512] = Crashed"
    by (simp add: rdrNoL1_def NewReader_imgNoL1 Read_eq fillNextCluster_def parseL2Table_def
          Let_def goRem_def goDiv_def)
  from ok vs l1 d ne ok2 vs2 cr show ?thesis by blast
qed
end
